(* ===== verification/Prelude.thy ===== *)
theory Prelude
  imports Complex_Main "HOL-Library.Multiset"
begin

text \<open>
  Shared vocabulary of the PowerGym development: the types that name the values the
  React components keep in their \<open>useState\<close> slots, JavaScript truthiness of the
  values the components test with \<open>!x\<close> and \<open>&&\<close>, the collection of step
  equations the component proofs rewrite with, and a few generic facts on lists,
  options and multisets that several components use.
\<close>

section \<open>Model types\<close>

text \<open>
  A JavaScript string is modelled as an Isabelle \<open>string\<close> (a list of characters);
  an integer pixel width (\<open>window.innerWidth\<close>) as an \<open>int\<close>; a component
  instance that may subscribe to window events by a number.
\<close>

type_synonym js_string = string
type_synonym pixels = int
type_synonym consumer_id = nat

named_theorems step_simps "equations of the components' event handlers"

section \<open>JavaScript truthiness\<close>

text \<open>
  The components guard handlers and \<open>disabled\<close> props with \<open>!s\<close> on strings
  (\<open>!formData.email\<close>): a string is falsy exactly when it is empty.
\<close>

definition js_truthy_str :: "js_string \<Rightarrow> bool" where
  "js_truthy_str s \<longleftrightarrow> s \<noteq> []"

lemma js_truthy_str_simps [simp]:
  "\<not> js_truthy_str []"
  "js_truthy_str (c # cs)"
  by (simp_all add: js_truthy_str_def)

lemma js_truthy_str_append [simp]:
  "js_truthy_str (xs @ ys) \<longleftrightarrow> js_truthy_str xs \<or> js_truthy_str ys"
  by (simp add: js_truthy_str_def)

text \<open>
  The sources are UTF-8; a non-ASCII letter of a string literal is the list of its
  bytes.
\<close>

definition a_grave :: js_string where "a_grave = [CHR 0xC3, CHR 0xA0]"
definition e_grave :: js_string where "e_grave = [CHR 0xC3, CHR 0xA8]"
definition i_grave :: js_string where "i_grave = [CHR 0xC3, CHR 0xAC]"
definition u_grave :: js_string where "u_grave = [CHR 0xC3, CHR 0xB9]"

section \<open>Personal data of the two forms\<close>

text \<open>
  Both wizards (FreeTrialModal.tsx and Memberships.tsx) keep the fields
  \<open>firstName\<close>, \<open>lastName\<close>, \<open>email\<close> and \<open>phone\<close> in their form
  record; each form extends this record with its own fields. Both gate their personal
  data step on all four being non-empty.
\<close>

record personal_info =
  firstName :: js_string
  lastName :: js_string
  email :: js_string
  phone :: js_string

definition personal_complete :: "'a personal_info_scheme \<Rightarrow> bool" where
  "personal_complete f \<longleftrightarrow>
     js_truthy_str (firstName f) \<and> js_truthy_str (lastName f) \<and>
     js_truthy_str (email f) \<and> js_truthy_str (phone f)"

lemma personal_complete_upd [simp]:
  "personal_complete (f\<lparr>firstName := v\<rparr>) \<longleftrightarrow>
     js_truthy_str v \<and> js_truthy_str (lastName f) \<and> js_truthy_str (email f) \<and> js_truthy_str (phone f)"
  "personal_complete (f\<lparr>lastName := v\<rparr>) \<longleftrightarrow>
     js_truthy_str (firstName f) \<and> js_truthy_str v \<and> js_truthy_str (email f) \<and> js_truthy_str (phone f)"
  "personal_complete (f\<lparr>email := v\<rparr>) \<longleftrightarrow>
     js_truthy_str (firstName f) \<and> js_truthy_str (lastName f) \<and> js_truthy_str v \<and> js_truthy_str (phone f)"
  "personal_complete (f\<lparr>phone := v\<rparr>) \<longleftrightarrow>
     js_truthy_str (firstName f) \<and> js_truthy_str (lastName f) \<and> js_truthy_str (email f) \<and> js_truthy_str v"
  by (simp_all add: personal_complete_def)

section \<open>Generic facts\<close>

lemma count_add_mset_other [simp]:
  "c \<noteq> d \<Longrightarrow> count (add_mset d M) c = count M c"
  by simp

lemma count_diff_single_self [simp]:
  "count (M - {#c#}) c = count M c - 1"
  by simp

lemma count_diff_single_other [simp]:
  "c \<noteq> d \<Longrightarrow> count (M - {#d#}) c = count M c"
  by (simp add: count_single)

lemma map_option_eq_Some_iff:
  "map_option f x = Some y \<longleftrightarrow> (\<exists>z. x = Some z \<and> y = f z)"
  by (cases x) auto

end
