(* ===== verification/HeaderLayout.thy ===== *)
theory HeaderLayout
  imports Prelude
begin

text \<open>
  The responsive header: the hook \<open>useHeaderLayout\<close>
  (src/src/hooks/use-header-layout.tsx) and the window it subscribes to. The hook keeps
  one state slot \<open>layout\<close>, initialised to \<open>"desktop"\<close>; its effect calls
  \<open>updateLayout\<close> once and registers it as a \<open>resize\<close> listener, and its
  cleanup removes the listener. The window is modelled with its current
  \<open>innerWidth\<close> and the multiset of registered listeners, one entry per
  registration, tagged with the hook instance that made it.
\<close>

section \<open>Breakpoint classifier\<close>

datatype header_layout = Desktop | Intermediate | Compact | Mobile

text \<open>\<open>updateLayout\<close>: the ordered threshold checks on \<open>window.innerWidth\<close>.\<close>

definition update_layout :: "pixels \<Rightarrow> header_layout" where
  "update_layout width =
     (if width \<ge> 1100 then Desktop
      else if width \<ge> 900 then Intermediate
      else if width \<ge> 768 then Compact
      else Mobile)"

text \<open>The object the hook returns to its consumer.\<close>

record layout_flags =
  flag_layout :: header_layout
  isDesktop :: bool
  isIntermediate :: bool
  isCompact :: bool
  isMobile :: bool
  showFullNav :: bool
  showMobileMenu :: bool

definition use_header_layout_result :: "header_layout \<Rightarrow> layout_flags" where
  "use_header_layout_result l =
     \<lparr>flag_layout = l,
      isDesktop = (l = Desktop),
      isIntermediate = (l = Intermediate),
      isCompact = (l = Compact),
      isMobile = (l = Mobile),
      showFullNav = (l = Desktop \<or> l = Intermediate),
      showMobileMenu = (l = Compact \<or> l = Mobile)\<rparr>"

section \<open>Hook instances and the window\<close>

text \<open>
  One mounted instance of the hook: its \<open>layout\<close> state and whether its effect has
  run (so that its listener is registered and its cleanup is pending).
\<close>

record hook_instance =
  layout :: header_layout
  effect_active :: bool

record layout_sys =
  inner_width :: pixels
  listeners :: "consumer_id multiset"
  instances :: "consumer_id \<Rightarrow> hook_instance option"

datatype layout_event =
    Mount consumer_id
  | RunEffect consumer_id
  | Resize pixels
  | Unmount consumer_id

definition init_layout_sys :: "pixels \<Rightarrow> layout_sys" where
  "init_layout_sys w = \<lparr>inner_width = w, listeners = {#}, instances = (\<lambda>_. None)\<rparr>"

text \<open>
  Mounting renders with the initial state \<open>useState("desktop")\<close>; the effect runs
  after that render: it calls \<open>updateLayout()\<close> on the current width and then
  \<open>window.addEventListener("resize", updateLayout)\<close>.
\<close>

definition mount_hook :: "consumer_id \<Rightarrow> layout_sys \<Rightarrow> layout_sys" where
  "mount_hook c s =
     (case instances s c of
        None \<Rightarrow> s\<lparr>instances := (instances s)(c \<mapsto> \<lparr>layout = Desktop, effect_active = False\<rparr>)\<rparr>
      | Some _ \<Rightarrow> s)"

definition run_effect :: "consumer_id \<Rightarrow> layout_sys \<Rightarrow> layout_sys" where
  "run_effect c s =
     (case instances s c of
        Some h \<Rightarrow>
          (if effect_active h then s
           else s\<lparr>instances := (instances s)(c \<mapsto>
                    h\<lparr>layout := update_layout (inner_width s), effect_active := True\<rparr>),
                  listeners := add_mset c (listeners s)\<rparr>)
      | None \<Rightarrow> s)"

text \<open>
  A resize notification sets \<open>innerWidth\<close> and runs every registered listener;
  each one sets its own instance's \<open>layout\<close> from the new width.
\<close>

definition resize_window :: "pixels \<Rightarrow> layout_sys \<Rightarrow> layout_sys" where
  "resize_window w s =
     s\<lparr>inner_width := w,
       instances := (\<lambda>c. if c \<in># listeners s
                          then map_option (\<lambda>h. h\<lparr>layout := update_layout w\<rparr>) (instances s c)
                          else instances s c)\<rparr>"

text \<open>
  Unmounting runs the effect's cleanup, if the effect ran:
  \<open>window.removeEventListener("resize", updateLayout)\<close> removes exactly that
  registration.
\<close>

definition unmount_hook :: "consumer_id \<Rightarrow> layout_sys \<Rightarrow> layout_sys" where
  "unmount_hook c s =
     (case instances s c of
        Some h \<Rightarrow>
          s\<lparr>instances := (instances s)(c := None),
            listeners := (if effect_active h then listeners s - {#c#} else listeners s)\<rparr>
      | None \<Rightarrow> s)"

fun layout_step :: "layout_sys \<Rightarrow> layout_event \<Rightarrow> layout_sys" where
  "layout_step s (Mount c) = mount_hook c s"
| "layout_step s (RunEffect c) = run_effect c s"
| "layout_step s (Resize w) = resize_window w s"
| "layout_step s (Unmount c) = unmount_hook c s"

inductive layout_reach :: "layout_sys \<Rightarrow> bool" where
  init: "layout_reach (init_layout_sys w)"
| step: "layout_reach s \<Longrightarrow> layout_reach (layout_step s e)"

section \<open>Invariant\<close>

text \<open>
  Each instance whose effect has run holds exactly one registration and shows the layout
  of the current width; no other instance holds a registration.
\<close>

definition registrations :: "layout_sys \<Rightarrow> consumer_id \<Rightarrow> nat" where
  "registrations s c =
     (case instances s c of Some h \<Rightarrow> (if effect_active h then 1 else 0) | None \<Rightarrow> 0)"

definition layout_inv :: "layout_sys \<Rightarrow> bool" where
  "layout_inv s \<longleftrightarrow>
     (\<forall>c. count (listeners s) c = registrations s c) \<and>
     (\<forall>c h. instances s c = Some h \<longrightarrow> effect_active h \<longrightarrow>
              layout h = update_layout (inner_width s))"

lemma update_layout_cases:
  "update_layout w = Desktop \<longleftrightarrow> 1100 \<le> w"
  "update_layout w = Intermediate \<longleftrightarrow> 900 \<le> w \<and> w < 1100"
  "update_layout w = Compact \<longleftrightarrow> 768 \<le> w \<and> w < 900"
  "update_layout w = Mobile \<longleftrightarrow> w < 768"
  by (auto simp: update_layout_def)

lemma layout_inv_init: "layout_inv (init_layout_sys w)"
  by (simp add: layout_inv_def init_layout_sys_def registrations_def)

lemma layout_inv_mount: "layout_inv s \<Longrightarrow> layout_inv (mount_hook c s)"
  by (auto simp: layout_inv_def mount_hook_def registrations_def split: option.splits)

lemma layout_inv_run_effect: "layout_inv s \<Longrightarrow> layout_inv (run_effect c s)"
  by (auto simp: layout_inv_def run_effect_def registrations_def split: option.splits)

lemma layout_inv_active_listening:
  "layout_inv s \<Longrightarrow> instances s c = Some h \<Longrightarrow> effect_active h \<Longrightarrow> c \<in># listeners s"
proof -
  assume inv: "layout_inv s" and h: "instances s c = Some h" "effect_active h"
  from inv have "count (listeners s) c = registrations s c" by (simp add: layout_inv_def)
  also from h have "\<dots> = 1" by (simp add: registrations_def)
  finally show "c \<in># listeners s" by (simp flip: count_greater_zero_iff)
qed

lemma layout_inv_resize:
  assumes inv: "layout_inv s"
  shows "layout_inv (resize_window w s)"
  unfolding layout_inv_def
proof (intro conjI allI impI)
  fix c
  have "registrations (resize_window w s) c = registrations s c"
    by (cases "instances s c") (simp_all add: registrations_def resize_window_def)
  moreover have "listeners (resize_window w s) = listeners s" by (simp add: resize_window_def)
  ultimately show "count (listeners (resize_window w s)) c = registrations (resize_window w s) c"
    using inv by (simp add: layout_inv_def)
next
  fix c h
  assume hs: "instances (resize_window w s) c = Some h" "effect_active h"
  obtain h0 where h0: "instances s c = Some h0"
    using hs(1) by (cases "instances s c") (simp_all add: resize_window_def split: if_splits)
  have a0: "effect_active h0"
    using hs h0 by (auto simp: resize_window_def split: if_splits)
  have "c \<in># listeners s" by (rule layout_inv_active_listening [OF inv h0 a0])
  with hs(1) h0 show "layout h = update_layout (inner_width (resize_window w s))"
    by (auto simp: resize_window_def)
qed

lemma layout_inv_unmount: "layout_inv s \<Longrightarrow> layout_inv (unmount_hook c s)"
  by (auto simp: layout_inv_def unmount_hook_def registrations_def split: option.splits)

lemma layout_inv_step: "layout_inv s \<Longrightarrow> layout_inv (layout_step s e)"
  by (cases e) (simp_all add: layout_inv_mount layout_inv_run_effect layout_inv_resize
                              layout_inv_unmount)

lemma layout_reach_inv: "layout_reach s \<Longrightarrow> layout_inv s"
  by (induction rule: layout_reach.induct) (simp_all add: layout_inv_init layout_inv_step)

lemma registrations_le_1: "registrations s c \<le> 1"
  by (simp add: registrations_def split: option.splits)

lemma layout_reach_count:
  "layout_reach s \<Longrightarrow> count (listeners s) c = registrations s c"
  using layout_reach_inv by (simp add: layout_inv_def)

lemmas [step_simps] = init_layout_sys_def mount_hook_def run_effect_def resize_window_def
  unmount_hook_def

lemma layout_reach_steps:
  "layout_reach s \<Longrightarrow> layout_reach (layout_step s e1)"
  "layout_reach s \<Longrightarrow> layout_reach (layout_step (layout_step s e1) e2)"
  by (auto intro: layout_reach.step)

section \<open>Properties\<close>

text \<open>
  C1. The classifier maps a width to exactly the tier of its threshold band:
  desktop from 1100 up, intermediate in [900, 1100), compact in [768, 900), mobile
  below 768.
\<close>

theorem update_layout_bands:
  "(update_layout w = Desktop \<longleftrightarrow> 1100 \<le> w) \<and>
   (update_layout w = Intermediate \<longleftrightarrow> 900 \<le> w \<and> w < 1100) \<and>
   (update_layout w = Compact \<longleftrightarrow> 768 \<le> w \<and> w < 900) \<and>
   (update_layout w = Mobile \<longleftrightarrow> w < 768)"
  by (simp add: update_layout_cases)

text \<open>
  Of the flags the hook returns, exactly one of the four tier flags holds, and
  \<open>showFullNav\<close> and \<open>showMobileMenu\<close> are mutually exclusive and exhaustive.
\<close>

lemma header_flags_exclusive:
  "showFullNav (use_header_layout_result l) \<noteq> showMobileMenu (use_header_layout_result l) \<and>
   length (filter id [isDesktop (use_header_layout_result l),
                      isIntermediate (use_header_layout_result l),
                      isCompact (use_header_layout_result l),
                      isMobile (use_header_layout_result l)]) = 1"
  by (cases l) (simp_all add: use_header_layout_result_def)

text \<open>
  C2. In every reachable window state each hook instance holds at most one
  \<open>resize\<close> registration: the effect never leaks a second listener.
\<close>

theorem listener_at_most_once:
  "layout_reach s \<Longrightarrow> count (listeners s) c \<le> 1"
  using layout_reach_count registrations_le_1 by metis

theorem listener_at_most_once_witness:
  "layout_reach (layout_step (layout_step (init_layout_sys 800) (Mount 0)) (RunEffect 0)) \<and>
   count (listeners (layout_step (layout_step (init_layout_sys 800) (Mount 0)) (RunEffect 0))) 0 \<le> 1"
proof -
  have r: "layout_reach (layout_step (layout_step (init_layout_sys 800) (Mount 0)) (RunEffect 0))"
    by (rule layout_reach_steps(2) [OF layout_reach.init])
  show ?thesis using r listener_at_most_once [OF r] by simp
qed

text \<open>
  C3. Unmounting a hook instance leaves no listener of it registered, whatever
  happened before.
\<close>

theorem unmount_deregisters:
  "layout_reach s \<Longrightarrow> c \<notin># listeners (layout_step s (Unmount c))"
  using layout_reach_count [of s c]
  by (auto simp: unmount_hook_def registrations_def not_in_iff split: option.splits if_splits)

theorem unmount_deregisters_witness:
  "layout_reach (layout_step (layout_step (init_layout_sys 800) (Mount 0)) (RunEffect 0)) \<and>
   0 \<notin># listeners (layout_step (layout_step (layout_step (init_layout_sys 800) (Mount 0))
                                  (RunEffect 0)) (Unmount 0))"
proof -
  have r: "layout_reach (layout_step (layout_step (init_layout_sys 800) (Mount 0)) (RunEffect 0))"
    by (rule layout_reach_steps(2) [OF layout_reach.init])
  show ?thesis using r unmount_deregisters [OF r, of 0] by simp
qed

text \<open>
  C4. Once its effect has run, every mounted instance shows the tier of the latest
  width the window reported: the layout is a function of the last width sample only.
\<close>

theorem layout_tracks_width:
  "layout_reach s \<Longrightarrow> instances s c = Some h \<Longrightarrow> effect_active h \<Longrightarrow>
   layout h = update_layout (inner_width s)"
  using layout_reach_inv by (auto simp: layout_inv_def)

theorem layout_tracks_width_witness:
  "layout_reach (layout_step (layout_step (layout_step (init_layout_sys 1200) (Mount 0)) (RunEffect 0)) (Resize 800)) \<and>
   instances (layout_step (layout_step (layout_step (init_layout_sys 1200) (Mount 0)) (RunEffect 0)) (Resize 800)) 0
     = Some \<lparr>layout = Compact, effect_active = True\<rparr> \<and>
   layout \<lparr>layout = Compact, effect_active = True\<rparr> = update_layout 800"
proof -
  let ?s = "layout_step (layout_step (layout_step (init_layout_sys 1200) (Mount 0)) (RunEffect 0)) (Resize 800)"
  have r: "layout_reach ?s"
    by (rule layout_reach.step [OF layout_reach_steps(2) [OF layout_reach.init]])
  have i: "instances ?s 0 = Some \<lparr>layout = Compact, effect_active = True\<rparr>"
    by (simp add: step_simps update_layout_def)
  have w: "inner_width ?s = 800" by (simp add: step_simps)
  show ?thesis using r i layout_tracks_width [OF r i] w by simp
qed

text \<open>
  C5. The first render of a freshly mounted instance shows the desktop layout whatever
  the window width: \<open>useState("desktop")\<close> holds until the effect runs.
\<close>

theorem first_render_desktop:
  "instances s c = None \<Longrightarrow>
   instances (layout_step s (Mount c)) c = Some \<lparr>layout = Desktop, effect_active = False\<rparr>"
  by (simp add: mount_hook_def)

theorem first_render_desktop_witness:
  "instances (init_layout_sys 320) 0 = None \<and>
   instances (layout_step (init_layout_sys 320) (Mount 0)) 0 =
     Some \<lparr>layout = Desktop, effect_active = False\<rparr> \<and> update_layout 320 = Mobile"
  using first_render_desktop [of "init_layout_sys 320" 0]
  by (simp add: init_layout_sys_def update_layout_def)

end
