(* ===== verification/Header.thy ===== *)
theory Header
  imports HeaderLayout
begin

text \<open>
  The site header (src/src/components/Header.tsx): the logo, the five navigation links,
  the login and free-trial buttons, and the collapsible menu of the narrow layouts. The
  component keeps two state slots (\<open>isMenuOpen\<close>, \<open>isLoginOpen\<close>) and reads its
  layout from \<open>useHeaderLayout\<close>; the step function takes that layout and the ids of
  the document's elements as parameters, so that the page composition supplies both.
\<close>

section \<open>Navigation\<close>

record nav_item =
  nav_name :: js_string
  nav_href :: js_string

definition navigation :: "nav_item list" where
  "navigation =
     [\<lparr>nav_name = ''Home'', nav_href = ''#home''\<rparr>,
      \<lparr>nav_name = ''Corsi'', nav_href = ''#corsi''\<rparr>,
      \<lparr>nav_name = ''Trainer'', nav_href = ''#trainer''\<rparr>,
      \<lparr>nav_name = ''Abbonamenti'', nav_href = ''#abbonamenti''\<rparr>,
      \<lparr>nav_name = ''Trasformazioni'', nav_href = ''#trasformazioni''\<rparr>]"

text \<open>
  \<open>document.querySelector(href)\<close> on an id selector \<open>#id\<close>: the element with that
  id, if the document has one. The hrefs of the header are all of this form; the element
  is named by its id.
\<close>

definition query_selector :: "js_string list \<Rightarrow> js_string \<Rightarrow> js_string option" where
  "query_selector ids href =
     (case href of
        c # i \<Rightarrow> (if c = CHR ''#'' \<and> i \<in> set ids then Some i else None)
      | [] \<Rightarrow> None)"

section \<open>State, effects and events\<close>

record header_state =
  isMenuOpen :: bool
  isLoginOpen :: bool

definition init_header :: header_state where
  "init_header = \<lparr>isMenuOpen = False, isLoginOpen = False\<rparr>"

text \<open>
  What the header asks of its surroundings: to scroll an element into view, or to call
  its \<open>onOpenFreeTrial\<close> prop.
\<close>

datatype header_effect = ScrollIntoView js_string | OpenFreeTrial

text \<open>
  \<open>scrollToSection\<close>: when the selector finds an element, scroll to it and close the
  menu; otherwise nothing happens, the menu included.
\<close>

definition scroll_to_section ::
  "js_string list \<Rightarrow> header_state \<Rightarrow> js_string \<Rightarrow> header_state \<times> header_effect list" where
  "scroll_to_section ids s href =
     (case query_selector ids href of
        Some el \<Rightarrow> (s\<lparr>isMenuOpen := False\<rparr>, [ScrollIntoView el])
      | None \<Rightarrow> (s, []))"

datatype header_event =
    ClickLogo
  | ClickNav nat
  | ClickAreaSoci
  | ClickProvaGratis
  | ClickMenuToggle
  | ClickMobileNav nat
  | ClickMobileAreaSoci
  | ClickMobileProvaGratis
  | CloseLogin

text \<open>
  The desktop links and action buttons are rendered when \<open>showFullNav\<close> holds, the
  menu button and the menu when \<open>showMobileMenu\<close> holds; the menu's contents sit in a
  container of height zero with hidden overflow while \<open>isMenuOpen\<close> is false, so they
  take clicks only while it is open. \<open>CloseLogin\<close> is the \<open>onClose\<close> callback the
  header passes to \<open>LoginModal\<close>.
\<close>

fun header_step ::
  "js_string list \<Rightarrow> header_layout \<Rightarrow> header_state \<Rightarrow> header_event \<Rightarrow>
   header_state \<times> header_effect list" where
  "header_step ids l s ClickLogo = scroll_to_section ids s ''#home''"
| "header_step ids l s (ClickNav i) =
     (if showFullNav (use_header_layout_result l) \<and> i < length navigation
      then scroll_to_section ids s (nav_href (navigation ! i)) else (s, []))"
| "header_step ids l s ClickAreaSoci =
     (if showFullNav (use_header_layout_result l) then (s\<lparr>isLoginOpen := True\<rparr>, []) else (s, []))"
| "header_step ids l s ClickProvaGratis =
     (if showFullNav (use_header_layout_result l) then (s, [OpenFreeTrial]) else (s, []))"
| "header_step ids l s ClickMenuToggle =
     (if showMobileMenu (use_header_layout_result l)
      then (s\<lparr>isMenuOpen := \<not> isMenuOpen s\<rparr>, []) else (s, []))"
| "header_step ids l s (ClickMobileNav i) =
     (if showMobileMenu (use_header_layout_result l) \<and> isMenuOpen s \<and> i < length navigation
      then scroll_to_section ids s (nav_href (navigation ! i)) else (s, []))"
| "header_step ids l s ClickMobileAreaSoci =
     (if showMobileMenu (use_header_layout_result l) \<and> isMenuOpen s
      then (s\<lparr>isLoginOpen := True, isMenuOpen := False\<rparr>, []) else (s, []))"
| "header_step ids l s ClickMobileProvaGratis =
     (if showMobileMenu (use_header_layout_result l) \<and> isMenuOpen s
      then (s\<lparr>isMenuOpen := False\<rparr>, [OpenFreeTrial]) else (s, []))"
| "header_step ids l s CloseLogin = (s\<lparr>isLoginOpen := False\<rparr>, [])"

section \<open>Properties\<close>

lemma query_selector_hash [simp]:
  "query_selector ids (CHR ''#'' # i) = (if i \<in> set ids then Some i else None)"
  by (simp add: query_selector_def)

lemma nav_href_nth:
  "i < length navigation \<Longrightarrow> \<exists>a. nav_href (navigation ! i) = CHR ''#'' # a \<and>
     a \<in> set [''home'', ''corsi'', ''trainer'', ''abbonamenti'', ''trasformazioni'']"
  by (auto simp: navigation_def less_Suc_eq nth_Cons')

lemma scroll_to_section_menu:
  "scroll_to_section ids s href = (s', effs) \<Longrightarrow>
     (effs = [] \<and> s' = s) \<or> (\<not> isMenuOpen s' \<and> isLoginOpen s' = isLoginOpen s)"
  by (auto simp: scroll_to_section_def split: option.splits)

lemma mobile_layout_flags:
  "l = Compact \<or> l = Mobile \<Longrightarrow>
     \<not> showFullNav (use_header_layout_result l) \<and> showMobileMenu (use_header_layout_result l)"
  by (auto simp: use_header_layout_result_def)

text \<open>
  C6. In the narrow layouts every header action that leaves the header (a scroll, the
  free-trial callback, or the login dialog) also closes the menu: no action leaves the
  menu open over the page it navigated to.
\<close>

theorem mobile_actions_close_menu:
  assumes l: "l = Compact \<or> l = Mobile"
    and st: "header_step ids l s e = (s', effs)"
    and act: "effs \<noteq> [] \<or> (isLoginOpen s' \<and> \<not> isLoginOpen s)"
  shows "\<not> isMenuOpen s'"
  using st act mobile_layout_flags [OF l]
  by (cases e) (auto dest: scroll_to_section_menu split: if_splits)

theorem mobile_actions_close_menu_witness:
  "header_step [''home''] Mobile \<lparr>isMenuOpen = True, isLoginOpen = False\<rparr> (ClickMobileNav 0) =
     (\<lparr>isMenuOpen = False, isLoginOpen = False\<rparr>, [ScrollIntoView ''home''])"
proof -
  have r: "header_step [''home''] Mobile \<lparr>isMenuOpen = True, isLoginOpen = False\<rparr> (ClickMobileNav 0) =
     (\<lparr>isMenuOpen = False, isLoginOpen = False\<rparr>, [ScrollIntoView ''home''])"
    by (simp add: use_header_layout_result_def navigation_def scroll_to_section_def)
  have "\<not> isMenuOpen \<lparr>isMenuOpen = False, isLoginOpen = False\<rparr>"
    by (rule mobile_actions_close_menu [OF _ r]) simp_all
  with r show ?thesis by simp
qed

end
