(* ===== verification/Tools.thy ===== *)
theory Tools
  imports Prelude
begin

text \<open>
  The fitness tools section (src/src/components/Tools.tsx): the BMI calculator and the
  goal planner. Both read string-valued inputs; the BMI calculator converts them with
  JavaScript's \<open>parseFloat\<close>, which is modelled here as a parser from strings to
  \<open>rat option\<close> (\<open>None\<close> is \<open>NaN\<close>). The section's four state slots are one
  record; each handler is a function on it.
\<close>

section \<open>parseFloat\<close>

text \<open>
  \<open>parseFloat\<close> (ECMAScript, \<open>StrDecimalLiteral\<close>) skips leading white space, reads
  an optional sign and the longest prefix of the form \<open>digits [. digits] [e [sign]
  digits]\<close> or \<open>. digits [e [sign] digits]\<close>, and ignores the rest. Numbers are exact
  rationals here: rounding to binary64, overflow to \<open>Infinity\<close>, the literal
  \<open>Infinity\<close> and non-ASCII white space are outside the model.
\<close>

definition is_digit :: "char \<Rightarrow> bool" where
  "is_digit c \<longleftrightarrow> 48 \<le> (of_char c :: nat) \<and> (of_char c :: nat) \<le> 57"

definition digit_val :: "char \<Rightarrow> nat" where
  "digit_val c = (of_char c :: nat) - 48"

definition is_js_space :: "char \<Rightarrow> bool" where
  "is_js_space c \<longleftrightarrow> c \<in> set [CHR 0x09, CHR 0x0A, CHR 0x0B, CHR 0x0C, CHR 0x0D, CHR 0x20]"

definition digits_value :: "string \<Rightarrow> nat" where
  "digits_value ds = foldl (\<lambda>n d. 10 * n + digit_val d) 0 ds"

fun split_sign :: "string \<Rightarrow> int \<times> string" where
  "split_sign [] = (1, [])"
| "split_sign (c # cs) =
     (if c = CHR ''-'' then (-1, cs) else if c = CHR ''+'' then (1, cs) else (1, c # cs))"

definition pow10 :: "int \<Rightarrow> rat" where
  "pow10 e = (if 0 \<le> e then 10 ^ nat e else 1 / 10 ^ nat (- e))"

text \<open>An exponent part that is not complete (\<open>"5e"\<close>, \<open>"5e+"\<close>) is not part of the prefix.\<close>

definition parse_exponent :: "string \<Rightarrow> int" where
  "parse_exponent r =
     (case r of
        [] \<Rightarrow> 0
      | c # t \<Rightarrow>
          (if c = CHR ''e'' \<or> c = CHR ''E'' then
             (case split_sign t of (sg, u) \<Rightarrow>
                (if takeWhile is_digit u = [] then 0
                 else sg * int (digits_value (takeWhile is_digit u))))
           else 0))"

definition parse_unsigned_decimal :: "string \<Rightarrow> rat option" where
  "parse_unsigned_decimal s =
     (let ip = takeWhile is_digit s; r1 = dropWhile is_digit s
      in case r1 of
           c # t \<Rightarrow>
             (if c = CHR ''.'' then
                (let fp = takeWhile is_digit t
                 in if ip = [] \<and> fp = [] then None
                    else Some (of_nat (digits_value (ip @ fp)) / 10 ^ length fp
                               * pow10 (parse_exponent (dropWhile is_digit t))))
              else if ip = [] then None
              else Some (of_nat (digits_value ip) * pow10 (parse_exponent r1)))
         | [] \<Rightarrow> (if ip = [] then None else Some (of_nat (digits_value ip))))"

definition parse_float :: "js_string \<Rightarrow> rat option" where
  "parse_float s =
     (case split_sign (dropWhile is_js_space s) of
        (sg, u) \<Rightarrow> map_option (\<lambda>x. of_int sg * x) (parse_unsigned_decimal u))"

text \<open>\<open>!x\<close> on a number: true for \<open>NaN\<close> and for zero.\<close>

definition js_falsy_num :: "rat option \<Rightarrow> bool" where
  "js_falsy_num x \<longleftrightarrow> x = None \<or> x = Some 0"

section \<open>BMI calculator\<close>

record bmi_result =
  bmi :: rat
  category :: js_string
  description :: js_string
  recommendations :: "js_string list"

text \<open>The \<open>if\<close>/\<open>else if\<close> chain of \<open>calculateBMI\<close> after \<open>bmi\<close> is computed.\<close>

definition classify_bmi :: "rat \<Rightarrow> bmi_result" where
  "classify_bmi b =
     (if b < 18.5 then
        \<lparr>bmi = b, category = ''Sottopeso'',
         description = ''Il tuo BMI indica che sei sottopeso'',
         recommendations = [''Considera l'abbonamento TRIMESTRALE con Personal Training'',
                            ''Focus su allenamenti di forza per massa muscolare'',
                            ''Consulta i nostri trainer per un piano nutrizionale'']\<rparr>
      else if b < 25 then
        \<lparr>bmi = b, category = ''Normopeso'',
         description = ''Il tuo BMI '' @ e_grave @ '' nella norma, ottimo!'',
         recommendations = [''Abbonamento MENSILE perfetto per mantenere la forma'',
                            ''Varia tra cardio e tonificazione'',
                            ''Prova i nostri corsi di gruppo'']\<rparr>
      else if b < 30 then
        \<lparr>bmi = b, category = ''Sovrappeso'',
         description = ''Il tuo BMI indica sovrappeso leggero'',
         recommendations = [''Abbonamento TRIMESTRALE con corsi illimitati'',
                            ''Focus su cardio e functional training'',
                            ''Considera il Personal Training per risultati mirati'']\<rparr>
      else
        \<lparr>bmi = b, category = ''Obesit'' @ a_grave,
         description = ''Il tuo BMI indica obesit'' @ a_grave @ '', iniziamo insieme!'',
         recommendations = [''Abbonamento ANNUALE con 3 sedute PT gratuite'',
                            ''Approccio graduale con supporto professionale'',
                            ''Piano alimentare personalizzato incluso'']\<rparr>)"

record bmi_data =
  weight :: js_string
  height :: js_string

text \<open>
  \<open>calculateBMI\<close>: parse both inputs (height converted from cm to m), return early
  when either is \<open>NaN\<close> or zero, otherwise compute and classify. The result replaces
  the previous one; on the early return the previous one stays.
\<close>

definition calculate_bmi :: "bmi_data \<Rightarrow> bmi_result option \<Rightarrow> bmi_result option" where
  "calculate_bmi d prev =
     (let w = parse_float (weight d);
          h = map_option (\<lambda>x. x / 100) (parse_float (height d))
      in if js_falsy_num w \<or> js_falsy_num h then prev
         else Some (classify_bmi (the w / (the h * the h))))"

text \<open>\<open>getBMIColor\<close>.\<close>

definition get_bmi_color :: "js_string \<Rightarrow> js_string" where
  "get_bmi_color c =
     (if c = ''Sottopeso'' then ''text-blue-600''
      else if c = ''Normopeso'' then ''text-accent''
      else if c = ''Sovrappeso'' then ''text-primary''
      else if c = ''Obesit'' @ a_grave then ''text-destructive''
      else ''text-muted-foreground'')"

section \<open>Goal planner\<close>

record goal_data =
  goal :: js_string
  currentWeight :: js_string
  targetWeight :: js_string
  timeline :: js_string

record goal_plan =
  membership :: js_string
  classes :: "js_string list"
  frequency :: js_string
  trainer :: js_string
  duration :: js_string

text \<open>The \<open>plans\<close> object literal of \<open>generateGoalPlan\<close>, in its key order.\<close>

definition goal_plans :: "js_string \<Rightarrow> (js_string \<times> goal_plan) list" where
  "goal_plans tline =
     [(''perdere-peso'',
        \<lparr>membership = ''TRIMESTRALE'', classes = [''HIIT'', ''Spinning'', ''Zumba'', ''GAG''],
         frequency = ''4-5 volte a settimana'', trainer = ''Andrea Verdi (Cardio Specialist)'',
         duration = tline\<rparr>),
      (''massa-muscolare'',
        \<lparr>membership = ''ANNUALE'', classes = [''Pump'', ''CrossFit'', ''Functional Training''],
         frequency = ''4-6 volte a settimana'', trainer = ''Marco Rossi (Bodybuilding Coach)'',
         duration = tline\<rparr>),
      (''tonificare'',
        \<lparr>membership = ''TRIMESTRALE'', classes = [''Pilates'', ''GAG'', ''TRX'', ''Yoga''],
         frequency = ''3-4 volte a settimana'', trainer = ''Laura Bianchi (Functional Coach)'',
         duration = tline\<rparr>),
      (''resistenza'',
        \<lparr>membership = ''MENSILE'', classes = [''Spinning'', ''HIIT'', ''Bootcamp'', ''Acquagym''],
         frequency = ''3-5 volte a settimana'', trainer = ''Andrea Verdi (Cardio Specialist)'',
         duration = tline\<rparr>)]"

text \<open>
  \<open>generateGoalPlan\<close>: return early unless all four inputs are non-empty; otherwise
  look the goal up (\<open>plans[goalData.goal] || plans["tonificare"]\<close>). Only the
  object's own keys are modelled, not those inherited from \<open>Object.prototype\<close>.
\<close>

definition generate_goal_plan :: "goal_data \<Rightarrow> goal_plan option \<Rightarrow> goal_plan option" where
  "generate_goal_plan g prev =
     (if \<not> js_truthy_str (goal g) \<or> \<not> js_truthy_str (currentWeight g) \<or>
         \<not> js_truthy_str (targetWeight g) \<or> \<not> js_truthy_str (timeline g) then prev
      else (case map_of (goal_plans (timeline g)) (goal g) of
              Some p \<Rightarrow> Some p
            | None \<Rightarrow> map_of (goal_plans (timeline g)) ''tonificare''))"

section \<open>The form controls\<close>

text \<open>
  The four weight and height fields are \<open><input type="number">\<close>: by the HTML value
  sanitization algorithm their \<open>value\<close> is either a valid floating-point number or the
  empty string. A valid floating-point number is an optional \<open>-\<close>, digits, or digits
  then \<open>.\<close> and digits, or \<open>.\<close> and digits, and an optional exponent (\<open>e\<close> or
  \<open>E\<close>, an optional sign, digits).
\<close>

definition digits1 :: "string \<Rightarrow> bool" where
  "digits1 s \<longleftrightarrow> s \<noteq> [] \<and> list_all is_digit s"

definition valid_exponent :: "string \<Rightarrow> bool" where
  "valid_exponent s =
     (case s of
        [] \<Rightarrow> True
      | c # r \<Rightarrow> (c = CHR ''e'' \<or> c = CHR ''E'') \<and>
                 digits1 (case r of d # r' \<Rightarrow> if d = CHR ''-'' \<or> d = CHR ''+'' then r' else r | [] \<Rightarrow> []))"

definition valid_float_number :: "string \<Rightarrow> bool" where
  "valid_float_number s =
     (let t = (case s of c # r \<Rightarrow> if c = CHR ''-'' then r else s | [] \<Rightarrow> []);
          ip = takeWhile is_digit t; r1 = dropWhile is_digit t
      in case r1 of
           c # r \<Rightarrow>
             (if c = CHR ''.'' then takeWhile is_digit r \<noteq> [] \<and> valid_exponent (dropWhile is_digit r)
              else ip \<noteq> [] \<and> valid_exponent r1)
         | [] \<Rightarrow> ip \<noteq> [])"

definition number_input_value :: "string \<Rightarrow> js_string" where
  "number_input_value v = (if valid_float_number v then v else [])"

text \<open>The two \<open>Select\<close>s of the planner deliver only their items' values.\<close>

definition goal_options :: "js_string list" where
  "goal_options = [''perdere-peso'', ''massa-muscolare'', ''tonificare'', ''resistenza'']"

definition timeline_options :: "js_string list" where
  "timeline_options = [''3 mesi'', ''6 mesi'', ''12 mesi'']"

section \<open>The section's state and events\<close>

record tools_state =
  bmiData :: bmi_data
  bmiResult :: "bmi_result option"
  goalData :: goal_data
  goalPlan :: "goal_plan option"

definition init_tools :: tools_state where
  "init_tools =
     \<lparr>bmiData = \<lparr>weight = [], height = []\<rparr>, bmiResult = None,
      goalData = \<lparr>goal = [], currentWeight = [], targetWeight = [], timeline = []\<rparr>,
      goalPlan = None\<rparr>"

datatype tools_event =
    SetWeight js_string
  | SetHeight js_string
  | ClickCalculate
  | SetGoal js_string
  | SetCurrentWeight js_string
  | SetTargetWeight js_string
  | SetTimeline js_string
  | ClickGenerate

text \<open>The \<open>disabled\<close> props of the two buttons: a disabled button fires no click.\<close>

definition calculate_enabled :: "tools_state \<Rightarrow> bool" where
  "calculate_enabled s \<longleftrightarrow>
     js_truthy_str (weight (bmiData s)) \<and> js_truthy_str (height (bmiData s))"

definition generate_enabled :: "tools_state \<Rightarrow> bool" where
  "generate_enabled s \<longleftrightarrow>
     js_truthy_str (goal (goalData s)) \<and> js_truthy_str (currentWeight (goalData s)) \<and>
     js_truthy_str (targetWeight (goalData s)) \<and> js_truthy_str (timeline (goalData s))"

fun tools_step :: "tools_state \<Rightarrow> tools_event \<Rightarrow> tools_state" where
  "tools_step s (SetWeight v) = s\<lparr>bmiData := (bmiData s)\<lparr>weight := number_input_value v\<rparr>\<rparr>"
| "tools_step s (SetHeight v) = s\<lparr>bmiData := (bmiData s)\<lparr>height := number_input_value v\<rparr>\<rparr>"
| "tools_step s ClickCalculate =
     (if calculate_enabled s then s\<lparr>bmiResult := calculate_bmi (bmiData s) (bmiResult s)\<rparr> else s)"
| "tools_step s (SetGoal v) =
     (if v \<in> set goal_options then s\<lparr>goalData := (goalData s)\<lparr>goal := v\<rparr>\<rparr> else s)"
| "tools_step s (SetCurrentWeight v) =
     s\<lparr>goalData := (goalData s)\<lparr>currentWeight := number_input_value v\<rparr>\<rparr>"
| "tools_step s (SetTargetWeight v) =
     s\<lparr>goalData := (goalData s)\<lparr>targetWeight := number_input_value v\<rparr>\<rparr>"
| "tools_step s (SetTimeline v) =
     (if v \<in> set timeline_options then s\<lparr>goalData := (goalData s)\<lparr>timeline := v\<rparr>\<rparr> else s)"
| "tools_step s ClickGenerate =
     (if generate_enabled s then s\<lparr>goalPlan := generate_goal_plan (goalData s) (goalPlan s)\<rparr> else s)"

fun tools_run :: "tools_state \<Rightarrow> tools_event list \<Rightarrow> tools_state" where
  "tools_run s [] = s"
| "tools_run s (e # es) = tools_run (tools_step s e) es"

inductive tools_reach :: "tools_state \<Rightarrow> bool" where
  init: "tools_reach init_tools"
| step: "tools_reach s \<Longrightarrow> tools_reach (tools_step s e)"

section \<open>Display of the result and the two links\<close>

text \<open>
  \<open>Number.prototype.toString\<close> on a natural number: its decimal digits.
\<close>

fun nat_digits :: "nat \<Rightarrow> string" where
  "nat_digits n =
     (if n < 10 then [char_of (48 + n)] else nat_digits (n div 10) @ [char_of (48 + n mod 10)])"

text \<open>
  \<open>bmiResult.bmi.toFixed(1)\<close>: the sign, the integer part and one decimal of
  \<open>n / 10\<close>, where \<open>n\<close> is the integer nearest to \<open>10 \<bar>x\<bar>\<close>, the larger one on a tie;
  the integer part of \<open>n / 10\<close> is \<open>0\<close> when \<open>n < 10\<close>. From \<open>10^21\<close> on
  \<open>toFixed\<close> falls back to \<open>toString\<close> (exponent notation), which is outside the model.
\<close>

definition to_fixed_1 :: "rat \<Rightarrow> js_string option" where
  "to_fixed_1 x =
     (if \<bar>x\<bar> \<ge> 10 ^ 21 then None
      else let n = nat \<lfloor>10 * \<bar>x\<bar> + 1 / 2\<rfloor>
           in Some ((if x < 0 then ''-'' else []) @
                    nat_digits (n div 10) @ ''.'' @ [char_of (48 + n mod 10)]))"

text \<open>
  The result card shows \<open>bmiResult.bmi.toFixed(1)\<close> above the badge with
  \<open>bmiResult.category\<close>.
\<close>

definition bmi_card :: "bmi_result \<Rightarrow> js_string option \<times> js_string" where
  "bmi_card r = (to_fixed_1 (bmi r), category r)"

text \<open>
  The button under the BMI result scrolls to the memberships, the one under the plan to
  the top of the page; each is rendered only with its result. The effect is the id of
  the element scrolled to.
\<close>

datatype tools_link_event = ClickSeeMemberships | ClickStartPath

definition tools_link :: "tools_state \<Rightarrow> tools_link_event \<Rightarrow> js_string list" where
  "tools_link s e =
     (case e of
        ClickSeeMemberships \<Rightarrow> (if bmiResult s \<noteq> None then [''abbonamenti''] else [])
      | ClickStartPath \<Rightarrow> (if goalPlan s \<noteq> None then [''home''] else []))"

section \<open>Properties\<close>

lemmas tools_eval_simps = parse_float_def parse_unsigned_decimal_def is_js_space_def is_digit_def
  digits_value_def digit_val_def parse_exponent_def pow10_def js_falsy_num_def

declare calculate_enabled_def [step_simps] generate_enabled_def [step_simps]
  init_tools_def [step_simps]

lemma classify_bmi_fields [simp]:
  "bmi (classify_bmi b) = b"
  "length (recommendations (classify_bmi b)) = 3"
  by (simp_all add: classify_bmi_def)

lemma calculate_bmi_eq:
  "calculate_bmi d prev =
     (case (parse_float (weight d), parse_float (height d)) of
        (Some w, Some h) \<Rightarrow>
          if w = 0 \<or> h = 0 then prev else Some (classify_bmi (w / ((h / 100) * (h / 100))))
      | _ \<Rightarrow> prev)"
  by (auto simp: calculate_bmi_def js_falsy_num_def Let_def split: option.splits)

lemma goal_plans_keys:
  "map fst (goal_plans tline) = [''perdere-peso'', ''massa-muscolare'', ''tonificare'', ''resistenza'']"
  by (simp add: goal_plans_def)

lemma map_of_goal_plans_None:
  "k \<notin> {''perdere-peso'', ''massa-muscolare'', ''tonificare'', ''resistenza''} \<Longrightarrow>
   map_of (goal_plans tline) k = None"
  by (simp add: goal_plans_def)

lemma generate_goal_plan_ready:
  "js_truthy_str (goal g) \<Longrightarrow> js_truthy_str (currentWeight g) \<Longrightarrow>
   js_truthy_str (targetWeight g) \<Longrightarrow> js_truthy_str (timeline g) \<Longrightarrow>
   generate_goal_plan g prev =
     (case map_of (goal_plans (timeline g)) (goal g) of
        Some p \<Rightarrow> Some p
      | None \<Rightarrow> map_of (goal_plans (timeline g)) ''tonificare'')"
  by (simp add: generate_goal_plan_def)

text \<open>
  C7. The classification of \<open>calculateBMI\<close> follows the bands of its \<open>if\<close> chain:
  Sottopeso below 18.5, Normopeso in [18.5, 25), Sovrappeso in [25, 30), Obesit\<open>\<agrave>\<close>
  from 30 up.
\<close>

theorem classify_bmi_bands:
  "(category (classify_bmi b) = ''Sottopeso'' \<longleftrightarrow> b < 18.5) \<and>
   (category (classify_bmi b) = ''Normopeso'' \<longleftrightarrow> 18.5 \<le> b \<and> b < 25) \<and>
   (category (classify_bmi b) = ''Sovrappeso'' \<longleftrightarrow> 25 \<le> b \<and> b < 30) \<and>
   (category (classify_bmi b) = ''Obesit'' @ a_grave \<longleftrightarrow> 30 \<le> b)"
  by (auto simp: classify_bmi_def a_grave_def)

text \<open>
  C8. When both inputs parse to non-zero numbers, \<open>calculateBMI\<close> stores the
  classification of weight divided by the square of the height in metres.
\<close>

theorem calculate_bmi_computes:
  "parse_float (weight d) = Some w \<Longrightarrow> parse_float (height d) = Some h \<Longrightarrow>
   w \<noteq> 0 \<Longrightarrow> h \<noteq> 0 \<Longrightarrow>
   calculate_bmi d prev = Some (classify_bmi (w / ((h / 100) * (h / 100))))"
  by (simp add: calculate_bmi_eq)

theorem calculate_bmi_computes_witness:
  "calculate_bmi \<lparr>weight = ''70'', height = ''175''\<rparr> None =
     Some (classify_bmi (70 / ((175 / 100) * (175 / 100))))"
proof -
  have w: "parse_float (weight \<lparr>weight = ''70'', height = ''175''\<rparr>) = Some 70"
    by (simp add: tools_eval_simps)
  have h: "parse_float (height \<lparr>weight = ''70'', height = ''175''\<rparr>) = Some 175"
    by (simp add: tools_eval_simps)
  show ?thesis using calculate_bmi_computes [OF w h] by simp
qed

text \<open>
  C9. When either input is not a number or is zero, \<open>calculateBMI\<close> returns early
  and the previous result (or its absence) stays.
\<close>

theorem calculate_bmi_skips:
  "js_falsy_num (parse_float (weight d)) \<or> js_falsy_num (parse_float (height d)) \<Longrightarrow>
   calculate_bmi d prev = prev"
  by (auto simp: calculate_bmi_eq js_falsy_num_def split: option.splits)

theorem calculate_bmi_skips_witness:
  "js_falsy_num (parse_float (weight \<lparr>weight = ''abc'', height = ''175''\<rparr>)) \<and>
   calculate_bmi \<lparr>weight = ''abc'', height = ''175''\<rparr> (Some (classify_bmi 20)) =
     Some (classify_bmi 20)"
proof -
  have n: "js_falsy_num (parse_float (weight \<lparr>weight = ''abc'', height = ''175''\<rparr>))"
    by (simp add: tools_eval_simps)
  show ?thesis using n calculate_bmi_skips [of "\<lparr>weight = ''abc'', height = ''175''\<rparr>"] by simp
qed

text \<open>
  The spec's examples, run through the section's handlers from the initial state:
  70 kg and 175 cm give Normopeso, 50 kg and 180 cm Sottopeso, 90 kg and 160 cm
  Obesit\<open>\<agrave>\<close>.
\<close>

lemma bmi_spec_examples:
  "map_option category (bmiResult (tools_run init_tools [SetWeight ''70'', SetHeight ''175'', ClickCalculate]))
     = Some ''Normopeso'' \<and>
   map_option category (bmiResult (tools_run init_tools [SetWeight ''50'', SetHeight ''180'', ClickCalculate]))
     = Some ''Sottopeso'' \<and>
   map_option category (bmiResult (tools_run init_tools [SetWeight ''90'', SetHeight ''160'', ClickCalculate]))
     = Some (''Obesit'' @ a_grave)"
  by code_simp

text \<open>
  C10. The plan depends on the goal and the timeline only: changing the current or the
  target weight (to other non-empty values) never changes it.
\<close>

theorem goal_plan_ignores_weights:
  "js_truthy_str (currentWeight g) \<Longrightarrow> js_truthy_str (targetWeight g) \<Longrightarrow>
   js_truthy_str a \<Longrightarrow> js_truthy_str b \<Longrightarrow>
   generate_goal_plan (g\<lparr>currentWeight := a, targetWeight := b\<rparr>) prev = generate_goal_plan g prev"
  by (simp add: generate_goal_plan_def split: option.splits)

theorem goal_plan_ignores_weights_witness:
  "generate_goal_plan \<lparr>goal = ''resistenza'', currentWeight = ''120'', targetWeight = ''60'',
                       timeline = ''3 mesi''\<rparr> None =
   generate_goal_plan \<lparr>goal = ''resistenza'', currentWeight = ''70'', targetWeight = ''71'',
                       timeline = ''3 mesi''\<rparr> None"
  using goal_plan_ignores_weights [of "\<lparr>goal = ''resistenza'', currentWeight = ''70'',
           targetWeight = ''71'', timeline = ''3 mesi''\<rparr>" "''120''" "''60''" None]
  by simp

text \<open>
  A negative weight is not rejected: \<open>"-70"\<close> kg at 175 cm passes the guard and
  is classified Sottopeso with a negative BMI.
\<close>

lemma negative_weight_classified:
  "map_option (\<lambda>r. (category r, bmi r < 0))
     (bmiResult (tools_run init_tools [SetWeight ''-70'', SetHeight ''175'', ClickCalculate]))
   = Some (''Sottopeso'', True)"
  by code_simp

declare nat_digits.simps [simp del]

lemma digit_char [simp]:
  "k < 10 \<Longrightarrow> is_digit (char_of (48 + k))"
  "k < 10 \<Longrightarrow> digit_val (char_of (48 + k)) = k"
  by (simp_all add: is_digit_def digit_val_def of_char_of)

lemma digits_value_snoc: "digits_value (ds @ [d]) = 10 * digits_value ds + digit_val d"
  by (simp add: digits_value_def)


lemma nat_digits_props:
  "nat_digits n \<noteq> [] \<and> (\<forall>c\<in>set (nat_digits n). is_digit c) \<and> digits_value (nat_digits n) = n"
proof (induction n rule: nat_digits.induct)
  case (1 n)
  show ?case
  proof (cases "n < 10")
    case True
    then show ?thesis by (simp add: nat_digits.simps digits_value_def)
  next
    case False
    then have "nat_digits n = nat_digits (n div 10) @ [char_of (48 + n mod 10)]"
      by (simp add: nat_digits.simps)
    then show ?thesis using 1 False by (simp add: digits_value_snoc)
  qed
qed


lemma takeWhile_all_digits:
  "\<forall>c\<in>set ds. is_digit c \<Longrightarrow> \<not> is_digit c \<Longrightarrow> takeWhile is_digit (ds @ c # r) = ds"
  "\<forall>c\<in>set ds. is_digit c \<Longrightarrow> \<not> is_digit c \<Longrightarrow> dropWhile is_digit (ds @ c # r) = c # r"
  by (induction ds) auto

lemma parse_unsigned_fixed:
  assumes dg: "\<forall>c\<in>set ds. is_digit c" and ne: "ds \<noteq> []" and n: "n < 10"
  shows "parse_unsigned_decimal (ds @ CHR ''.'' # [char_of (48 + n)]) =
           Some (of_nat (10 * digits_value ds + n) / 10)"
proof -
  have nd: "\<not> is_digit CHR ''.''" by (simp add: is_digit_def)
  show ?thesis
    using takeWhile_all_digits [OF dg nd] ne n
    by (simp add: parse_unsigned_decimal_def digits_value_snoc parse_exponent_def pow10_def)
qed


lemma digit_not_space_sign:
  "is_digit c \<Longrightarrow> \<not> is_js_space c \<and> c \<noteq> CHR ''-'' \<and> c \<noteq> CHR ''+''"
  by (auto simp: is_digit_def is_js_space_def)

lemma parse_float_fixed:
  assumes n: "n < 10"
  shows "parse_float (nat_digits m @ CHR ''.'' # [char_of (48 + n)]) = Some (of_nat (10 * m + n) / 10)"
    and "parse_float (CHR ''-'' # nat_digits m @ CHR ''.'' # [char_of (48 + n)]) =
           Some (- (of_nat (10 * m + n) / 10))"
proof -
  define r :: rat where "r = of_nat (10 * m + n) / 10"
  obtain c cs where ne: "nat_digits m = c # cs"
    using nat_digits_props [of m] by (cases "nat_digits m") auto
  have dg: "\<forall>c\<in>set (nat_digits m). is_digit c" and v: "digits_value (nat_digits m) = m"
    using nat_digits_props by blast+
  have c: "\<not> is_js_space c \<and> c \<noteq> CHR ''-'' \<and> c \<noteq> CHR ''+''"
    using dg ne digit_not_space_sign by simp
  have u: "parse_unsigned_decimal (nat_digits m @ CHR ''.'' # [char_of (48 + n)]) = Some r"
    using parse_unsigned_fixed [OF dg _ n] ne v by (simp add: r_def)
  have ms: "\<not> is_js_space CHR ''-''" by (simp add: is_js_space_def)
  show "parse_float (nat_digits m @ CHR ''.'' # [char_of (48 + n)]) = Some (of_nat (10 * m + n) / 10)"
    using u c by (simp add: parse_float_def ne r_def)
  have "parse_float (CHR ''-'' # nat_digits m @ CHR ''.'' # [char_of (48 + n)]) = Some (- r)"
    using u ms by (simp add: parse_float_def)
  then show "parse_float (CHR ''-'' # nat_digits m @ CHR ''.'' # [char_of (48 + n)]) =
           Some (- (of_nat (10 * m + n) / 10))" by (simp only: r_def)
qed

lemma round_tenth_bound:
  "\<bar>of_nat (nat \<lfloor>10 * \<bar>x\<bar> + 1 / 2\<rfloor>) / 10 - \<bar>x\<bar>\<bar> \<le> (1 / 20 :: rat)"
proof -
  define f where "f = \<lfloor>10 * \<bar>x\<bar> + 1 / 2\<rfloor>"
  have "0 \<le> f" by (simp add: f_def)
  then have e: "of_nat (nat f) = (of_int f :: rat)" by simp
  have "of_int f \<le> 10 * \<bar>x\<bar> + 1 / 2" "10 * \<bar>x\<bar> + 1 / 2 < of_int f + 1"
    unfolding f_def by linarith+
  then have "of_int f / 10 - \<bar>x\<bar> \<le> 1 / 20" "\<bar>x\<bar> - of_int f / 10 \<le> 1 / 20"
    by linarith+
  then show ?thesis unfolding e f_def [symmetric] by (simp only: abs_le_iff) simp
qed

text \<open>
  The BMI as displayed, read back by \<open>parseFloat\<close>, is the BMI rounded to one decimal
  (half away from zero), so it is within 0.05 of the computed value.
\<close>

lemma to_fixed_roundtrip:
  "to_fixed_1 x = Some s \<Longrightarrow>
   parse_float s = Some ((if x < 0 then -1 else 1) * of_nat (nat \<lfloor>10 * \<bar>x\<bar> + 1 / 2\<rfloor>) / 10) \<and>
   \<bar>the (parse_float s) - x\<bar> \<le> 1 / 20"
proof -
  assume fx: "to_fixed_1 x = Some s"
  define n where "n = nat \<lfloor>10 * \<bar>x\<bar> + 1 / 2\<rfloor>"
  define r :: rat where "r = of_nat n / 10"
  have dm: "10 * (n div 10) + n mod 10 = n" by simp
  have lt: "n mod 10 < 10" by simp
  have s: "s = (if x < 0 then ''-'' else []) @ nat_digits (n div 10) @ CHR ''.'' # [char_of (48 + n mod 10)]"
    using fx by (simp add: to_fixed_1_def Let_def n_def split: if_splits)
  have b: "\<bar>r - \<bar>x\<bar>\<bar> \<le> 1 / 20" unfolding r_def n_def by (rule round_tenth_bound)
  have p: "parse_float s = Some (if x < 0 then - r else r)"
    using parse_float_fixed [OF lt, of "n div 10"] s by (simp add: dm r_def)
  have "\<bar>(if x < 0 then - r else r) - x\<bar> \<le> 1 / 20" using b by (auto simp: abs_if split: if_splits)
  moreover have "(if x < 0 then -1 else 1) * of_nat n / 10 = (if x < 0 then - r else r)"
    by (simp add: r_def)
  ultimately show ?thesis using p unfolding n_def [symmetric] by simp
qed

lemma to_fixed_1_nearest:
  assumes "0 \<le> x" "x < 10 ^ 21" "of_nat n \<le> 10 * x + 1 / 2" "10 * x + 1 / 2 < of_nat n + 1"
  shows "to_fixed_1 x = Some (nat_digits (n div 10) @ ''.'' @ [char_of (48 + n mod 10)])"
proof -
  have "\<lfloor>10 * x + 1 / 2\<rfloor> = int n" using assms(3,4) by (simp add: floor_eq_iff)
  with assms(1,2) show ?thesis by (simp add: to_fixed_1_def Let_def)
qed

lemma calculate_step:
  assumes "calculate_enabled s" "parse_float (weight (bmiData s)) = Some w"
    "parse_float (height (bmiData s)) = Some h" "w \<noteq> 0" "h \<noteq> 0"
  shows "bmiResult (tools_step s ClickCalculate) = Some (classify_bmi (w / ((h / 100) * (h / 100))))"
  using assms by (simp add: calculate_bmi_eq)

lemma tools_reach_run: "tools_reach s \<Longrightarrow> tools_reach (tools_run s es)"
  by (induction es arbitrary: s) (simp_all add: tools_reach.step)

lemma goal_plans_total: "g \<in> set goal_options \<Longrightarrow> \<exists>p. map_of (goal_plans t) g = Some p"
  by (auto simp: goal_options_def goal_plans_def)

lemma digit_chars [simp]:
  "char_of (48::nat) = CHR ''0''"
  "char_of (49::nat) = CHR ''1''"
  "char_of (50::nat) = CHR ''2''"
  "char_of (51::nat) = CHR ''3''"
  "char_of (52::nat) = CHR ''4''"
  "char_of (53::nat) = CHR ''5''"
  "char_of (54::nat) = CHR ''6''"
  "char_of (55::nat) = CHR ''7''"
  "char_of (56::nat) = CHR ''8''"
  "char_of (57::nat) = CHR ''9''"
  by code_simp+

lemma bmi_card_near:
  assumes en: "calculate_enabled s" and w: "parse_float (weight (bmiData s)) = Some w"
    and h: "parse_float (height (bmiData s)) = Some h" and h0: "h \<noteq> 0"
    and lo: "of_nat t / 10 - 1 / 20 \<le> w / ((h / 100) * (h / 100))"
    and hi: "w / ((h / 100) * (h / 100)) < of_nat t / 10" and t: "0 < t" "t < 1000"
  shows "bmi_card (the (bmiResult (tools_step s ClickCalculate))) =
           (Some (nat_digits (t div 10) @ ''.'' @ [char_of (48 + t mod 10)]),
            category (classify_bmi (w / ((h / 100) * (h / 100)))))"
proof -
  define b where "b = w / ((h / 100) * (h / 100))"
  have b: "of_nat t / 10 - 1 / 20 \<le> b" "b < of_nat t / 10" using lo hi by (simp_all add: b_def)
  have "(0::rat) < of_nat t / 10 - 1 / 20" using t(1) by simp
  then have "w \<noteq> 0" using b(1) by (auto simp: b_def)
  then have r: "bmiResult (tools_step s ClickCalculate) = Some (classify_bmi b)"
    unfolding b_def by (rule calculate_step [OF en w h _ h0])
  have tb: "(of_nat t :: rat) < 1000" using t(2) by simp
  have "to_fixed_1 b = Some (nat_digits (t div 10) @ ''.'' @ [char_of (48 + t mod 10)])"
  proof (rule to_fixed_1_nearest)
    show "0 \<le> b" using b(1) \<open>0 < of_nat t / 10 - 1 / 20\<close> by linarith
    show "b < 10 ^ 21" using b(2) tb by simp
    show "of_nat t \<le> 10 * b + 1 / 2" using b(1) by linarith
    show "10 * b + 1 / 2 < of_nat t + 1" using b(2) by linarith
  qed
  with r show ?thesis by (simp add: bmi_card_def b_def)
qed

text \<open>
  C11. The result card can contradict itself at the three thresholds: a BMI within 0.05
  below 18.5, 25 or 30 is displayed, by \<open>toFixed(1)\<close>, as the threshold itself
  ("18.5", "25.0", "30.0"), while its badge shows the category below the threshold,
  because the category is computed from the unrounded value.
\<close>

theorem bmi_card_threshold:
  assumes en: "calculate_enabled s" and w: "parse_float (weight (bmiData s)) = Some w"
    and h: "parse_float (height (bmiData s)) = Some h" and h0: "h \<noteq> 0"
  defines "b \<equiv> w / ((h / 100) * (h / 100))"
  shows "(37 / 2 - 1 / 20 \<le> b \<and> b < 37 / 2 \<longrightarrow>
            bmi_card (the (bmiResult (tools_step s ClickCalculate))) = (Some ''18.5'', ''Sottopeso'')) \<and>
         (25 - 1 / 20 \<le> b \<and> b < 25 \<longrightarrow>
            bmi_card (the (bmiResult (tools_step s ClickCalculate))) = (Some ''25.0'', ''Normopeso'')) \<and>
         (30 - 1 / 20 \<le> b \<and> b < 30 \<longrightarrow>
            bmi_card (the (bmiResult (tools_step s ClickCalculate))) = (Some ''30.0'', ''Sovrappeso''))"
proof (intro conjI impI)
  assume "37 / 2 - 1 / 20 \<le> b \<and> b < 37 / 2"
  then show "bmi_card (the (bmiResult (tools_step s ClickCalculate))) = (Some ''18.5'', ''Sottopeso'')"
    using bmi_card_near [OF en w h h0, of 185] by (simp add: b_def classify_bmi_def nat_digits.simps)
next
  assume "25 - 1 / 20 \<le> b \<and> b < 25"
  then show "bmi_card (the (bmiResult (tools_step s ClickCalculate))) = (Some ''25.0'', ''Normopeso'')"
    using bmi_card_near [OF en w h h0, of 250] by (simp add: b_def classify_bmi_def nat_digits.simps)
next
  assume "30 - 1 / 20 \<le> b \<and> b < 30"
  then show "bmi_card (the (bmiResult (tools_step s ClickCalculate))) = (Some ''30.0'', ''Sovrappeso'')"
    using bmi_card_near [OF en w h h0, of 300] by (simp add: b_def classify_bmi_def nat_digits.simps)
qed

theorem bmi_card_threshold_witness:
  "bmi_card (the (bmiResult (tools_step (tools_run init_tools [SetWeight ''99.9'', SetHeight ''200''])
      ClickCalculate))) = (Some ''25.0'', ''Normopeso'')"
proof -
  let ?s = "tools_run init_tools [SetWeight ''99.9'', SetHeight ''200'']"
  have en: "calculate_enabled ?s" by code_simp
  have w: "parse_float (weight (bmiData ?s)) = Some (999 / 10)" by code_simp
  have h: "parse_float (height (bmiData ?s)) = Some 200" by code_simp
  have b: "(999 / 10) / ((200 / 100) * (200 / 100)) = (999 / 40 :: rat)" by simp
  show ?thesis using bmi_card_threshold [OF en w h] unfolding b by simp
qed

lemma tools_reach_goal:
  "tools_reach s \<Longrightarrow> goal (goalData s) = [] \<or> goal (goalData s) \<in> set goal_options"
proof (induction rule: tools_reach.induct)
  case init
  show ?case by (simp add: init_tools_def)
next
  case (step s e)
  then show ?case by (cases e) (simp_all add: Let_def)
qed

text \<open>
  C12. The goal planner always shows the plan of the selected goal: in every reachable
  state, clicking "Genera Piano" with the four fields filled stores the \<open>plans\<close>
  entry of the chosen goal, for the chosen timeline. The goal Select offers only keys of
  \<open>plans\<close>, so the \<open>plans.tonificare\<close> fallback of \<open>generateGoalPlan\<close> is
  never taken.
\<close>

theorem generate_shows_selected_plan:
  assumes r: "tools_reach s" and en: "generate_enabled s"
  shows "\<exists>p. map_of (goal_plans (timeline (goalData s))) (goal (goalData s)) = Some p \<and>
             goalPlan (tools_step s ClickGenerate) = Some p"
proof -
  have "goal (goalData s) \<in> set goal_options"
    using tools_reach_goal [OF r] en by (auto simp: generate_enabled_def)
  then obtain p where p: "map_of (goal_plans (timeline (goalData s))) (goal (goalData s)) = Some p"
    using goal_plans_total by blast
  moreover have "generate_goal_plan (goalData s) (goalPlan s) = Some p"
    using en p by (simp add: generate_goal_plan_def generate_enabled_def)
  ultimately show ?thesis using en by simp
qed

theorem generate_shows_selected_plan_witness:
  "tools_reach (tools_run init_tools [SetGoal ''resistenza'', SetTimeline ''6 mesi'',
                                     SetCurrentWeight ''80'', SetTargetWeight ''72.5'']) \<and>
   generate_enabled (tools_run init_tools [SetGoal ''resistenza'', SetTimeline ''6 mesi'',
                                          SetCurrentWeight ''80'', SetTargetWeight ''72.5'']) \<and>
   (\<exists>p. map_of (goal_plans ''6 mesi'') ''resistenza'' = Some p \<and>
        goalPlan (tools_step (tools_run init_tools [SetGoal ''resistenza'', SetTimeline ''6 mesi'',
                   SetCurrentWeight ''80'', SetTargetWeight ''72.5'']) ClickGenerate) = Some p)"
proof -
  let ?s = "tools_run init_tools [SetGoal ''resistenza'', SetTimeline ''6 mesi'',
                                  SetCurrentWeight ''80'', SetTargetWeight ''72.5'']"
  have r: "tools_reach ?s" by (rule tools_reach_run [OF tools_reach.init])
  have en: "generate_enabled ?s" by code_simp
  have g: "goal (goalData ?s) = ''resistenza'' \<and> timeline (goalData ?s) = ''6 mesi''" by code_simp
  show ?thesis using r en generate_shows_selected_plan [OF r en] g by simp
qed

end
