(* ===== verification/FreeTrial.thy ===== *)
theory FreeTrial
  imports Prelude
begin

text \<open>
  The free-trial signup wizard (src/src/components/FreeTrialModal.tsx). The component
  keeps two state slots, \<open>step\<close> (1: the form, otherwise: the confirmation page) and
  \<open>formData\<close>; the dialog's \<open>isOpen\<close> flag belongs to the page (Index.tsx) and is
  reset through the \<open>onClose\<close> callback, which the handlers here return as an effect.
  Each control that the JSX renders for a step is one event; a control that is not
  rendered, or disabled, leaves the state unchanged.
\<close>

section \<open>Dates\<close>

text \<open>
  A time (\<open>new Date()\<close>) is a count of milliseconds; a calendar day is a day number,
  and the calendar hands the \<open>Date\<close> of that day's midnight to its \<open>disabled\<close>
  matcher. Time zones are not modelled.
\<close>

type_synonym js_time = int
type_synonym day = int

definition day_ms :: int where
  "day_ms = 86400000"

definition day_start :: "day \<Rightarrow> js_time" where
  "day_start d = d * day_ms"

text \<open>\<open>disabled={(date) => date < new Date()}\<close>.\<close>

definition date_disabled :: "js_time \<Rightarrow> day \<Rightarrow> bool" where
  "date_disabled now d \<longleftrightarrow> day_start d < now"

section \<open>Form and state\<close>

record trial_form = personal_info +
  startDate :: "day option"
  form_goal :: js_string
  source :: js_string
  privacy :: bool

definition empty_trial_form :: trial_form where
  "empty_trial_form =
     \<lparr>firstName = [], lastName = [], email = [], phone = [], startDate = None,
      form_goal = [], source = [], privacy = False\<rparr>"

record trial_state =
  step :: nat
  formData :: trial_form

definition init_trial :: trial_state where
  "init_trial = \<lparr>step = 1, formData = empty_trial_form\<rparr>"

text \<open>The values the two \<open>Select\<close>s offer.\<close>

definition trial_goal_options :: "js_string list" where
  "trial_goal_options =
     [''perdere-peso'', ''massa-muscolare'', ''tonificare'', ''resistenza'', ''salute'', ''stress'']"

definition trial_source_options :: "js_string list" where
  "trial_source_options = [''google'', ''facebook'', ''instagram'', ''amici'', ''passaggio'', ''altro'']"

section \<open>Handlers\<close>

datatype trial_effect = CallOnClose | Alert js_string

definition reset_form :: "trial_state \<Rightarrow> trial_state" where
  "reset_form s = s\<lparr>step := 1, formData := empty_trial_form\<rparr>"

definition handle_submit :: "trial_state \<Rightarrow> trial_state" where
  "handle_submit s = s\<lparr>step := 2\<rparr>"

definition handle_close :: "trial_state \<Rightarrow> trial_state \<times> trial_effect list" where
  "handle_close s = (reset_form s, [CallOnClose])"

definition voucher_message :: js_string where
  "voucher_message =
     ''Voucher scaricato! Presentalo alla reception per iniziare la tua prova gratuita.''"

definition download_voucher :: "trial_state \<Rightarrow> trial_state \<times> trial_effect list" where
  "download_voucher s = (case handle_close s of (s', effs) \<Rightarrow> (s', Alert voucher_message # effs))"

text \<open>\<open>isFormValid\<close>: the truthiness of the \<open>&&\<close> chain over all eight fields.\<close>

definition is_form_valid :: "trial_form \<Rightarrow> bool" where
  "is_form_valid f \<longleftrightarrow>
     personal_complete f \<and> startDate f \<noteq> None \<and> js_truthy_str (form_goal f) \<and>
     js_truthy_str (source f) \<and> privacy f"

section \<open>Events\<close>

datatype trial_event =
    EditFirstName js_string
  | EditLastName js_string
  | EditEmail js_string
  | EditPhone js_string
  | SelectDate "day option" js_time
  | SelectGoal js_string
  | SelectSource js_string
  | CheckPrivacy bool
  | ClickSubmit
  | ClickDownload
  | ClickClose
  | DismissDialog

definition edit_form :: "trial_state \<Rightarrow> (trial_form \<Rightarrow> trial_form) \<Rightarrow> trial_state" where
  "edit_form s f = (if step s = 1 then s\<lparr>formData := f (formData s)\<rparr> else s)"

text \<open>
  The form controls exist only while \<open>step === 1\<close>; the confirmation buttons only
  otherwise. A day the calendar disables cannot be picked; picking the selected day
  again deselects it (\<open>onSelect\<close> with \<open>undefined\<close>). The dialog's
  \<open>onOpenChange\<close> is \<open>handleClose\<close> at every step.
\<close>

fun trial_step :: "trial_state \<Rightarrow> trial_event \<Rightarrow> trial_state \<times> trial_effect list" where
  "trial_step s (EditFirstName v) = (edit_form s (\<lambda>f. f\<lparr>firstName := v\<rparr>), [])"
| "trial_step s (EditLastName v) = (edit_form s (\<lambda>f. f\<lparr>lastName := v\<rparr>), [])"
| "trial_step s (EditEmail v) = (edit_form s (\<lambda>f. f\<lparr>email := v\<rparr>), [])"
| "trial_step s (EditPhone v) = (edit_form s (\<lambda>f. f\<lparr>phone := v\<rparr>), [])"
| "trial_step s (SelectDate d now) =
     (if (case d of Some x \<Rightarrow> date_disabled now x | None \<Rightarrow> False) then (s, [])
      else (edit_form s (\<lambda>f. f\<lparr>startDate := d\<rparr>), []))"
| "trial_step s (SelectGoal v) =
     (if v \<in> set trial_goal_options then (edit_form s (\<lambda>f. f\<lparr>form_goal := v\<rparr>), []) else (s, []))"
| "trial_step s (SelectSource v) =
     (if v \<in> set trial_source_options then (edit_form s (\<lambda>f. f\<lparr>source := v\<rparr>), []) else (s, []))"
| "trial_step s (CheckPrivacy b) = (edit_form s (\<lambda>f. f\<lparr>privacy := b\<rparr>), [])"
| "trial_step s ClickSubmit =
     (if step s = 1 \<and> is_form_valid (formData s) then (handle_submit s, []) else (s, []))"
| "trial_step s ClickDownload = (if step s \<noteq> 1 then download_voucher s else (s, []))"
| "trial_step s ClickClose = (if step s \<noteq> 1 then handle_close s else (s, []))"
| "trial_step s DismissDialog = handle_close s"

fun trial_run :: "trial_state \<Rightarrow> trial_event list \<Rightarrow> trial_state \<times> trial_effect list" where
  "trial_run s [] = (s, [])"
| "trial_run s (e # es) =
     (case trial_step s e of (s', effs) \<Rightarrow> (case trial_run s' es of (s'', effs') \<Rightarrow> (s'', effs @ effs')))"

inductive trial_reach :: "trial_state \<Rightarrow> bool" where
  init: "trial_reach init_trial"
| step: "trial_reach s \<Longrightarrow> trial_reach (fst (trial_step s e))"

text \<open>A complete signup: the form filled in, a day after today picked, submitted.\<close>

definition signup_events :: "trial_event list" where
  "signup_events =
     [EditFirstName ''Mario'', EditLastName ''Rossi'', EditEmail ''mario@example.com'',
      EditPhone ''+39 123 456 7890'', SelectDate (Some 20001) (20000 * 86400000 + 36000000),
      SelectGoal ''tonificare'', SelectSource ''google'', CheckPrivacy True, ClickSubmit]"

definition signup_state :: trial_state where
  "signup_state =
     \<lparr>step = 2, formData = \<lparr>firstName = ''Mario'', lastName = ''Rossi'', email = ''mario@example.com'',
       phone = ''+39 123 456 7890'', startDate = Some 20001, form_goal = ''tonificare'',
       source = ''google'', privacy = True\<rparr>\<rparr>"

section \<open>Invariant and properties\<close>

definition trial_inv :: "trial_state \<Rightarrow> bool" where
  "trial_inv s \<longleftrightarrow> (step s = 1 \<or> step s = 2) \<and> (step s \<noteq> 1 \<longrightarrow> is_form_valid (formData s))"

lemma reset_form_init [simp]: "reset_form s = init_trial"
  by (cases s) (simp add: reset_form_def init_trial_def)

lemma handle_close_init [simp]: "handle_close s = (init_trial, [CallOnClose])"
  by (simp add: handle_close_def)

lemma download_voucher_init [simp]:
  "download_voucher s = (init_trial, [Alert voucher_message, CallOnClose])"
  by (simp add: download_voucher_def)

lemma trial_inv_init: "trial_inv init_trial"
  by (simp add: trial_inv_def init_trial_def)

lemma trial_inv_edit: "trial_inv s \<Longrightarrow> trial_inv (edit_form s f)"
  by (auto simp: trial_inv_def edit_form_def)

text \<open>Every event leaves the state, resets it, edits the form, or submits a valid form.\<close>

lemma trial_step_shape:
  "fst (trial_step s e) = s \<or> fst (trial_step s e) = init_trial \<or>
   (\<exists>f. fst (trial_step s e) = edit_form s f) \<or>
   (step s = 1 \<and> is_form_valid (formData s) \<and> fst (trial_step s e) = handle_submit s)"
  by (cases e) auto

lemma trial_inv_step:
  assumes inv: "trial_inv s"
  shows "trial_inv (fst (trial_step s e))"
  using trial_step_shape [of s e]
proof (elim disjE exE conjE)
  assume "fst (trial_step s e) = s"
  with inv show ?thesis by simp
next
  assume "fst (trial_step s e) = init_trial"
  then show ?thesis by (simp add: trial_inv_init)
next
  fix f
  assume "fst (trial_step s e) = edit_form s f"
  with inv show ?thesis by (simp add: trial_inv_edit)
next
  assume "is_form_valid (formData s)" and "fst (trial_step s e) = handle_submit s"
  then show ?thesis by (simp add: trial_inv_def handle_submit_def)
qed

lemma fst_trial_run_Cons:
  "fst (trial_run s (e # es)) = fst (trial_run (fst (trial_step s e)) es)"
  by (auto split: prod.splits)

lemma trial_reach_inv: "trial_reach s \<Longrightarrow> trial_inv s"
  by (induction rule: trial_reach.induct) (simp_all add: trial_inv_init trial_inv_step)

lemma trial_reach_run: "trial_reach s \<Longrightarrow> trial_reach (fst (trial_run s es))"
proof (induction es arbitrary: s)
  case Nil
  then show ?case by simp
next
  case (Cons e es)
  from Cons.prems have "trial_reach (fst (trial_step s e))" by (rule trial_reach.step)
  then have "trial_reach (fst (trial_run (fst (trial_step s e)) es))" by (rule Cons.IH)
  then show ?case by (simp only: fst_trial_run_Cons)
qed

lemmas trial_eval_simps = init_trial_def empty_trial_form_def edit_form_def handle_submit_def
  is_form_valid_def personal_complete_def date_disabled_def day_start_def day_ms_def
  trial_goal_options_def trial_source_options_def

lemma signup_run: "trial_run init_trial signup_events = (signup_state, [])"
  by code_simp

lemma signup_events_step: "step (fst (trial_run init_trial signup_events)) = 2"
  by (simp add: signup_run signup_state_def)

lemma trial_run_append:
  "trial_run s (xs @ ys) =
     (case trial_run s xs of (s', effs) \<Rightarrow> (case trial_run s' ys of (s'', effs') \<Rightarrow> (s'', effs @ effs')))"
  by (induction xs arbitrary: s) (auto split: prod.splits)

lemma trial_close_resets:
  "CallOnClose \<in> set (snd (trial_step s e)) \<Longrightarrow> fst (trial_step s e) = init_trial"
  by (cases e) (auto split: if_splits)

lemma signup_events_reach: "trial_reach (fst (trial_run init_trial signup_events))"
  by (rule trial_reach_run [OF trial_reach.init])

text \<open>
  C13. The confirmation page is shown only for a complete form: in every reachable
  state the step is 1 or 2, and at step 2 all eight fields pass \<open>isFormValid\<close>.
\<close>

theorem trial_confirmation_requires_valid_form:
  "trial_reach s \<Longrightarrow> step s \<noteq> 1 \<Longrightarrow> step s = 2 \<and> is_form_valid (formData s)"
  using trial_reach_inv by (auto simp: trial_inv_def)

theorem trial_confirmation_requires_valid_form_witness:
  "trial_reach (fst (trial_run init_trial signup_events)) \<and>
   step (fst (trial_run init_trial signup_events)) = 2 \<and>
   is_form_valid (formData (fst (trial_run init_trial signup_events)))"
  using signup_events_reach signup_events_step
    trial_confirmation_requires_valid_form [OF signup_events_reach]
  by simp

text \<open>
  C14. Every way out of the dialog resets the wizard: dismissing it at any step, and
  closing it or downloading the voucher on the confirmation page, leave step 1 with all
  fields empty and call \<open>onClose\<close>.
\<close>

theorem trial_exit_resets:
  "e = DismissDialog \<or> (step s \<noteq> 1 \<and> (e = ClickClose \<or> e = ClickDownload)) \<Longrightarrow>
   fst (trial_step s e) = init_trial \<and> CallOnClose \<in> set (snd (trial_step s e))"
  by auto

theorem trial_exit_resets_witness:
  "fst (trial_step (fst (trial_run init_trial signup_events)) ClickDownload) = init_trial \<and>
   snd (trial_step (fst (trial_run init_trial signup_events)) ClickDownload) =
     [Alert voucher_message, CallOnClose]"
  using trial_exit_resets [of ClickDownload "fst (trial_run init_trial signup_events)"]
    signup_events_step
  by simp

text \<open>
  C15. A day whose midnight lies before the current time cannot be picked, today
  included once midnight has passed: the pick leaves the state unchanged.
\<close>

theorem past_day_not_selectable:
  "day_start d < now \<Longrightarrow> trial_step s (SelectDate (Some d) now) = (s, [])"
  by (simp add: date_disabled_def)

theorem past_day_not_selectable_witness:
  "day_start 20000 < 20000 * 86400000 + 36000000 \<and>
   trial_step init_trial (SelectDate (Some 20000) (20000 * 86400000 + 36000000)) = (init_trial, [])"
  using past_day_not_selectable [of 20000 "20000 * 86400000 + 36000000" init_trial]
  by (simp add: day_start_def day_ms_def)

text \<open>
  The wizard can be completed: from the initial state the signup events reach the
  confirmation page, and downloading the voucher alerts, closes and starts fresh.
\<close>

lemma trial_signup_completes:
  "step (fst (trial_run init_trial signup_events)) = 2 \<and>
   trial_run init_trial (signup_events @ [ClickDownload]) =
     (init_trial, [Alert voucher_message, CallOnClose])"
  by (simp add: trial_run_append signup_run signup_state_def)

end
