(* ===== verification/Memberships.thy ===== *)
theory Memberships
  imports Prelude
begin

text \<open>
  The membership section (src/src/components/Memberships.tsx): the static catalog of
  three plans and the four-step checkout dialog. The component keeps three state slots:
  the selected plan (the dialog is open exactly when it is set), the checkout step and
  the form. Each button or input the dialog renders at a step is one event; the
  \<open>disabled\<close> props of the two "Continua" buttons are the guards of that event.
\<close>

section \<open>Catalog\<close>

text \<open>
  \<open>interface Membership\<close>. The optional flags \<open>popular\<close> and \<open>premium\<close> are
  \<open>False\<close> where the literal omits them (\<open>undefined\<close> is falsy wherever they are
  read); an omitted \<open>originalPrice\<close> is \<open>None\<close>. \<open>id\<close> and
  \<open>description\<close> are prefixed to keep them apart from HOL's \<open>id\<close> and the
  BMI result's field.
\<close>

record membership =
  mb_id :: js_string
  title :: js_string
  price :: nat
  period :: js_string
  originalPrice :: "nat option"
  features :: "js_string list"
  popular :: bool
  premium :: bool
  mb_description :: js_string

definition memberships :: "membership list" where
  "memberships =
     [\<lparr>mb_id = ''monthly'', title = ''MENSILE'', price = 49, period = ''mese'', originalPrice = None,
       features = [''Accesso illimitato sala pesi'', ''10 corsi inclusi/mese'', ''Spogliatoi e docce'',
                   ''WiFi gratuito'', ''Consulenza iniziale''],
       popular = False, premium = False,
       mb_description = ''Perfetto per iniziare il tuo percorso fitness''\<rparr>,
      \<lparr>mb_id = ''quarterly'', title = ''TRIMESTRALE'', price = 43, period = ''mese'',
       originalPrice = Some 49,
       features = [''Tutto del mensile'', ''Corsi illimitati'', ''1 seduta PT gratuita'',
                   ''Sconto 10% bar interno'', ''App mobile inclusa'', ''Programma nutrizionale base''],
       popular = True, premium = False,
       mb_description = ''Il nostro piano pi'' @ u_grave @ '' scelto dai membri''\<rparr>,
      \<lparr>mb_id = ''annual'', title = ''ANNUALE'', price = 33, period = ''mese'', originalPrice = Some 49,
       features = [''Tutto del trimestrale'', ''3 sedute PT gratuite'', ''Accesso piscina'',
                   ''Porta un amico gratis'', ''Borsa PowerGym omaggio'',
                   ''Area wellness (sauna/bagno turco)'', ''Valutazione corporea mensile''],
       popular = False, premium = True,
       mb_description = ''Massimo valore per i membri pi'' @ u_grave @ '' dedicati''\<rparr>]"

text \<open>\<open>getCardIcon\<close>: premium wins over popular.\<close>

datatype card_icon = Crown | Star | Gift

definition get_card_icon :: "membership \<Rightarrow> card_icon" where
  "get_card_icon m = (if premium m then Crown else if popular m then Star else Gift)"

section \<open>Checkout state\<close>

record checkout_form = personal_info +
  paymentMethod :: js_string

definition empty_checkout_form :: checkout_form where
  "empty_checkout_form = \<lparr>firstName = [], lastName = [], email = [], phone = [], paymentMethod = []\<rparr>"

record checkout_state =
  selectedMembership :: "membership option"
  checkoutStep :: nat
  checkout_formData :: checkout_form

definition init_checkout :: checkout_state where
  "init_checkout = \<lparr>selectedMembership = None, checkoutStep = 1, checkout_formData = empty_checkout_form\<rparr>"

definition payment_options :: "js_string list" where
  "payment_options = [''card'', ''paypal'', ''bank'']"

section \<open>Handlers\<close>

definition handle_purchase :: "membership \<Rightarrow> checkout_state \<Rightarrow> checkout_state" where
  "handle_purchase m s = s\<lparr>selectedMembership := Some m, checkoutStep := 1\<rparr>"

definition handle_next_step :: "checkout_state \<Rightarrow> checkout_state" where
  "handle_next_step s =
     (if checkoutStep s < 4 then s\<lparr>checkoutStep := checkoutStep s + 1\<rparr> else s)"

definition handle_prev_step :: "checkout_state \<Rightarrow> checkout_state" where
  "handle_prev_step s =
     (if checkoutStep s > 1 then s\<lparr>checkoutStep := checkoutStep s - 1\<rparr> else s)"

text \<open>The alert interpolates \<open>selectedMembership?.title\<close>.\<close>

definition purchase_message :: "membership option \<Rightarrow> js_string" where
  "purchase_message sel =
     ''Abbonamento '' @ (case sel of Some m \<Rightarrow> title m | None \<Rightarrow> ''undefined'') @
     '' attivato con successo! Benvenuto in PowerGym!''"

definition complete_purchase :: "checkout_state \<Rightarrow> checkout_state \<times> js_string list" where
  "complete_purchase s =
     (s\<lparr>selectedMembership := None, checkoutStep := 1, checkout_formData := empty_checkout_form\<rparr>,
      [purchase_message (selectedMembership s)])"

text \<open>\<open>onOpenChange={() => setSelectedMembership(null)}\<close>.\<close>

definition dismiss_checkout :: "checkout_state \<Rightarrow> checkout_state" where
  "dismiss_checkout s = s\<lparr>selectedMembership := None\<rparr>"

section \<open>Events\<close>

datatype checkout_event =
    ClickPurchase nat
  | ClickContinue
  | ClickBack
  | EditCoFirstName js_string
  | EditCoLastName js_string
  | EditCoEmail js_string
  | EditCoPhone js_string
  | SelectPayment js_string
  | ClickComplete
  | DismissCheckout

definition checkout_open :: "checkout_state \<Rightarrow> bool" where
  "checkout_open s \<longleftrightarrow> selectedMembership s \<noteq> None"

text \<open>The "Continua" button of each step and its \<open>disabled\<close> prop.\<close>

definition continue_enabled :: "checkout_state \<Rightarrow> bool" where
  "continue_enabled s \<longleftrightarrow>
     (checkoutStep s = 1 \<and> selectedMembership s \<noteq> None) \<or>
     (checkoutStep s = 2 \<and> personal_complete (checkout_formData s)) \<or>
     (checkoutStep s = 3 \<and> js_truthy_str (paymentMethod (checkout_formData s)))"

definition edit_checkout :: "checkout_state \<Rightarrow> (checkout_form \<Rightarrow> checkout_form) \<Rightarrow> checkout_state" where
  "edit_checkout s f =
     (if checkout_open s \<and> checkoutStep s = 2
      then s\<lparr>checkout_formData := f (checkout_formData s)\<rparr> else s)"

text \<open>
  The plan cards are behind the modal overlay while the dialog is open; the step-2
  inputs, the step-3 select and the step-4 button exist only at their step.
\<close>

fun checkout_step :: "checkout_state \<Rightarrow> checkout_event \<Rightarrow> checkout_state \<times> js_string list" where
  "checkout_step s (ClickPurchase i) =
     (if \<not> checkout_open s \<and> i < length memberships
      then (handle_purchase (memberships ! i) s, []) else (s, []))"
| "checkout_step s ClickContinue =
     (if checkout_open s \<and> continue_enabled s then (handle_next_step s, []) else (s, []))"
| "checkout_step s ClickBack =
     (if checkout_open s \<and> (checkoutStep s = 2 \<or> checkoutStep s = 3)
      then (handle_prev_step s, []) else (s, []))"
| "checkout_step s (EditCoFirstName v) = (edit_checkout s (\<lambda>f. f\<lparr>firstName := v\<rparr>), [])"
| "checkout_step s (EditCoLastName v) = (edit_checkout s (\<lambda>f. f\<lparr>lastName := v\<rparr>), [])"
| "checkout_step s (EditCoEmail v) = (edit_checkout s (\<lambda>f. f\<lparr>email := v\<rparr>), [])"
| "checkout_step s (EditCoPhone v) = (edit_checkout s (\<lambda>f. f\<lparr>phone := v\<rparr>), [])"
| "checkout_step s (SelectPayment v) =
     (if checkout_open s \<and> checkoutStep s = 3 \<and> v \<in> set payment_options
      then (s\<lparr>checkout_formData := (checkout_formData s)\<lparr>paymentMethod := v\<rparr>\<rparr>, []) else (s, []))"
| "checkout_step s ClickComplete =
     (if checkout_open s \<and> checkoutStep s = 4 then complete_purchase s else (s, []))"
| "checkout_step s DismissCheckout =
     (if checkout_open s then (dismiss_checkout s, []) else (s, []))"

fun checkout_run :: "checkout_state \<Rightarrow> checkout_event list \<Rightarrow> checkout_state" where
  "checkout_run s [] = s"
| "checkout_run s (e # es) = checkout_run (fst (checkout_step s e)) es"

inductive checkout_reach :: "checkout_state \<Rightarrow> bool" where
  init: "checkout_reach init_checkout"
| step: "checkout_reach s \<Longrightarrow> checkout_reach (fst (checkout_step s e))"

section \<open>Invariant\<close>

text \<open>
  The step stays in 1..4; the personal data is complete from step 3 on and a payment
  method is chosen at step 4.
\<close>

definition checkout_inv :: "checkout_state \<Rightarrow> bool" where
  "checkout_inv s \<longleftrightarrow>
     1 \<le> checkoutStep s \<and> checkoutStep s \<le> 4 \<and>
     (3 \<le> checkoutStep s \<longrightarrow> personal_complete (checkout_formData s)) \<and>
     (checkoutStep s = 4 \<longrightarrow> js_truthy_str (paymentMethod (checkout_formData s)))"

lemmas checkout_handler_defs = handle_purchase_def handle_next_step_def handle_prev_step_def
  complete_purchase_def dismiss_checkout_def

lemma checkout_inv_init: "checkout_inv init_checkout"
  by (simp add: checkout_inv_def init_checkout_def)

lemma checkout_inv_edit: "checkout_inv s \<Longrightarrow> checkout_inv (edit_checkout s f)"
  by (auto simp: checkout_inv_def edit_checkout_def)

lemma checkout_inv_continue:
  "checkout_inv s \<Longrightarrow> continue_enabled s \<Longrightarrow> checkout_inv (handle_next_step s)"
  by (auto simp: checkout_inv_def continue_enabled_def handle_next_step_def)

lemma personal_complete_payment [simp]:
  "personal_complete (f\<lparr>paymentMethod := v\<rparr>) = personal_complete f"
  by (simp add: personal_complete_def)

lemma payment_options_truthy: "v \<in> set payment_options \<Longrightarrow> js_truthy_str v"
  by (auto simp: payment_options_def)

lemma checkout_inv_step:
  assumes inv: "checkout_inv s"
  shows "checkout_inv (fst (checkout_step s e))"
proof (cases e)
  case ClickContinue
  with inv show ?thesis by (simp add: checkout_inv_continue)
next
  case (SelectPayment v)
  with inv show ?thesis by (auto simp: checkout_inv_def payment_options_truthy)
next
  case (EditCoFirstName v)
  with inv show ?thesis by (simp add: checkout_inv_edit)
next
  case (EditCoLastName v)
  with inv show ?thesis by (simp add: checkout_inv_edit)
next
  case (EditCoEmail v)
  with inv show ?thesis by (simp add: checkout_inv_edit)
next
  case (EditCoPhone v)
  with inv show ?thesis by (simp add: checkout_inv_edit)
qed (use inv in \<open>auto simp: checkout_inv_def checkout_handler_defs\<close>)

lemma checkout_reach_inv: "checkout_reach s \<Longrightarrow> checkout_inv s"
  by (induction rule: checkout_reach.induct) (simp_all add: checkout_inv_init checkout_inv_step)

lemma checkout_reach_run: "checkout_reach s \<Longrightarrow> checkout_reach (checkout_run s es)"
  by (induction es arbitrary: s) (simp_all add: checkout_reach.step)

lemmas checkout_eval_simps = init_checkout_def empty_checkout_form_def checkout_open_def
  continue_enabled_def edit_checkout_def personal_complete_def payment_options_def
  checkout_handler_defs memberships_def

text \<open>A purchase of the quarterly plan, up to the summary step.\<close>

definition to_summary_events :: "checkout_event list" where
  "to_summary_events =
     [ClickPurchase 1, ClickContinue, EditCoFirstName ''Mario'', EditCoLastName ''Rossi'',
      EditCoEmail ''mario@example.com'', EditCoPhone ''+39 123 456 7890'', ClickContinue,
      SelectPayment ''card'', ClickContinue]"

lemma to_summary_state:
  "checkout_run init_checkout to_summary_events =
     \<lparr>selectedMembership = Some (memberships ! 1), checkoutStep = 4,
      checkout_formData = \<lparr>firstName = ''Mario'', lastName = ''Rossi'', email = ''mario@example.com'',
                           phone = ''+39 123 456 7890'', paymentMethod = ''card''\<rparr>\<rparr>"
  by (simp add: to_summary_events_def checkout_eval_simps)

lemma to_summary_reach: "checkout_reach (checkout_run init_checkout to_summary_events)"
  by (rule checkout_reach_run [OF checkout_reach.init])

section \<open>Properties\<close>

text \<open>
  C16. In every reachable state of the checkout the step index stays within 1..4:
  \<open>handleNextStep\<close> stops at 4 and \<open>handlePrevStep\<close> at 1.
\<close>

theorem checkout_step_bounds:
  "checkout_reach s \<Longrightarrow> 1 \<le> checkoutStep s \<and> checkoutStep s \<le> 4"
  using checkout_reach_inv by (simp add: checkout_inv_def)

theorem checkout_step_bounds_witness:
  "checkout_reach (checkout_run init_checkout to_summary_events) \<and>
   checkoutStep (checkout_run init_checkout to_summary_events) = 4"
  using checkout_step_bounds [OF to_summary_reach] to_summary_reach
  by (simp add: to_summary_state)

text \<open>
  C17. The checkout never passes a step with missing data: from step 3 on the four
  personal fields are non-empty, and at the summary step a payment method is chosen.
\<close>

theorem checkout_data_gating:
  "checkout_reach s \<Longrightarrow>
   (3 \<le> checkoutStep s \<longrightarrow> personal_complete (checkout_formData s)) \<and>
   (checkoutStep s = 4 \<longrightarrow> js_truthy_str (paymentMethod (checkout_formData s)))"
  using checkout_reach_inv by (simp add: checkout_inv_def)

theorem checkout_data_gating_witness:
  "checkout_reach (checkout_run init_checkout to_summary_events) \<and>
   personal_complete (checkout_formData (checkout_run init_checkout to_summary_events)) \<and>
   js_truthy_str (paymentMethod (checkout_formData (checkout_run init_checkout to_summary_events)))"
  using checkout_data_gating [OF to_summary_reach] to_summary_reach
  by (simp add: to_summary_state)

text \<open>
  C18. The spec's example: at step 2 with an empty email, "Continua" is disabled and the
  step stays 2.
\<close>

theorem continue_blocked_empty_email:
  "checkoutStep s = 2 \<Longrightarrow> email (checkout_formData s) = [] \<Longrightarrow>
   checkout_step s ClickContinue = (s, [])"
  by (simp add: continue_enabled_def personal_complete_def)

theorem continue_blocked_empty_email_witness:
  "checkoutStep (checkout_run init_checkout [ClickPurchase 0, ClickContinue]) = 2 \<and>
   checkout_step (checkout_run init_checkout [ClickPurchase 0, ClickContinue]) ClickContinue =
     (checkout_run init_checkout [ClickPurchase 0, ClickContinue], [])"
proof -
  have st: "checkoutStep (checkout_run init_checkout [ClickPurchase 0, ClickContinue]) = 2"
    and em: "email (checkout_formData (checkout_run init_checkout [ClickPurchase 0, ClickContinue])) = []"
    by (simp_all add: checkout_eval_simps)
  show ?thesis using continue_blocked_empty_email [OF st em] st by simp
qed

text \<open>
  C19. Dismissing the checkout dialog only clears the selected plan: buying any plan
  afterwards restarts at step 1 with the draft of the dismissed checkout still filled in.
\<close>

theorem dismiss_keeps_draft:
  "checkout_open s \<Longrightarrow> i < length memberships \<Longrightarrow>
   fst (checkout_step (fst (checkout_step s DismissCheckout)) (ClickPurchase i)) =
     s\<lparr>selectedMembership := Some (memberships ! i), checkoutStep := 1\<rparr>"
  by (simp add: checkout_open_def dismiss_checkout_def handle_purchase_def)

theorem dismiss_keeps_draft_witness:
  "checkout_open (checkout_run init_checkout to_summary_events) \<and>
   checkout_formData
     (fst (checkout_step (fst (checkout_step (checkout_run init_checkout to_summary_events)
                                 DismissCheckout)) (ClickPurchase 2))) =
   \<lparr>firstName = ''Mario'', lastName = ''Rossi'', email = ''mario@example.com'',
    phone = ''+39 123 456 7890'', paymentMethod = ''card''\<rparr>"
proof -
  have o: "checkout_open (checkout_run init_checkout to_summary_events)"
    by (simp add: to_summary_state checkout_open_def)
  have i: "2 < length memberships" by (simp add: memberships_def)
  let ?s = "checkout_run init_checkout to_summary_events"
  have "checkout_formData (fst (checkout_step (fst (checkout_step ?s DismissCheckout)) (ClickPurchase 2)))
        = checkout_formData (?s\<lparr>selectedMembership := Some (memberships ! 2), checkoutStep := 1\<rparr>)"
    using dismiss_keeps_draft [OF o i] by (rule arg_cong)
  also have "\<dots> = \<lparr>firstName = ''Mario'', lastName = ''Rossi'', email = ''mario@example.com'',
                    phone = ''+39 123 456 7890'', paymentMethod = ''card''\<rparr>"
    by (simp add: to_summary_state)
  finally show ?thesis using o by simp
qed

text \<open>
  C20. Completing the purchase at the summary step alerts the plan's title and returns
  the section to its initial state: no plan selected, step 1, empty form.
\<close>

theorem complete_purchase_resets:
  "checkout_open s \<Longrightarrow> checkoutStep s = 4 \<Longrightarrow>
   checkout_step s ClickComplete = (init_checkout, [purchase_message (selectedMembership s)])"
  by (cases s) (simp add: complete_purchase_def init_checkout_def)

theorem complete_purchase_resets_witness:
  "checkout_step (checkout_run init_checkout to_summary_events) ClickComplete =
     (init_checkout, [''Abbonamento TRIMESTRALE attivato con successo! Benvenuto in PowerGym!''])"
proof -
  have o: "checkout_open (checkout_run init_checkout to_summary_events)"
    and st: "checkoutStep (checkout_run init_checkout to_summary_events) = 4"
    by (simp_all add: to_summary_state checkout_open_def)
  show ?thesis
    using complete_purchase_resets [OF o st]
    by (simp add: to_summary_state purchase_message_def memberships_def)
qed

end
