(* ===== verification/ClassSchedule.thy ===== *)
theory ClassSchedule
  imports Prelude
begin

text \<open>
  The class schedule (src/src/components/ClassSchedule.tsx): the static weekly schedule,
  the day selector, the class cards and the class detail dialog. The component keeps two
  state slots, the selected class (the dialog is open exactly when it is set) and the
  selected day.
\<close>

section \<open>Catalog\<close>

datatype class_level = Principiante | Intermedio | Avanzato

text \<open>
  \<open>interface ClassInfo\<close>; the fields whose names other records of the development
  use as well carry the prefix \<open>cls_\<close>. \<open>spots\<close> is the number of free places
  (the booking button is disabled at 0).
\<close>

record class_info =
  cls_id :: js_string
  cls_name :: js_string
  time :: js_string
  cls_trainer :: js_string
  cls_duration :: nat
  level :: class_level
  spots :: nat
  maxSpots :: nat
  cls_description :: js_string
  icon :: js_string

definition lunedi :: js_string where "lunedi = ''Luned'' @ i_grave"
definition martedi :: js_string where "martedi = ''Marted'' @ i_grave"
definition mercoledi :: js_string where "mercoledi = ''Mercoled'' @ i_grave"
definition giovedi :: js_string where "giovedi = ''Gioved'' @ i_grave"
definition venerdi :: js_string where "venerdi = ''Venerd'' @ i_grave"

text \<open>The icons, as the UTF-8 bytes of the emoji in the source.\<close>

definition icon_yoga :: js_string where "icon_yoga = [CHR 0xF0, CHR 0x9F, CHR 0xA7, CHR 0x98]"
definition icon_pump :: js_string where "icon_pump = [CHR 0xF0, CHR 0x9F, CHR 0x92, CHR 0xAA]"
definition icon_gag :: js_string where "icon_gag = [CHR 0xF0, CHR 0x9F, CHR 0x8D, CHR 0x91]"
definition icon_spin :: js_string where "icon_spin = [CHR 0xF0, CHR 0x9F, CHR 0x9A, CHR 0xB4]"
definition icon_pilates :: js_string where
  "icon_pilates = icon_yoga @ [CHR 0xE2, CHR 0x80, CHR 0x8D, CHR 0xE2, CHR 0x99, CHR 0x80, CHR 0xEF, CHR 0xB8, CHR 0x8F]"
definition icon_zumba :: js_string where "icon_zumba = [CHR 0xF0, CHR 0x9F, CHR 0x92, CHR 0x83]"
definition icon_crossfit :: js_string where
  "icon_crossfit = [CHR 0xF0, CHR 0x9F, CHR 0x8F, CHR 0x8B, CHR 0xEF, CHR 0xB8, CHR 0x8F]"

text \<open>\<open>const schedule: Record<string, ClassInfo[]>\<close>: only Monday and Tuesday are filled in.\<close>

definition schedule :: "(js_string \<times> class_info list) list" where
  "schedule =
     [(lunedi,
       [\<lparr>cls_id = ''lun-9-yoga'', cls_name = ''Yoga'', time = ''9:00'', cls_trainer = ''Sofia Martini'',
         cls_duration = 60, level = Principiante, spots = 12, maxSpots = 15,
         cls_description = ''Equilibrio corpo-mente attraverso posizioni e respirazione'', icon = icon_yoga\<rparr>,
        \<lparr>cls_id = ''lun-10-pump'', cls_name = ''Pump'', time = ''10:30'', cls_trainer = ''Marco Rossi'',
         cls_duration = 45, level = Intermedio, spots = 8, maxSpots = 12,
         cls_description = ''Allenamento con pesi e barre per tonificazione totale'', icon = icon_pump\<rparr>,
        \<lparr>cls_id = ''lun-18-gag'', cls_name = ''GAG'', time = ''18:00'', cls_trainer = ''Laura Bianchi'',
         cls_duration = 50, level = Intermedio, spots = 6, maxSpots = 15,
         cls_description = ''Gambe, Addominali, Glutei - Tonificazione mirata'', icon = icon_gag\<rparr>,
        \<lparr>cls_id = ''lun-19-spin'', cls_name = ''Spinning'', time = ''19:30'', cls_trainer = ''Andrea Verdi'',
         cls_duration = 45, level = Avanzato, spots = 3, maxSpots = 20,
         cls_description = ''Allenamento intenso su bike stazionarie'', icon = icon_spin\<rparr>]),
      (martedi,
       [\<lparr>cls_id = ''mar-9-spin'', cls_name = ''Spinning'', time = ''9:00'', cls_trainer = ''Andrea Verdi'',
         cls_duration = 45, level = Intermedio, spots = 5, maxSpots = 20,
         cls_description = ''Allenamento intenso su bike stazionarie'', icon = icon_spin\<rparr>,
        \<lparr>cls_id = ''mar-10-pilates'', cls_name = ''Pilates'', time = ''10:30'', cls_trainer = ''Sofia Martini'',
         cls_duration = 55, level = Principiante, spots = 10, maxSpots = 12,
         cls_description = ''Core strength e postura attraverso movimenti controllati'', icon = icon_pilates\<rparr>,
        \<lparr>cls_id = ''mar-18-zumba'', cls_name = ''Zumba'', time = ''18:00'', cls_trainer = ''Carmen Rodriguez'',
         cls_duration = 50, level = Principiante, spots = 2, maxSpots = 25,
         cls_description = ''Fitness divertente a ritmo di musica latina'', icon = icon_zumba\<rparr>,
        \<lparr>cls_id = ''mar-19-crossfit'', cls_name = ''CrossFit'', time = ''19:30'', cls_trainer = ''Marco Rossi'',
         cls_duration = 60, level = Avanzato, spots = 7, maxSpots = 15,
         cls_description = ''Allenamento funzionale ad alta intensit'' @ a_grave, icon = icon_crossfit\<rparr>])]"

definition days :: "js_string list" where
  "days = [lunedi, martedi, mercoledi, giovedi, venerdi, ''Sabato'', ''Domenica'']"

section \<open>Display helpers\<close>

text \<open>\<open>getLevelColor\<close>; the level is one of the three literals of its union type.\<close>

fun get_level_color :: "class_level \<Rightarrow> js_string" where
  "get_level_color Principiante = ''bg-accent text-accent-foreground''"
| "get_level_color Intermedio = ''bg-primary text-primary-foreground''"
| "get_level_color Avanzato = ''bg-destructive text-destructive-foreground''"

text \<open>
  \<open>getAvailabilityColor\<close>: the share of free places against 0.7 and 0.3. With
  \<open>maxSpots = 0\<close> JavaScript divides to \<open>Infinity\<close> (above both thresholds) or,
  for \<open>0/0\<close>, to \<open>NaN\<close> (below neither).
\<close>

definition get_availability_color :: "nat \<Rightarrow> nat \<Rightarrow> js_string" where
  "get_availability_color sp mx =
     (if mx = 0 then (if 0 < sp then ''text-accent'' else ''text-destructive'')
      else if (of_nat sp / of_nat mx :: rat) > 0.7 then ''text-accent''
      else if (of_nat sp / of_nat mx :: rat) > 0.3 then ''text-primary''
      else ''text-destructive'')"

section \<open>State and events\<close>

record schedule_state =
  selectedClass :: "class_info option"
  selectedDay :: js_string

definition init_schedule :: schedule_state where
  "init_schedule = \<lparr>selectedClass = None, selectedDay = lunedi\<rparr>"

text \<open>
  The grid: \<open>schedule[selectedDay]?.map(...) || (empty-day message)\<close>. A day with
  no entry renders the message; a day with an entry renders its cards.
\<close>

datatype schedule_view = ClassCards "class_info list" | NoClasses js_string

definition schedule_view :: "js_string \<Rightarrow> schedule_view" where
  "schedule_view day =
     (case map_of schedule day of
        Some cs \<Rightarrow> ClassCards cs
      | None \<Rightarrow> NoClasses (''Nessun corso programmato per '' @ day))"

definition day_classes :: "js_string \<Rightarrow> class_info list" where
  "day_classes day = (case map_of schedule day of Some cs \<Rightarrow> cs | None \<Rightarrow> [])"

definition book_class :: "schedule_state \<Rightarrow> class_info \<Rightarrow> schedule_state \<times> js_string list" where
  "book_class s c =
     (s\<lparr>selectedClass := None\<rparr>,
      [''Prenotazione confermata per '' @ cls_name c @ '' '' @ selectedDay s @ '' alle '' @ time c @ ''!''])"

datatype schedule_event =
    ClickDay js_string
  | ClickClassCard nat
  | ClickClassPrenota nat
  | ClickBookPlace
  | DismissClassDialog

text \<open>
  The day buttons and the cards are behind the dialog's overlay while it is open. The
  card's "Prenota" button stops propagation and, like the card, opens the detail. The
  dialog's "Prenota Posto" is disabled when the class has no free place.
\<close>

fun schedule_step :: "schedule_state \<Rightarrow> schedule_event \<Rightarrow> schedule_state \<times> js_string list" where
  "schedule_step s (ClickDay d) =
     (if selectedClass s = None \<and> d \<in> set days then (s\<lparr>selectedDay := d\<rparr>, []) else (s, []))"
| "schedule_step s (ClickClassCard i) =
     (if selectedClass s = None \<and> i < length (day_classes (selectedDay s))
      then (s\<lparr>selectedClass := Some (day_classes (selectedDay s) ! i)\<rparr>, []) else (s, []))"
| "schedule_step s (ClickClassPrenota i) =
     (if selectedClass s = None \<and> i < length (day_classes (selectedDay s))
      then (s\<lparr>selectedClass := Some (day_classes (selectedDay s) ! i)\<rparr>, []) else (s, []))"
| "schedule_step s ClickBookPlace =
     (case selectedClass s of
        Some c \<Rightarrow> (if spots c = 0 then (s, []) else book_class s c)
      | None \<Rightarrow> (s, []))"
| "schedule_step s DismissClassDialog = (s\<lparr>selectedClass := None\<rparr>, [])"

inductive schedule_reach :: "schedule_state \<Rightarrow> bool" where
  init: "schedule_reach init_schedule"
| step: "schedule_reach s \<Longrightarrow> schedule_reach (fst (schedule_step s e))"

section \<open>Invariant and properties\<close>

definition schedule_inv :: "schedule_state \<Rightarrow> bool" where
  "schedule_inv s \<longleftrightarrow>
     selectedDay s \<in> set days \<and>
     (case selectedClass s of None \<Rightarrow> True | Some c \<Rightarrow> c \<in> set (day_classes (selectedDay s)))"

lemma schedule_inv_init: "schedule_inv init_schedule"
  by (simp add: schedule_inv_def init_schedule_def days_def)

lemma schedule_inv_step: "schedule_inv s \<Longrightarrow> schedule_inv (fst (schedule_step s e))"
  by (cases e) (auto simp: schedule_inv_def book_class_def split: option.splits)

lemma schedule_reach_inv: "schedule_reach s \<Longrightarrow> schedule_inv s"
  by (induction rule: schedule_reach.induct) (simp_all add: schedule_inv_init schedule_inv_step)

lemmas schedule_eval_simps = init_schedule_def day_classes_def schedule_def days_def lunedi_def
  martedi_def mercoledi_def giovedi_def venerdi_def i_grave_def

lemma schedule_open_pump:
  "fst (schedule_step init_schedule (ClickClassCard 1)) =
     \<lparr>selectedClass = Some (day_classes lunedi ! 1), selectedDay = lunedi\<rparr>"
  by (simp add: init_schedule_def) (simp add: day_classes_def schedule_def)

text \<open>
  C21. The open class detail always shows a class of the selected day, and the
  selected day is one of the seven day buttons.
\<close>

theorem schedule_detail_in_day:
  "schedule_reach s \<Longrightarrow> selectedClass s = Some c \<Longrightarrow>
   c \<in> set (day_classes (selectedDay s)) \<and> selectedDay s \<in> set days"
  using schedule_reach_inv by (force simp: schedule_inv_def)

theorem schedule_detail_in_day_witness:
  "schedule_reach (fst (schedule_step init_schedule (ClickClassCard 1))) \<and>
   day_classes lunedi ! 1 \<in> set (day_classes lunedi) \<and> lunedi \<in> set days"
proof -
  have r: "schedule_reach (fst (schedule_step init_schedule (ClickClassCard 1)))"
    by (rule schedule_reach.step [OF schedule_reach.init])
  have o: "selectedClass (fst (schedule_step init_schedule (ClickClassCard 1))) =
           Some (day_classes lunedi ! 1)"
    unfolding schedule_open_pump by simp
  show ?thesis using r schedule_detail_in_day [OF r o] unfolding schedule_open_pump by simp
qed

text \<open>
  The schedule catalog is well formed: every class has at most as many free
  places as places and a positive capacity, the class ids are distinct and every key is
  one of the day buttons.
\<close>

lemma schedule_catalog_wf:
  "list_all (\<lambda>c. spots c \<le> maxSpots c \<and> 0 < maxSpots c) (concat (map snd schedule)) \<and>
   distinct (map cls_id (concat (map snd schedule))) \<and>
   list_all (\<lambda>d. d \<in> set days) (map fst schedule)"
  by (simp add: schedule_def days_def)

text \<open>
  The five days the schedule leaves out render the empty-day message, the two it
  fills in render their cards.
\<close>

lemma schedule_empty_days:
  "list_all (\<lambda>d. schedule_view d = NoClasses (''Nessun corso programmato per '' @ d))
     [mercoledi, giovedi, venerdi, ''Sabato'', ''Domenica''] \<and>
   schedule_view lunedi = ClassCards (day_classes lunedi) \<and>
   schedule_view martedi = ClassCards (day_classes martedi)"
  by (simp add: schedule_view_def schedule_eval_simps)

text \<open>
  C22. A class with no free place cannot be booked: "Prenota Posto" is disabled and the
  state stays as it is.
\<close>

theorem full_class_not_bookable:
  "selectedClass s = Some c \<Longrightarrow> spots c = 0 \<Longrightarrow> schedule_step s ClickBookPlace = (s, [])"
  by simp

theorem full_class_not_bookable_witness:
  "schedule_step \<lparr>selectedClass = Some ((day_classes lunedi ! 1)\<lparr>spots := 0\<rparr>), selectedDay = lunedi\<rparr>
     ClickBookPlace =
   (\<lparr>selectedClass = Some ((day_classes lunedi ! 1)\<lparr>spots := 0\<rparr>), selectedDay = lunedi\<rparr>, [])"
  using full_class_not_bookable [of "\<lparr>selectedClass = Some ((day_classes lunedi ! 1)\<lparr>spots := 0\<rparr>),
                                       selectedDay = lunedi\<rparr>"]
  by simp

text \<open>
  C23. Booking a class with free places confirms it with the class name, the selected
  day and the time, and closes the detail.
\<close>

theorem book_class_closes_detail:
  "selectedClass s = Some c \<Longrightarrow> spots c \<noteq> 0 \<Longrightarrow>
   schedule_step s ClickBookPlace =
     (s\<lparr>selectedClass := None\<rparr>,
      [''Prenotazione confermata per '' @ cls_name c @ '' '' @ selectedDay s @ '' alle '' @ time c @ ''!''])"
  by (simp add: book_class_def)

theorem book_class_closes_detail_witness:
  "schedule_step (fst (schedule_step init_schedule (ClickClassCard 1))) ClickBookPlace =
     (init_schedule, [''Prenotazione confermata per Pump '' @ lunedi @ '' alle 10:30!''])"
proof -
  have o: "selectedClass (fst (schedule_step init_schedule (ClickClassCard 1))) =
           Some (day_classes lunedi ! 1)"
    unfolding schedule_open_pump by simp
  have sp: "spots (day_classes lunedi ! 1) \<noteq> 0"
    by (simp add: day_classes_def schedule_def)
  have "schedule_step (fst (schedule_step init_schedule (ClickClassCard 1))) ClickBookPlace =
        ((fst (schedule_step init_schedule (ClickClassCard 1)))\<lparr>selectedClass := None\<rparr>,
         [''Prenotazione confermata per '' @ cls_name (day_classes lunedi ! 1) @ '' '' @
          selectedDay (fst (schedule_step init_schedule (ClickClassCard 1))) @ '' alle '' @
          time (day_classes lunedi ! 1) @ ''!''])"
    by (rule book_class_closes_detail [OF o sp])
  also have "\<dots> = (init_schedule, [''Prenotazione confermata per Pump '' @ lunedi @ '' alle 10:30!''])"
    unfolding schedule_open_pump by (simp add: init_schedule_def) (simp add: day_classes_def schedule_def)
  finally show ?thesis .
qed

text \<open>
  C24. The card's "Prenota" button is equivalent to a click on the card: although it
  stops propagation, its handler only selects the class, so from every state both events
  lead to the same state with the same effects (the detail dialog, not a booking).
\<close>

theorem card_button_equiv_card:
  "schedule_step s (ClickClassPrenota i) = schedule_step s (ClickClassCard i) \<and>
   snd (schedule_step s (ClickClassPrenota i)) = []"
  by simp

end
