(* ===== verification/Trainers.thy ===== *)
theory Trainers
  imports Prelude
begin

text \<open>
  The trainer directory (src/src/components/Trainers.tsx): the static roster, the
  trainer cards with their two buttons, and the profile dialog. The component keeps one
  state slot, the selected trainer (the dialog is open exactly when it is set).
\<close>

section \<open>Catalog\<close>

record testimonial =
  tm_name :: js_string
  tm_text :: js_string
  tm_rating :: nat

text \<open>
  \<open>interface Trainer\<close>; fields whose names other records use as well carry the
  prefix \<open>tr_\<close>. The optional \<open>image\<close> is set by no entry and read nowhere.
\<close>

record trainer_info =
  tr_id :: js_string
  tr_name :: js_string
  tr_title :: js_string
  specializations :: "js_string list"
  experience :: js_string
  certifications :: "js_string list"
  bio :: js_string
  rating :: rat
  clients :: nat
  testimonials :: "testimonial list"

definition trainers :: "trainer_info list" where
  "trainers =
     [\<lparr>tr_id = ''marco'', tr_name = ''Marco Rossi'', tr_title = ''Personal Trainer & Bodybuilding Coach'',
       specializations = [''Bodybuilding'', ''Powerlifting'', ''Definizione''],
       experience = ''8 anni'',
       certifications = [''ISSA CPT'', ''Nutrizione Sportiva'', ''Powerlifting Coach''],
       bio = ''Specializzato in aumento massa muscolare e definizione. Ha seguito oltre 200 clienti nel raggiungimento dei loro obiettivi di trasformazione fisica.'',
       rating = 4.9, clients = 45,
       testimonials =
         [\<lparr>tm_name = ''Alessandro M.'', tm_text = ''Con Marco ho aumentato 12kg di massa muscolare in 8 mesi. Professionale e sempre disponibile!'', tm_rating = 5\<rparr>,
          \<lparr>tm_name = ''Giulia T.'', tm_text = ''Grazie a Marco ho raggiunto la forma migliore della mia vita. Competente e motivante.'', tm_rating = 5\<rparr>]\<rparr>,
      \<lparr>tr_id = ''sofia'', tr_name = ''Sofia Martini'', tr_title = ''Yoga & Pilates Instructor'',
       specializations = [''Yoga'', ''Pilates'', ''Mindfulness'', ''Stretching''],
       experience = ''6 anni'',
       certifications = [''RYT 500'', ''Pilates Mat Certified'', ''Mindfulness Coach''],
       bio = ''Insegnante certificata di Yoga e Pilates con focus su equilibrio corpo-mente. Specializzata in recupero posturale e gestione dello stress.'',
       rating = 4.8, clients = 60,
       testimonials =
         [\<lparr>tm_name = ''Maria L.'', tm_text = ''Sofia mi ha aiutato a risolvere i miei problemi di mal di schiena. Le sue lezioni sono rigeneranti.'', tm_rating = 5\<rparr>]\<rparr>,
      \<lparr>tr_id = ''andrea'', tr_name = ''Andrea Verdi'', tr_title = ''Spinning & HIIT Specialist'',
       specializations = [''Spinning'', ''HIIT'', ''Cardio'', ''Resistance Training''],
       experience = ''5 anni'',
       certifications = [''Indoor Cycling Instructor'', ''HIIT Specialist'', ''CPR Certified''],
       bio = ''Ex ciclista professionista, ora specializzato in allenamenti ad alta intensit'' @ a_grave @ ''. Le sue lezioni di spinning sono leggendarie per energia e risultati.'',
       rating = 4.9, clients = 80,
       testimonials =
         [\<lparr>tm_name = ''Roberto F.'', tm_text = ''Le lezioni di Andrea sono intense ma divertenti. Ho perso 15kg in 6 mesi!'', tm_rating = 5\<rparr>]\<rparr>,
      \<lparr>tr_id = ''laura'', tr_name = ''Laura Bianchi'', tr_title = ''Functional Training Coach'',
       specializations = [''Functional Training'', ''GAG'', ''TRX'', ''Riabilitazione''],
       experience = ''7 anni'',
       certifications = [''Functional Movement Screen'', ''TRX Suspension Trainer'', ''Rehabilitation Specialist''],
       bio = ''Laureata in Scienze Motorie, specializzata in allenamento funzionale e riabilitazione. Perfetta per chi vuole migliorare forza e mobilit'' @ a_grave @ ''.'',
       rating = 4.7, clients = 35,
       testimonials =
         [\<lparr>tm_name = ''Francesca P.'', tm_text = ''Laura mi ha aiutato a recuperare dopo un infortunio. Ora sono pi'' @ u_grave @ '' forte di prima!'', tm_rating = 5\<rparr>]\<rparr>,
      \<lparr>tr_id = ''carmen'', tr_name = ''Carmen Rodriguez'', tr_title = ''Zumba & Dance Fitness Instructor'',
       specializations = [''Zumba'', ''Dance Fitness'', ''Cardio Dance'', ''Latino''],
       experience = ''4 anni'',
       certifications = [''Zumba Instructor'', ''Dance Fitness Certified'', ''Latin Dance Specialist''],
       bio = ''Ballerina professionista diventata istruttrice di fitness. Le sue lezioni sono un mix perfetto di divertimento e allenamento efficace.'',
       rating = 4.8, clients = 90,
       testimonials =
         [\<lparr>tm_name = ''Valentina S.'', tm_text = ''Con Carmen allenarsi '' @ e_grave @ '' puro divertimento! Non vedo l'ora della prossima lezione.'', tm_rating = 5\<rparr>]\<rparr>]"

section \<open>Display helpers\<close>

text \<open>
  \<open>renderStars\<close>: five stars, the \<open>i\<close>-th filled when \<open>i < Math.floor(rating)\<close>.
\<close>

definition render_stars :: "rat \<Rightarrow> bool list" where
  "render_stars r = map (\<lambda>i. int i < \<lfloor>r\<rfloor>) [0..<5]"

text \<open>
  The card lists the first three specializations and a \<open>+n\<close> badge for the rest.
\<close>

definition shown_specializations :: "trainer_info \<Rightarrow> js_string list \<times> nat option" where
  "shown_specializations t =
     (take 3 (specializations t),
      if length (specializations t) > 3 then Some (length (specializations t) - 3) else None)"

section \<open>State and events\<close>

record trainers_state =
  selectedTrainer :: "trainer_info option"

definition init_trainers :: trainers_state where
  "init_trainers = \<lparr>selectedTrainer = None\<rparr>"

definition book_session :: "trainers_state \<Rightarrow> trainer_info \<Rightarrow> trainers_state \<times> js_string list" where
  "book_session s t =
     (s\<lparr>selectedTrainer := None\<rparr>,
      [''Richiesta inviata per una sessione con '' @ tr_name t @ ''! Ti contatteremo entro 24h.''])"

datatype trainers_event =
    ClickTrainerCard nat
  | ClickCardBook nat
  | ClickViewProfile nat
  | ClickDialogBook
  | DismissTrainerDialog

text \<open>
  The cards are behind the dialog's overlay while it is open. "Prenota Seduta" on a card
  stops propagation and books at once; "Vedi Profilo" selects the trainer and the click
  bubbles to the card, which selects the same trainer again. The dialog's
  "Contatta" button has no handler.
\<close>

fun trainers_step :: "trainers_state \<Rightarrow> trainers_event \<Rightarrow> trainers_state \<times> js_string list" where
  "trainers_step s (ClickTrainerCard i) =
     (if selectedTrainer s = None \<and> i < length trainers
      then (s\<lparr>selectedTrainer := Some (trainers ! i)\<rparr>, []) else (s, []))"
| "trainers_step s (ClickCardBook i) =
     (if selectedTrainer s = None \<and> i < length trainers then book_session s (trainers ! i) else (s, []))"
| "trainers_step s (ClickViewProfile i) =
     (if selectedTrainer s = None \<and> i < length trainers
      then (s\<lparr>selectedTrainer := Some (trainers ! i)\<rparr>, []) else (s, []))"
| "trainers_step s ClickDialogBook =
     (case selectedTrainer s of Some t \<Rightarrow> book_session s t | None \<Rightarrow> (s, []))"
| "trainers_step s DismissTrainerDialog = (s\<lparr>selectedTrainer := None\<rparr>, [])"

inductive trainers_reach :: "trainers_state \<Rightarrow> bool" where
  init: "trainers_reach init_trainers"
| step: "trainers_reach s \<Longrightarrow> trainers_reach (fst (trainers_step s e))"

section \<open>Properties\<close>

lemma length_filter_id_map: "length (filter id (map f xs)) = length (filter f xs)"
  by (induction xs) auto

lemma length_filter_int_less_upt:
  "length (filter (\<lambda>i. int i < k) [0..<n]) = min n (nat k)"
  by (induction n) (auto simp: min_def)

lemma book_session_closed:
  "selectedTrainer s = None \<Longrightarrow> book_session s t =
     (s, [''Richiesta inviata per una sessione con '' @ tr_name t @ ''! Ti contatteremo entro 24h.''])"
  by (cases s) (simp add: book_session_def)

text \<open>
  C25. "Prenota Seduta" on a trainer card books at once and never opens the profile:
  the alert names the trainer and the selection stays empty.
\<close>

theorem card_book_no_detail:
  "selectedTrainer s = None \<Longrightarrow> i < length trainers \<Longrightarrow>
   trainers_step s (ClickCardBook i) =
     (s, [''Richiesta inviata per una sessione con '' @ tr_name (trainers ! i) @
          ''! Ti contatteremo entro 24h.''])"
  by (simp add: book_session_closed)

theorem card_book_no_detail_witness:
  "trainers_step init_trainers (ClickCardBook 0) =
     (init_trainers, [''Richiesta inviata per una sessione con Marco Rossi! Ti contatteremo entro 24h.''])"
proof -
  have n: "selectedTrainer init_trainers = None" by (simp add: init_trainers_def)
  have i: "0 < length trainers" by (simp add: trainers_def)
  show ?thesis using card_book_no_detail [OF n i] by (simp add: trainers_def)
qed

text \<open>
  C26. For a rating between 0 and 5, \<open>renderStars\<close> fills exactly
  \<open>\<lfloor>rating\<rfloor>\<close> of its five stars.
\<close>

theorem render_stars_floor:
  "0 \<le> r \<Longrightarrow> r \<le> 5 \<Longrightarrow> length (filter id (render_stars r)) = nat \<lfloor>r\<rfloor>"
proof -
  assume "r \<le> 5"
  then have "\<lfloor>r\<rfloor> \<le> 5" by (simp add: floor_le_iff)
  then have "nat \<lfloor>r\<rfloor> \<le> 5" by (simp only: nat_le_iff)
  then show ?thesis
    by (simp add: render_stars_def length_filter_id_map length_filter_int_less_upt min_absorb2)
qed

theorem render_stars_floor_witness:
  "length (filter id (render_stars (rating (trainers ! 0)))) = 4"
proof -
  have eq: "rating (trainers ! 0) = 4.9" by (simp add: trainers_def)
  have fl: "\<lfloor>4.9 :: rat\<rfloor> = 4" by (simp add: floor_eq_iff)
  have "length (filter id (render_stars (rating (trainers ! 0)))) = nat \<lfloor>rating (trainers ! 0)\<rfloor>"
    by (rule render_stars_floor) (simp_all add: eq)
  then show ?thesis by (simp add: eq fl)
qed

end
