(* ===== verification/Transformations.thy ===== *)
theory Transformations
  imports Prelude
begin

text \<open>
  The transformation gallery (src/src/components/Transformations.tsx): the static
  case studies, their cards, and a hand-made detail overlay (a fixed backdrop whose click
  closes it, around a panel that stops propagation). The component keeps one state slot,
  the selected case.
\<close>

section \<open>Catalog\<close>

text \<open>
  \<open>interface Transformation\<close>; fields whose names other records use as well carry the
  prefix \<open>tf_\<close>. The optional before/after images are set by no entry.
\<close>

record transformation =
  tf_id :: js_string
  tf_name :: js_string
  age :: nat
  tf_timeline :: js_string
  startWeight :: int
  endWeight :: int
  bodyFatLoss :: nat
  tf_goal :: js_string
  testimonial :: js_string

definition transformations :: "transformation list" where
  "transformations =
     [\<lparr>tf_id = ''1'', tf_name = ''Alessandro M.'', age = 32, tf_timeline = ''6 mesi'', startWeight = 85,
       endWeight = 78, bodyFatLoss = 12, tf_goal = ''Definizione'',
       testimonial = ''PowerGym mi ha cambiato la vita. Non solo ho perso peso, ma ho guadagnato fiducia e energia. I trainer sono fantastici!''\<rparr>,
      \<lparr>tf_id = ''2'', tf_name = ''Giulia T.'', age = 28, tf_timeline = ''8 mesi'', startWeight = 70,
       endWeight = 65, bodyFatLoss = 15, tf_goal = ''Tonificazione'',
       testimonial = ''Risultati incredibili! Finalmente ho il corpo che ho sempre sognato. L'ambiente '' @ e_grave @ '' motivante e professionale.''\<rparr>,
      \<lparr>tf_id = ''3'', tf_name = ''Marco R.'', age = 35, tf_timeline = ''10 mesi'', startWeight = 95,
       endWeight = 82, bodyFatLoss = 18, tf_goal = ''Perdita peso'',
       testimonial = ''Ho perso 13kg e guadagnato una nuova vita. Il supporto del team '' @ e_grave @ '' stato fondamentale per il mio successo.''\<rparr>,
      \<lparr>tf_id = ''4'', tf_name = ''Sofia L.'', age = 26, tf_timeline = ''4 mesi'', startWeight = 58,
       endWeight = 62, bodyFatLoss = 8, tf_goal = ''Massa muscolare'',
       testimonial = ''Volevo aumentare la massa muscolare e ci sono riuscita! Mi sento pi'' @ u_grave @ '' forte e in forma che mai.''\<rparr>,
      \<lparr>tf_id = ''5'', tf_name = ''Roberto F.'', age = 41, tf_timeline = ''12 mesi'', startWeight = 102,
       endWeight = 85, bodyFatLoss = 22, tf_goal = ''Trasformazione completa'',
       testimonial = ''Una trasformazione che va oltre il fisico. Ho ritrovato energia, salute e autostima. Grazie PowerGym!''\<rparr>,
      \<lparr>tf_id = ''6'', tf_name = ''Elena B.'', age = 29, tf_timeline = ''7 mesi'', startWeight = 68,
       endWeight = 61, bodyFatLoss = 14, tf_goal = ''Definizione'',
       testimonial = ''Risultati che superano le aspettative. L'approccio scientifico e personalizzato fa la differenza.''\<rparr>]"

section \<open>Display helpers\<close>

text \<open>\<open>String.prototype.toLowerCase\<close> on the ASCII letters (the goals are ASCII).\<close>

definition js_lower_char :: "char \<Rightarrow> char" where
  "js_lower_char c =
     (if 65 \<le> (of_char c :: nat) \<and> (of_char c :: nat) \<le> 90 then char_of (of_char c + (32 :: nat)) else c)"

definition js_to_lower :: "js_string \<Rightarrow> js_string" where
  "js_to_lower s = map js_lower_char s"

text \<open>\<open>getGoalColor\<close>: a \<open>switch\<close> on the lower-cased goal with a default.\<close>

definition get_goal_color :: "js_string \<Rightarrow> js_string" where
  "get_goal_color g =
     (let l = js_to_lower g in
      if l = ''definizione'' then ''bg-primary text-primary-foreground''
      else if l = ''tonificazione'' then ''bg-accent text-accent-foreground''
      else if l = ''perdita peso'' then ''bg-destructive text-destructive-foreground''
      else if l = ''massa muscolare'' then ''bg-secondary text-secondary-foreground''
      else ''bg-muted text-muted-foreground'')"

text \<open>The weight badge: gained when the end weight is above the start, the absolute change.\<close>

definition weight_change :: "transformation \<Rightarrow> js_string \<times> int" where
  "weight_change t =
     (if endWeight t > startWeight t then ''Guadagnati'' else ''Persi'', \<bar>endWeight t - startWeight t\<bar>)"

section \<open>State and events\<close>

record transformations_state =
  selectedTransformation :: "transformation option"

definition init_transformations :: transformations_state where
  "init_transformations = \<lparr>selectedTransformation = None\<rparr>"

datatype transformations_event =
    ClickTransformationCard nat
  | ClickBackdrop
  | ClickPanel
  | ClickStartJourney
  | ClickCloseTransformation
  | ClickCtaTrial
  | ClickCtaMemberships

text \<open>
  The handlers as written: they run whenever their control is activated. The overlay
  blocks the pointer from the cards and the two buttons of the "Inizia la Tua
  Trasformazione" box, but not the keyboard: the cards' "Leggi Storia Completa" buttons
  and the two box buttons stay focusable behind it (which controls an activation can
  reach is decided by the page, theory Page). A click on a card's "Leggi Storia Completa"
  button has no handler of its own and bubbles to the card, which selects its case even
  while another is shown. The effects are the ids of the anchors scrolled to.
\<close>

fun transformations_step ::
  "transformations_state \<Rightarrow> transformations_event \<Rightarrow> transformations_state \<times> js_string list" where
  "transformations_step s (ClickTransformationCard i) =
     (if i < length transformations
      then (s\<lparr>selectedTransformation := Some (transformations ! i)\<rparr>, []) else (s, []))"
| "transformations_step s ClickBackdrop =
     (if selectedTransformation s \<noteq> None then (s\<lparr>selectedTransformation := None\<rparr>, []) else (s, []))"
| "transformations_step s ClickPanel = (s, [])"
| "transformations_step s ClickStartJourney =
     (if selectedTransformation s \<noteq> None then (s\<lparr>selectedTransformation := None\<rparr>, [''home''])
      else (s, []))"
| "transformations_step s ClickCloseTransformation =
     (if selectedTransformation s \<noteq> None then (s\<lparr>selectedTransformation := None\<rparr>, []) else (s, []))"
| "transformations_step s ClickCtaTrial = (s, [''home''])"
| "transformations_step s ClickCtaMemberships = (s, [''abbonamenti''])"

inductive transformations_reach :: "transformations_state \<Rightarrow> bool" where
  init: "transformations_reach init_transformations"
| step: "transformations_reach s \<Longrightarrow> transformations_reach (fst (transformations_step s e))"

definition transformations_inv :: "transformations_state \<Rightarrow> bool" where
  "transformations_inv s \<longleftrightarrow> set_option (selectedTransformation s) \<subseteq> set transformations"

section \<open>Properties\<close>

lemma transformations_inv_step:
  "transformations_inv s \<Longrightarrow> transformations_inv (fst (transformations_step s e))"
  by (cases e) (auto simp: transformations_inv_def)

lemma transformations_reach_inv: "transformations_reach s \<Longrightarrow> transformations_inv s"
proof (induction rule: transformations_reach.induct)
  case init
  show ?case by (simp add: transformations_inv_def init_transformations_def)
next
  case (step s e)
  from step.IH show ?case by (rule transformations_inv_step)
qed

text \<open>
  Every case but one gets its goal's colour: "Trasformazione completa" matches no
  branch of \<open>getGoalColor\<close> and falls to the muted default.
\<close>

lemma goal_colors_catalog:
  "map (\<lambda>t. get_goal_color (tf_goal t)) transformations =
     [''bg-primary text-primary-foreground'', ''bg-accent text-accent-foreground'',
      ''bg-destructive text-destructive-foreground'', ''bg-secondary text-secondary-foreground'',
      ''bg-muted text-muted-foreground'', ''bg-primary text-primary-foreground'']"
  by code_simp

end
