(* ===== verification/Footer.thy ===== *)
theory Footer
  imports Prelude
begin

text \<open>
  The footer (src/src/components/Footer.tsx): static lists of services and opening hours,
  the contact block, the social buttons (no handlers), the "Prova Gratis 7 Giorni" button
  and the legal links. Its one computation is the rendering of each service, which splits
  the string at \<open>" - "\<close> and shows the two parts in two spans. This theory holds the
  model of \<open>String.prototype.split\<close> that rendering uses, the footer's data, and the
  rendering; the footer's button and links are page events (theory Page).
\<close>

section \<open>String.prototype.split\<close>

text \<open>
  ECMAScript's \<open>StringIndexOf(S, R, i)\<close>: the first position \<open>k \<ge> i\<close> at which
  \<open>R\<close> occurs in \<open>S\<close>. Strings are UTF-8 byte lists here and UTF-16 code unit
  lists in JavaScript; the separators split on are ASCII, whose bytes never occur inside
  the encoding of another character, so positions of matches correspond.
\<close>

definition string_index_of :: "js_string \<Rightarrow> js_string \<Rightarrow> nat \<Rightarrow> nat option" where
  "string_index_of s r i = find (\<lambda>k. take (length r) (drop k s) = r) [i..<Suc (length s) - length r]"

text \<open>
  The loop of \<open>split\<close> (ECMAScript 2023, 22.1.3.23, steps 12-15): starting at
  position \<open>i\<close>, cut the substring up to the next occurrence of the separator, continue
  after it, and end with the rest of the string. It is a \<open>while\<close> loop whose progress
  depends on the separator being non-empty, so it is a partial function: \<open>None\<close> is
  non-termination.
\<close>

partial_function (option) split_from :: "js_string \<Rightarrow> js_string \<Rightarrow> nat \<Rightarrow> js_string list option" where
  "split_from s r i =
     (case string_index_of s r i of
        None \<Rightarrow> Some [drop i s]
      | Some j \<Rightarrow> Option.bind (split_from s r (j + length r)) (\<lambda>ts. Some (take (j - i) (drop i s) # ts)))"

declare split_from.simps [code]

text \<open>
  \<open>S.split(R)\<close> with a string separator and no limit: an empty separator splits into
  single characters, an empty string gives \<open>[S]\<close>, otherwise the loop runs from 0.
\<close>

definition js_split :: "js_string \<Rightarrow> js_string \<Rightarrow> js_string list option" where
  "js_split s r =
     (if r = [] then Some (map (\<lambda>c. [c]) s) else if s = [] then Some [s] else split_from s r 0)"

text \<open>\<open>Array.prototype.join(R)\<close>: the reference the split is checked against.\<close>

fun join_sep :: "js_string \<Rightarrow> js_string list \<Rightarrow> js_string" where
  "join_sep r [] = []"
| "join_sep r [x] = x"
| "join_sep r (x # y # zs) = x @ r @ join_sep r (y # zs)"

text \<open>Indexing an array: \<open>undefined\<close> (rendered as nothing) past its end.\<close>

definition js_at :: "'a list \<Rightarrow> nat \<Rightarrow> 'a option" where
  "js_at xs i = (if i < length xs then Some (xs ! i) else None)"

section \<open>The footer's data and rendering\<close>

definition footer_services :: "js_string list" where
  "footer_services =
     [[CHR 0xF0, CHR 0x9F, CHR 0x8F, CHR 0x8B] @ [CHR 0xEF, CHR 0xB8, CHR 0x8F] @ '' Sala pesi 500mq - 200+ attrezzi Technogym'',
      [CHR 0xF0, CHR 0x9F, CHR 0x8F, CHR 0x8A] @ '' Piscina 25m - Corsi acqua'',
      [CHR 0xF0, CHR 0x9F, CHR 0x92, CHR 0x86] @ '' Area wellness - Sauna e bagno turco'',
      [CHR 0xF0, CHR 0x9F, CHR 0xA5, CHR 0xA4] @ '' Bar proteico - Shakes e snack healthy'',
      [CHR 0xF0, CHR 0x9F, CHR 0x9A, CHR 0xBF] @ '' Spogliatoi moderni - Docce e armadietti'',
      [CHR 0xF0, CHR 0x9F, CHR 0x85, CHR 0xBF] @ [CHR 0xEF, CHR 0xB8, CHR 0x8F] @ '' Parcheggio gratuito - 50 posti'',
      [CHR 0xF0, CHR 0x9F, CHR 0x93, CHR 0xB1] @ '' App mobile - Prenota e traccia workout'',
      [CHR 0xF0, CHR 0x9F, CHR 0x91, CHR 0xB6] @ '' Baby parking - Per genitori'']"

record opening_hours =
  oh_day :: js_string
  oh_time :: js_string

definition footer_hours :: "opening_hours list" where
  "footer_hours =
     [\<lparr>oh_day = ''Lun-Ven'', oh_time = ''6:00 - 23:00''\<rparr>, \<lparr>oh_day = ''Sabato'', oh_time = ''8:00 - 20:00''\<rparr>,
      \<lparr>oh_day = ''Domenica'', oh_time = ''9:00 - 14:00''\<rparr>, \<lparr>oh_day = ''Festivi'', oh_time = ''Chiuso''\<rparr>]"

text \<open>The line under the hours.\<close>

definition footer_open_note :: js_string where
  "footer_open_note = ''Aperta 365 giorni l'anno''"

text \<open>The three legal links of the bottom bar: anchors with \<open>href="#"\<close>.\<close>

definition footer_legal_links :: "(js_string \<times> js_string) list" where
  "footer_legal_links =
     [(''Privacy Policy'', ''#''), (''Termini di Servizio'', ''#''), (''Cookie Policy'', ''#'')]"

text \<open>
  Each service is rendered as \<open>service.split(' - ')[0]\<close> and
  \<open>service.split(' - ')[1]\<close>.
\<close>

definition service_columns :: "js_string \<Rightarrow> js_string option \<times> js_string option" where
  "service_columns s =
     (case js_split s '' - '' of Some ps \<Rightarrow> (js_at ps 0, js_at ps 1) | None \<Rightarrow> (None, None))"

section \<open>Properties\<close>

lemma join_sep_Cons: "ts \<noteq> [] \<Longrightarrow> join_sep r (x # ts) = x @ r @ join_sep r ts"
  by (cases ts) simp_all

lemma string_index_of_Some:
  assumes "string_index_of s r i = Some j"
  shows "i \<le> j" "j + length r \<le> length s" "take (length r) (drop j s) = r"
  using assms by (auto simp: string_index_of_def find_Some_iff)

lemma drop_split_at:
  assumes "i \<le> j" "j + length r \<le> length s" "take (length r) (drop j s) = r"
  shows "drop i s = take (j - i) (drop i s) @ r @ drop (j + length r) s"
proof -
  have "drop i s = take (j - i) (drop i s) @ drop j s"
    using assms(1) by (metis append_take_drop_id drop_drop le_add_diff_inverse2)
  moreover have "drop j s = r @ drop (j + length r) s"
    using assms(3) by (metis append_take_drop_id add.commute drop_drop)
  ultimately show ?thesis by simp
qed

lemma split_from_total:
  assumes r: "r \<noteq> []"
  shows "i \<le> length s \<Longrightarrow> \<exists>ts. split_from s r i = Some ts \<and> ts \<noteq> [] \<and> join_sep r ts = drop i s"
proof (induction "length s - i" arbitrary: i rule: less_induct)
  case less
  show ?case
  proof (cases "string_index_of s r i")
    case None
    then show ?thesis by (simp add: split_from.simps)
  next
    case (Some j)
    note j = string_index_of_Some [OF Some]
    have "0 < length r" using r by simp
    then have "i < j + length r" using j(1) by linarith
    then have lt: "length s - (j + length r) < length s - i" using j(2) by arith
    obtain ts where ts: "split_from s r (j + length r) = Some ts" "ts \<noteq> []"
      "join_sep r ts = drop (j + length r) s"
      using less.hyps [OF lt] j(2) by blast
    show ?thesis
      using ts Some drop_split_at [OF j] by (simp add: split_from.simps join_sep_Cons)
  qed
qed

lemma string_index_of_None:
  "string_index_of s r i = None \<longleftrightarrow> (\<forall>k. i \<le> k \<and> k + length r \<le> length s \<longrightarrow> take (length r) (drop k s) \<noteq> r)"
  by (auto simp: string_index_of_def find_None_iff)

lemma string_index_of_first:
  assumes "string_index_of s r i = Some j" "i \<le> k" "k < j"
  shows "take (length r) (drop k s) \<noteq> r"
proof -
  obtain n where n: "n < length [i..<Suc (length s) - length r]" "j = [i..<Suc (length s) - length r] ! n"
    "\<forall>m<n. take (length r) (drop ([i..<Suc (length s) - length r] ! m) s) \<noteq> r"
    using assms(1) unfolding string_index_of_def find_Some_iff by blast
  have "j = i + n" using n(1,2) by simp
  then have "k - i < n" "[i..<Suc (length s) - length r] ! (k - i) = k" using assms(2,3) n(1) by auto
  then show ?thesis using n(3) by metis
qed

lemma take_drop_part:
  "k + l \<le> m \<Longrightarrow> take l (drop k (take m xs)) = take l (drop k xs)"
  by (simp add: drop_take min_def)

lemma split_from_parts:
  assumes r: "r \<noteq> []"
  shows "i \<le> length s \<Longrightarrow> split_from s r i = Some ts \<Longrightarrow> \<forall>t\<in>set ts. string_index_of t r 0 = None"
proof (induction "length s - i" arbitrary: i ts rule: less_induct)
  case less
  show ?case
  proof (cases "string_index_of s r i")
    case None
    then have "ts = [drop i s]" using less.prems by (simp add: split_from.simps)
    moreover have "string_index_of (drop i s) r 0 = None"
    proof (unfold string_index_of_None, intro allI impI)
      fix k assume "0 \<le> k \<and> k + length r \<le> length (drop i s)"
      then have "i \<le> i + k \<and> i + k + length r \<le> length s" using less.prems(1) by simp
      then have "take (length r) (drop (i + k) s) \<noteq> r"
        using None unfolding string_index_of_None by blast
      then show "take (length r) (drop k (drop i s)) \<noteq> r" by (simp add: add.commute)
    qed
    ultimately show ?thesis by simp
  next
    case (Some j)
    note j = string_index_of_Some [OF Some]
    have "0 < length r" using r by simp
    then have "i < j + length r" using j(1) by linarith
    then have lt: "length s - (j + length r) < length s - i" using j(2) by arith
    obtain us where us: "split_from s r (j + length r) = Some us" "ts = take (j - i) (drop i s) # us"
      using less.prems Some by (auto simp: split_from.simps split: bind_splits)
    have "\<forall>t\<in>set us. string_index_of t r 0 = None" using less.hyps [OF lt] j(2) us(1) by blast
    moreover have "string_index_of (take (j - i) (drop i s)) r 0 = None"
    proof (unfold string_index_of_None, intro allI impI)
      fix k assume k: "0 \<le> k \<and> k + length r \<le> length (take (j - i) (drop i s))"
      then have "k + length r \<le> j - i" by simp
      then have "take (length r) (drop k (take (j - i) (drop i s))) = take (length r) (drop (i + k) s)"
        by (simp add: take_drop_part add.commute)
      moreover have "take (length r) (drop (i + k) s) \<noteq> r"
      proof -
        have "i + k < j" using \<open>0 < length r\<close> \<open>k + length r \<le> j - i\<close> by linarith
        then show ?thesis using string_index_of_first [OF Some, of "i + k"] by simp
      qed
      ultimately show "take (length r) (drop k (take (j - i) (drop i s))) \<noteq> r" by simp
    qed
    ultimately show ?thesis using us(2) by simp
  qed
qed

text \<open>
  \<open>split\<close> always terminates: for every string and every separator, the empty one
  included, it returns a list. (Without the early return for the empty separator, the
  loop would not advance.)
\<close>

lemma js_split_terminates: "\<exists>ts. js_split s r = Some ts"
  using split_from_total [where r = r and s = s and i = 0] by (auto simp: js_split_def)

text \<open>
  \<open>split\<close> is correct for a non-empty separator \<open>R\<close>: joining the parts of
  \<open>S.split(R)\<close> with \<open>R\<close> gives \<open>S\<close> back, and no part contains \<open>R\<close>, so
  the string is cut at every occurrence the left-to-right search finds.
\<close>

lemma js_split_join:
  assumes r: "r \<noteq> []" and sp: "js_split s r = Some ts"
  shows "join_sep r ts = s \<and> (\<forall>t\<in>set ts. string_index_of t r 0 = None)"
proof (cases "s = []")
  case True
  then show ?thesis using r sp by (auto simp: js_split_def string_index_of_def find_None_iff)
next
  case False
  then have sf: "split_from s r 0 = Some ts" using r sp by (simp add: js_split_def)
  with split_from_total [where r = r and s = s and i = 0] r have "join_sep r ts = s" by auto
  moreover have "\<forall>t\<in>set ts. string_index_of t r 0 = None"
    using split_from_parts [OF r _ sf] by simp
  ultimately show ?thesis by simp
qed

text \<open>Every service has exactly two parts, so both spans are filled.\<close>

lemma footer_services_two_columns:
  "map (\<lambda>s. length (the (js_split s '' - ''))) footer_services = replicate 8 2"
  by code_simp

end
