(* ===== verification/Page.thy ===== *)
theory Page
  imports Header Tools FreeTrial Memberships ClassSchedule Trainers Transformations Footer
begin

text \<open>
  The page (src/src/pages/Index.tsx) and the two sections without state of their own
  (Hero.tsx, Footer.tsx). Index keeps one state slot, \<open>isTrialModalOpen\<close>, renders the
  sections in order and passes \<open>onOpenFreeTrial\<close> to Header and Hero and
  \<open>isOpen\<close>/\<open>onClose\<close> to FreeTrialModal. The page state is the product of the
  sections' states; a page event is one section's event, routed to that section's step
  function, and the section's effects are interpreted by the page: scroll requests, alerts,
  and the two callbacks that open and close the free-trial modal.
\<close>

section \<open>The document\<close>

text \<open>
  The ids of the page's sections, in document order: Hero (\<open>home\<close>), ClassSchedule
  (\<open>corsi\<close>), Memberships (\<open>abbonamenti\<close>), Trainers (\<open>trainer\<close>) and
  Transformations (\<open>trasformazioni\<close>); Tools and Footer carry no id.
\<close>

definition page_anchors :: "js_string list" where
  "page_anchors = [''home'', ''corsi'', ''abbonamenti'', ''trainer'', ''trasformazioni'']"

text \<open>
  What the page does outside its state: scroll an element into view, show an alert, or
  navigate to a URL fragment (an anchor's \<open>href\<close>; this adds a history entry).
\<close>

datatype page_effect = Scroll js_string | PageAlert js_string | NavigateHash js_string

text \<open>
  \<open>document.getElementById(id)?.scrollIntoView(...)\<close>: nothing when the document has
  no element with that id.
\<close>

definition scroll_by_id :: "js_string \<Rightarrow> page_effect list" where
  "scroll_by_id i = (if i \<in> set page_anchors then [Scroll i] else [])"

section \<open>The hero's stats bar\<close>

datatype stat_icon = UsersIcon | CalendarIcon | ClockIcon

record hero_stat =
  stat_icon :: stat_icon
  stat_value :: js_string
  stat_label :: js_string

definition hero_stats :: "hero_stat list" where
  "hero_stats =
     [\<lparr>stat_icon = UsersIcon, stat_value = ''500+'', stat_label = ''Soci''\<rparr>,
      \<lparr>stat_icon = UsersIcon, stat_value = ''12'', stat_label = ''Trainer''\<rparr>,
      \<lparr>stat_icon = CalendarIcon, stat_value = ''30+'', stat_label = ''Corsi''\<rparr>,
      \<lparr>stat_icon = ClockIcon, stat_value = ''365'', stat_label = ''Giorni l'anno''\<rparr>]"

section \<open>The hero's and the footer's buttons\<close>

text \<open>
  The hero's "Scopri Abbonamenti" and the footer's "Prova Gratis 7 Giorni" have inline
  handlers \<open>document.getElementById(id)?.scrollIntoView(...)\<close>; the hero's "Prova
  Gratis 7 Giorni" is its \<open>onOpenFreeTrial\<close> prop, wired by the page.
\<close>

definition hero_scopri_abbonamenti :: "page_effect list" where
  "hero_scopri_abbonamenti = scroll_by_id ''abbonamenti''"

definition footer_prova_gratis :: "page_effect list" where
  "footer_prova_gratis = scroll_by_id ''home''"

section \<open>Page state\<close>

text \<open>
  The header's \<open>useHeaderLayout\<close> instance is consumer 0 of the window.
\<close>

definition header_hook :: consumer_id where "header_hook = 0"

record page_state =
  isTrialModalOpen :: bool
  pg_window :: layout_sys
  pg_header :: header_state
  pg_schedule :: schedule_state
  pg_checkout :: checkout_state
  pg_trainers :: trainers_state
  pg_transformations :: transformations_state
  pg_tools :: tools_state
  pg_trial :: trial_state

definition header_layout_of :: "page_state \<Rightarrow> header_layout" where
  "header_layout_of p = (case instances (pg_window p) header_hook of Some h \<Rightarrow> layout h | None \<Rightarrow> Desktop)"

text \<open>
  The page once React has committed its first render and run its effects, in a window
  of width \<open>w\<close>: the header's hook is mounted and has measured the window, every
  section is in its initial state and the trial modal is closed.
\<close>

definition init_page :: "pixels \<Rightarrow> page_state" where
  "init_page w =
     \<lparr>isTrialModalOpen = False,
      pg_window = run_effect header_hook (mount_hook header_hook (init_layout_sys w)),
      pg_header = init_header, pg_schedule = init_schedule, pg_checkout = init_checkout,
      pg_trainers = init_trainers, pg_transformations = init_transformations,
      pg_tools = init_tools, pg_trial = init_trial\<rparr>"

section \<open>Events and their routing\<close>

datatype page_event =
    HeaderEv header_event
  | HeroFreeTrial
  | HeroMemberships
  | ScheduleEv schedule_event
  | CheckoutEv checkout_event
  | TrainersEv trainers_event
  | TransformationsEv transformations_event
  | ToolsEv tools_event
  | ToolsLinkEv tools_link_event
  | FooterFreeTrial
  | FooterLegalLink nat
  | TrialEv trial_event
  | WindowResize pixels

text \<open>
  The layers of the page: its content, and the overlays that cover it while open. Five
  of them are modal dialogs of the UI library (\<open>Dialog\<close>, a Radix dialog: the login
  modal, the three dialogs of the sections and the free-trial modal); the transformation
  detail (Transformations.tsx:255-262) is a plain fixed \<open>div\<close> with a backdrop.
\<close>

datatype page_layer =
    BaseLayer | LoginLayer | ScheduleLayer | CheckoutLayer | TrainersLayer
  | TransformationsLayer | TrialLayer

fun overlay_open :: "page_state \<Rightarrow> page_layer \<Rightarrow> bool" where
  "overlay_open p BaseLayer = False"
| "overlay_open p LoginLayer = isLoginOpen (pg_header p)"
| "overlay_open p ScheduleLayer = (selectedClass (pg_schedule p) \<noteq> None)"
| "overlay_open p CheckoutLayer = checkout_open (pg_checkout p)"
| "overlay_open p TrainersLayer = (selectedTrainer (pg_trainers p) \<noteq> None)"
| "overlay_open p TransformationsLayer = (selectedTransformation (pg_transformations p) \<noteq> None)"
| "overlay_open p TrialLayer = isTrialModalOpen p"

definition overlay_layers :: "page_layer list" where
  "overlay_layers =
     [LoginLayer, ScheduleLayer, CheckoutLayer, TrainersLayer, TransformationsLayer, TrialLayer]"

definition open_overlays :: "page_state \<Rightarrow> page_layer list" where
  "open_overlays p = filter (overlay_open p) overlay_layers"

fun event_layer :: "page_event \<Rightarrow> page_layer" where
  "event_layer (HeaderEv CloseLogin) = LoginLayer"
| "event_layer (ScheduleEv ClickBookPlace) = ScheduleLayer"
| "event_layer (ScheduleEv DismissClassDialog) = ScheduleLayer"
| "event_layer (CheckoutEv (ClickPurchase i)) = BaseLayer"
| "event_layer (CheckoutEv e) = CheckoutLayer"
| "event_layer (TrainersEv ClickDialogBook) = TrainersLayer"
| "event_layer (TrainersEv DismissTrainerDialog) = TrainersLayer"
| "event_layer (TransformationsEv ClickBackdrop) = TransformationsLayer"
| "event_layer (TransformationsEv ClickPanel) = TransformationsLayer"
| "event_layer (TransformationsEv ClickStartJourney) = TransformationsLayer"
| "event_layer (TransformationsEv ClickCloseTransformation) = TransformationsLayer"
| "event_layer (TrialEv e) = TrialLayer"
| "event_layer e = BaseLayer"

definition dialog_layers :: "page_layer list" where
  "dialog_layers = [LoginLayer, ScheduleLayer, CheckoutLayer, TrainersLayer, TrialLayer]"

definition open_dialogs :: "page_state \<Rightarrow> page_layer list" where
  "open_dialogs p = filter (overlay_open p) dialog_layers"

text \<open>
  Which controls an activation (a click, or Enter/Space on the focused control) can reach.
  An open modal dialog traps the focus and makes everything outside it inert, so only its
  own controls react. The transformation overlay only covers the page for the pointer: it
  has no focus trap, so the controls of the page behind it can still be reached with Tab
  and activated from the keyboard. Without an open overlay only the page's controls are
  rendered. The window's resize notifications are not activations.
\<close>

definition page_accepts :: "page_state \<Rightarrow> page_event \<Rightarrow> bool" where
  "page_accepts p e \<longleftrightarrow>
     (case e of
        WindowResize w \<Rightarrow> True
      | _ \<Rightarrow>
          (if open_dialogs p \<noteq> [] then open_dialogs p = [event_layer e]
           else if event_layer e = TransformationsLayer then overlay_open p TransformationsLayer
           else event_layer e = BaseLayer))"

fun header_page_effect :: "header_effect \<Rightarrow> page_effect list" where
  "header_page_effect (ScrollIntoView el) = [Scroll el]"
| "header_page_effect OpenFreeTrial = []"

fun trial_page_effect :: "trial_effect \<Rightarrow> page_effect list" where
  "trial_page_effect (Alert m) = [PageAlert m]"
| "trial_page_effect CallOnClose = []"

text \<open>
  Routing: each section's step on its own slice; the page interprets the effects. The
  header's and the hero's \<open>onOpenFreeTrial\<close> set \<open>isTrialModalOpen\<close>; the modal's
  \<open>onClose\<close> clears it. The footer's "Prova Gratis 7 Giorni" scrolls to \<open>#home\<close>;
  its legal links navigate to the fragment of their \<open>href\<close>.
\<close>

fun page_dispatch :: "page_state \<Rightarrow> page_event \<Rightarrow> page_state \<times> page_effect list" where
  "page_dispatch p (HeaderEv e) =
     (case header_step page_anchors (header_layout_of p) (pg_header p) e of
        (h, effs) \<Rightarrow>
          (p\<lparr>pg_header := h, isTrialModalOpen := (isTrialModalOpen p \<or> OpenFreeTrial \<in> set effs)\<rparr>,
           concat (map header_page_effect effs)))"
| "page_dispatch p HeroFreeTrial = (p\<lparr>isTrialModalOpen := True\<rparr>, [])"
| "page_dispatch p HeroMemberships = (p, hero_scopri_abbonamenti)"
| "page_dispatch p (ScheduleEv e) =
     (case schedule_step (pg_schedule p) e of
        (s, msgs) \<Rightarrow> (p\<lparr>pg_schedule := s\<rparr>, map PageAlert msgs))"
| "page_dispatch p (CheckoutEv e) =
     (case checkout_step (pg_checkout p) e of
        (s, msgs) \<Rightarrow> (p\<lparr>pg_checkout := s\<rparr>, map PageAlert msgs))"
| "page_dispatch p (TrainersEv e) =
     (case trainers_step (pg_trainers p) e of
        (s, msgs) \<Rightarrow> (p\<lparr>pg_trainers := s\<rparr>, map PageAlert msgs))"
| "page_dispatch p (TransformationsEv e) =
     (case transformations_step (pg_transformations p) e of
        (s, ids) \<Rightarrow> (p\<lparr>pg_transformations := s\<rparr>, concat (map scroll_by_id ids)))"
| "page_dispatch p (ToolsEv e) = (p\<lparr>pg_tools := tools_step (pg_tools p) e\<rparr>, [])"
| "page_dispatch p (ToolsLinkEv e) = (p, concat (map scroll_by_id (tools_link (pg_tools p) e)))"
| "page_dispatch p FooterFreeTrial = (p, footer_prova_gratis)"
| "page_dispatch p (FooterLegalLink i) =
     (if i < length footer_legal_links then (p, [NavigateHash (snd (footer_legal_links ! i))])
      else (p, []))"
| "page_dispatch p (TrialEv e) =
     (case trial_step (pg_trial p) e of
        (s, effs) \<Rightarrow>
          (p\<lparr>pg_trial := s, isTrialModalOpen := (isTrialModalOpen p \<and> CallOnClose \<notin> set effs)\<rparr>,
           concat (map trial_page_effect effs)))"
| "page_dispatch p (WindowResize w) = (p\<lparr>pg_window := resize_window w (pg_window p)\<rparr>, [])"

definition page_step :: "page_state \<Rightarrow> page_event \<Rightarrow> page_state \<times> page_effect list" where
  "page_step p e = (if page_accepts p e then page_dispatch p e else (p, []))"

inductive page_reach :: "page_state \<Rightarrow> bool" where
  init: "page_reach (init_page w)"
| step: "page_reach p \<Longrightarrow> page_reach (fst (page_step p e))"

text \<open>
  The invariant of the composition: at most one dialog is open, and the free-trial
  wizard is in its initial state whenever its modal is closed.
\<close>

definition page_inv :: "page_state \<Rightarrow> bool" where
  "page_inv p \<longleftrightarrow> length (open_dialogs p) \<le> 1 \<and> (\<not> isTrialModalOpen p \<longrightarrow> pg_trial p = init_trial)"

section \<open>Properties\<close>

lemma header_step_frame:
  "header_step ids l s e = (h, effs) \<Longrightarrow> OpenFreeTrial \<in> set effs \<Longrightarrow> isLoginOpen h = isLoginOpen s"
  by (cases e) (auto simp: scroll_to_section_def split: if_splits option.splits)

lemma event_layer_range:
  "event_layer (HeaderEv x) \<in> {BaseLayer, LoginLayer}"
  "event_layer (ScheduleEv y) \<in> {BaseLayer, ScheduleLayer}"
  "event_layer (CheckoutEv c) \<in> {BaseLayer, CheckoutLayer}"
  "event_layer (TrainersEv t) \<in> {BaseLayer, TrainersLayer}"
  "event_layer (TransformationsEv f) \<in> {BaseLayer, TransformationsLayer}"
     apply (cases x; simp)
    apply (cases y; simp)
   apply (cases c; simp)
  apply (cases t; simp)
  apply (cases f; simp)
  done

lemma dialog_layers_set:
  "L \<in> set dialog_layers \<longleftrightarrow> L \<noteq> BaseLayer \<and> L \<noteq> TransformationsLayer"
  by (cases L) (simp_all add: dialog_layers_def)

lemma open_overlays_nil_iff:
  "open_overlays p = [] \<longleftrightarrow> open_dialogs p = [] \<and> \<not> overlay_open p TransformationsLayer"
  by (auto simp: open_overlays_def open_dialogs_def overlay_layers_def dialog_layers_def)

lemma accepted_open_dialog:
  assumes acc: "page_accepts p e" and nw: "\<forall>w. e \<noteq> WindowResize w"
    and "L \<in> set dialog_layers" "overlay_open p L"
  shows "L = event_layer e"
proof -
  have L: "L \<in> set (open_dialogs p)" using assms(3,4) by (simp add: open_dialogs_def)
  then have "open_dialogs p \<noteq> []" by auto
  with acc nw have "open_dialogs p = [event_layer e]" by (cases e) (auto simp: page_accepts_def)
  with L show ?thesis by simp
qed

lemma single_dialog:
  assumes "\<forall>L. L \<noteq> K \<longrightarrow> L \<in> set dialog_layers \<longrightarrow> \<not> overlay_open p L"
  shows "length (open_dialogs p) \<le> 1"
proof -
  have "set (open_dialogs p) \<subseteq> {K}" using assms by (auto simp: open_dialogs_def)
  moreover have "distinct (open_dialogs p)" by (simp add: open_dialogs_def dialog_layers_def)
  ultimately show ?thesis
    by (metis card_mono distinct_card finite.emptyI finite.insertI is_singletonI is_singleton_altdef)
qed

lemma page_inv_init: "page_inv (init_page w)"
  by (simp add: page_inv_def init_page_def open_dialogs_def dialog_layers_def init_header_def
      init_schedule_def checkout_open_def init_checkout_def init_trainers_def)

text \<open>An accepted event that changes the overlays of layer \<open>K\<close> only leaves one dialog open.\<close>

lemma accepted_single:
  assumes acc: "page_accepts p e" and nw: "\<forall>w. e \<noteq> WindowResize w"
    and lay: "event_layer e \<in> {BaseLayer, TransformationsLayer, K}"
    and fr: "\<forall>L. L \<noteq> K \<longrightarrow> overlay_open p' L = overlay_open p L"
  shows "length (open_dialogs p') \<le> 1"
proof -
  have "\<forall>L. L \<noteq> K \<longrightarrow> L \<in> set dialog_layers \<longrightarrow> \<not> overlay_open p L"
  proof (intro allI impI notI)
    fix L assume L: "L \<noteq> K" "L \<in> set dialog_layers" "overlay_open p L"
    with accepted_open_dialog [OF acc nw] lay have "L = BaseLayer \<or> L = TransformationsLayer" by auto
    with L(2) show False by (auto simp: dialog_layers_set)
  qed
  with fr have "\<forall>L. L \<noteq> K \<longrightarrow> L \<in> set dialog_layers \<longrightarrow> \<not> overlay_open p' L" by simp
  then show ?thesis by (rule single_dialog)
qed

lemma frame_overlay:
  "L \<noteq> ScheduleLayer \<Longrightarrow> overlay_open (p\<lparr>pg_schedule := s\<rparr>) L = overlay_open p L"
  "L \<noteq> CheckoutLayer \<Longrightarrow> overlay_open (p\<lparr>pg_checkout := c\<rparr>) L = overlay_open p L"
  "L \<noteq> TrainersLayer \<Longrightarrow> overlay_open (p\<lparr>pg_trainers := t\<rparr>) L = overlay_open p L"
  "L \<noteq> TransformationsLayer \<Longrightarrow> overlay_open (p\<lparr>pg_transformations := f\<rparr>) L = overlay_open p L"
  "L \<noteq> TrialLayer \<Longrightarrow> overlay_open (p\<lparr>isTrialModalOpen := b\<rparr>) L = overlay_open p L"
  "L \<noteq> LoginLayer \<Longrightarrow> overlay_open (p\<lparr>pg_header := h\<rparr>) L = overlay_open p L"
  by (cases L; simp)+

lemma overlay_open_untouched:
  "overlay_open (p\<lparr>pg_tools := u\<rparr>) = overlay_open p"
  "overlay_open (p\<lparr>pg_window := v\<rparr>) = overlay_open p"
  by (rule ext, case_tac x, simp_all)+

lemma page_inv_step:
  assumes inv: "page_inv p"
  shows "page_inv (fst (page_step p e))"
proof (cases "page_accepts p e")
  case False
  with inv show ?thesis by (simp add: page_step_def)
next
  case acc: True
  show ?thesis
  proof (cases e)
    case (HeaderEv x)
    obtain h effs where st: "header_step page_anchors (header_layout_of p) (pg_header p) x = (h, effs)"
      by fastforce
    let ?p' = "p\<lparr>pg_header := h, isTrialModalOpen := (isTrialModalOpen p \<or> OpenFreeTrial \<in> set effs)\<rparr>"
    have p': "fst (page_step p e) = ?p'" using acc HeaderEv st by (simp add: page_step_def)
    have "length (open_dialogs ?p') \<le> 1"
    proof (cases "OpenFreeTrial \<in> set effs")
      case True
      then have "x \<noteq> CloseLogin" using st by auto
      then have "event_layer e = BaseLayer" using HeaderEv by (cases x) simp_all
      moreover have "isLoginOpen h = isLoginOpen (pg_header p)" by (rule header_step_frame [OF st True])
      ultimately show ?thesis using acc HeaderEv
        by (intro accepted_single [where K = TrialLayer]) (auto elim: overlay_open.elims)
    next
      case False
      then show ?thesis using acc HeaderEv event_layer_range(1) [of x]
        by (intro accepted_single [where K = LoginLayer]) (auto simp: frame_overlay)
    qed
    with inv p' show ?thesis by (auto simp: page_inv_def)
  next
    case (ScheduleEv x)
    obtain s' m where st: "schedule_step (pg_schedule p) x = (s', m)" by fastforce
    have "length (open_dialogs (p\<lparr>pg_schedule := s'\<rparr>)) \<le> 1"
    proof (rule accepted_single [OF acc])
      show "event_layer e \<in> {BaseLayer, TransformationsLayer, ScheduleLayer}"
        using ScheduleEv event_layer_range(2) by auto
    qed (simp_all add: ScheduleEv frame_overlay)
    then show ?thesis using inv acc ScheduleEv st by (simp add: page_step_def page_inv_def)
  next
    case (CheckoutEv x)
    obtain s' m where st: "checkout_step (pg_checkout p) x = (s', m)" by fastforce
    have "length (open_dialogs (p\<lparr>pg_checkout := s'\<rparr>)) \<le> 1"
    proof (rule accepted_single [OF acc])
      show "event_layer e \<in> {BaseLayer, TransformationsLayer, CheckoutLayer}"
        using CheckoutEv event_layer_range(3) by auto
    qed (simp_all add: CheckoutEv frame_overlay)
    then show ?thesis using inv acc CheckoutEv st by (simp add: page_step_def page_inv_def)
  next
    case (TrainersEv x)
    obtain s' m where st: "trainers_step (pg_trainers p) x = (s', m)" by fastforce
    have "length (open_dialogs (p\<lparr>pg_trainers := s'\<rparr>)) \<le> 1"
    proof (rule accepted_single [OF acc])
      show "event_layer e \<in> {BaseLayer, TransformationsLayer, TrainersLayer}"
        using TrainersEv event_layer_range(4) by auto
    qed (simp_all add: TrainersEv frame_overlay)
    then show ?thesis using inv acc TrainersEv st by (simp add: page_step_def page_inv_def)
  next
    case (TransformationsEv x)
    obtain s' m where st: "transformations_step (pg_transformations p) x = (s', m)" by fastforce
    have "length (open_dialogs (p\<lparr>pg_transformations := s'\<rparr>)) \<le> 1"
    proof (rule accepted_single [OF acc])
      show "event_layer e \<in> {BaseLayer, TransformationsLayer, TransformationsLayer}"
        using TransformationsEv event_layer_range(5) by auto
    qed (simp_all add: TransformationsEv frame_overlay)
    then show ?thesis using inv acc TransformationsEv st by (simp add: page_step_def page_inv_def)
  next
    case (TrialEv x)
    obtain r effs where st: "trial_step (pg_trial p) x = (r, effs)" by fastforce
    have "open_dialogs p = [TrialLayer]" using acc TrialEv by (simp add: page_accepts_def split: if_splits)
    then have "TrialLayer \<in> set (open_dialogs p)" by simp
    then have op: "isTrialModalOpen p" by (simp add: open_dialogs_def)
    let ?p' = "p\<lparr>pg_trial := r, isTrialModalOpen := (isTrialModalOpen p \<and> CallOnClose \<notin> set effs)\<rparr>"
    have "length (open_dialogs ?p') \<le> 1"
    proof (rule accepted_single [OF acc])
      show "\<forall>L. L \<noteq> TrialLayer \<longrightarrow> overlay_open ?p' L = overlay_open p L"
      proof (intro allI impI)
        fix L assume "L \<noteq> TrialLayer"
        then show "overlay_open ?p' L = overlay_open p L" by (cases L) simp_all
      qed
    qed (simp_all add: TrialEv)
    moreover have "r = init_trial" if "CallOnClose \<in> set effs"
      using trial_close_resets [of "pg_trial p" x] that st by simp
    ultimately show ?thesis using acc TrialEv st op by (auto simp: page_step_def page_inv_def)
  next
    case HeroFreeTrial
    have "length (open_dialogs (p\<lparr>isTrialModalOpen := True\<rparr>)) \<le> 1"
      by (rule accepted_single [where K = TrialLayer, OF acc]) (simp_all add: HeroFreeTrial frame_overlay)
    then show ?thesis using acc HeroFreeTrial by (simp add: page_step_def page_inv_def)
  qed (use inv acc in \<open>auto simp: page_step_def page_inv_def open_dialogs_def overlay_open_untouched\<close>)
qed

text \<open>Closing the one open dialog leaves none open.\<close>

lemma frame_trial:
  "L \<noteq> TrialLayer \<Longrightarrow> overlay_open (p\<lparr>pg_trial := r, isTrialModalOpen := b\<rparr>) L = overlay_open p L"
  by (cases L) simp_all

lemma close_single:
  assumes one: "open_dialogs p = [K]" and cl: "\<not> overlay_open p' K"
    and fr: "\<forall>L. L \<noteq> K \<longrightarrow> overlay_open p' L = overlay_open p L"
  shows "open_dialogs p' = []"
proof -
  have "\<not> overlay_open p' L" if "L \<in> set dialog_layers" for L
  proof (cases "L = K")
    case False
    then have "L \<notin> set (open_dialogs p)" using one by simp
    then show ?thesis using that fr False by (simp add: open_dialogs_def)
  qed (use cl in simp)
  then show ?thesis by (simp add: open_dialogs_def filter_empty_conv)
qed

text \<open>Dismissing the open dialog, then the transformation overlay, leaves no overlay open.\<close>

lemma page_step_resize:
  "open_overlays (fst (page_step p (WindowResize w))) = open_overlays p"
  "open_dialogs (fst (page_step p (WindowResize w))) = open_dialogs p"
  by (simp_all add: page_step_def page_accepts_def open_overlays_def open_dialogs_def overlay_open_untouched)

lemma open_dialogs_transformations [simp]:
  "open_dialogs (p\<lparr>pg_transformations := f\<rparr>) = open_dialogs p"
  by (simp add: open_dialogs_def dialog_layers_def)

lemma dismiss_transformation:
  assumes nd: "open_dialogs p = []"
  shows "\<exists>e. open_overlays (fst (page_step p e)) = []"
proof (cases "overlay_open p TransformationsLayer")
  case True
  let ?p' = "fst (page_step p (TransformationsEv ClickBackdrop))"
  have "open_dialogs ?p' = []" using nd True by (simp add: page_step_def page_accepts_def)
  moreover have "\<not> overlay_open ?p' TransformationsLayer"
    using nd True by (simp add: page_step_def page_accepts_def)
  ultimately have "open_overlays ?p' = []" using open_overlays_nil_iff by blast
  then show ?thesis ..
next
  case False
  then have "open_overlays (fst (page_step p (WindowResize 0))) = []"
    using nd by (simp add: page_step_resize open_overlays_nil_iff)
  then show ?thesis ..
qed

lemma dismiss_dialog:
  assumes one: "open_dialogs p = [K]"
  shows "\<exists>e. open_dialogs (fst (page_step p e)) = []"
proof -
  have "K \<in> set (open_dialogs p)" using one by simp
  then have kl: "K \<in> set dialog_layers" by (simp add: open_dialogs_def)
  show ?thesis
  proof (cases K)
    case LoginLayer
    have "open_dialogs (fst (page_step p (HeaderEv CloseLogin))) = []"
      using one LoginLayer
      by (intro close_single [OF one]) (auto simp: page_step_def page_accepts_def frame_overlay)
    then show ?thesis ..
  next
    case ScheduleLayer
    have "open_dialogs (fst (page_step p (ScheduleEv DismissClassDialog))) = []"
      using one ScheduleLayer
      by (intro close_single [OF one]) (auto simp: page_step_def page_accepts_def frame_overlay)
    then show ?thesis ..
  next
    case CheckoutLayer
    have "open_dialogs (fst (page_step p (CheckoutEv DismissCheckout))) = []"
      using one CheckoutLayer
      by (intro close_single [OF one])
        (auto simp: page_step_def page_accepts_def frame_overlay checkout_open_def dismiss_checkout_def)
    then show ?thesis ..
  next
    case TrainersLayer
    have "open_dialogs (fst (page_step p (TrainersEv DismissTrainerDialog))) = []"
      using one TrainersLayer
      by (intro close_single [OF one]) (auto simp: page_step_def page_accepts_def frame_overlay)
    then show ?thesis ..
  next
    case TrialLayer
    have "open_dialogs (fst (page_step p (TrialEv DismissDialog))) = []"
      using one TrialLayer
      by (intro close_single [OF one]) (auto simp: page_step_def page_accepts_def handle_close_def frame_trial)
    then show ?thesis ..
  qed (use kl in \<open>simp_all add: dialog_layers_def\<close>)
qed

lemma page_reach_inv: "page_reach p \<Longrightarrow> page_inv p"
  by (induction rule: page_reach.induct) (simp_all add: page_inv_init page_inv_step)

text \<open>Isolation of the trial wizard: while its modal is closed no event reaches it.\<close>

lemma page_trial_frame:
  "\<not> isTrialModalOpen p \<Longrightarrow> pg_trial (fst (page_step p e)) = pg_trial p"
proof (cases e)
  case (TrialEv x)
  assume "\<not> isTrialModalOpen p"
  then have "TrialLayer \<notin> set (open_dialogs p)" by (simp add: open_dialogs_def)
  then have "\<not> page_accepts p e" using TrialEv by (auto simp: page_accepts_def)
  then show ?thesis by (simp add: page_step_def)
qed (auto simp: page_step_def split: prod.splits)

lemma init_page_layout: "header_layout_of (init_page w) = update_layout w"
  by (simp add: header_layout_of_def init_page_def header_hook_def step_simps)

lemma init_page_no_overlay: "open_overlays (init_page w) = []"
  by (simp add: open_overlays_def overlay_layers_def init_page_def init_header_def init_schedule_def
      checkout_open_def init_checkout_def init_trainers_def init_transformations_def)

text \<open>
  The page's advertised figures contradict its own content: the hero's stats bar
  claims 12 trainers and 365 days a year, and the footer repeats "Aperta 365 giorni
  l'anno"; but the trainer directory the page renders lists 5 trainers, and the footer's
  opening hours, right above that note, say the club is closed on holidays.
\<close>

lemma advertised_figures_contradicted:
  "stat_value (hero_stats ! 1) = ''12'' \<and> stat_label (hero_stats ! 1) = ''Trainer'' \<and>
   length trainers = 5 \<and>
   stat_value (hero_stats ! 3) = ''365'' \<and> footer_open_note = ''Aperta 365 giorni l'anno'' \<and>
   footer_hours ! 3 = \<lparr>oh_day = ''Festivi'', oh_time = ''Chiuso''\<rparr>"
  by (simp add: hero_stats_def trainers_def footer_open_note_def footer_hours_def)

text \<open>
  The three legal links of the footer lead nowhere: each one, on a page without an
  overlay, navigates to the empty fragment \<open>#\<close> and changes nothing else.
\<close>

lemma footer_legal_links_empty:
  "map (\<lambda>i. page_step (init_page w) (FooterLegalLink i)) [0..<length footer_legal_links] =
     replicate 3 (init_page w, [NavigateHash ''#''])"
  using init_page_no_overlay [of w]
  by (simp add: open_overlays_nil_iff page_step_def page_accepts_def footer_legal_links_def upt_rec numeral_3_eq_3)

end
