(* ===== verification/Wizard.thy ===== *)
theory Wizard
  imports FreeTrial Memberships
begin

text \<open>
  The specification describes both dialogs as one pattern, the multi-step wizard: a step
  index from 1 to \<open>N\<close> that advances only when the current step's required fields are
  present, retreats by one, and is reset to 1. This theory states that pattern as a
  relation on step indices and shows that the free-trial wizard (\<open>N = 2\<close>) and the
  checkout (\<open>N = 4\<close>) move only as it allows; and that the checkout, once open, can always
  be completed.
\<close>

section \<open>The abstract wizard\<close>

inductive wizard_move :: "nat \<Rightarrow> (nat \<Rightarrow> bool) \<Rightarrow> nat \<Rightarrow> nat \<Rightarrow> bool"
  for n :: nat and ok :: "nat \<Rightarrow> bool" where
  stay: "wizard_move n ok k k"
| advance: "ok k \<Longrightarrow> k < n \<Longrightarrow> wizard_move n ok k (Suc k)"
| retreat: "1 < k \<Longrightarrow> wizard_move n ok k (k - 1)"
| reset: "wizard_move n ok k 1"

text \<open>
  The required fields of each step, as the specification names them: the personal data
  step (the checkout's step 2) needs the four personal fields; the free-trial form
  (step 1) needs what \<open>isFormValid\<close> checks.
\<close>

definition checkout_requirement :: "checkout_state \<Rightarrow> nat \<Rightarrow> bool" where
  "checkout_requirement s k = (if k = 2 then personal_complete (checkout_formData s) else True)"

definition trial_requirement :: "trial_state \<Rightarrow> nat \<Rightarrow> bool" where
  "trial_requirement s k = (if k = 1 then is_form_valid (formData s) else True)"

text \<open>
  From any step of an open checkout, the events a user sends to finish it: "Continua" on
  the summary, the personal data and "Continua", a payment method and "Continua".
\<close>

definition checkout_fill_events :: "checkout_event list" where
  "checkout_fill_events =
     [EditCoFirstName ''Mario'', EditCoLastName ''Rossi'', EditCoEmail ''mario@example.com'',
      EditCoPhone ''+39 123 456 7890'', ClickContinue]"

definition checkout_pay_events :: "checkout_event list" where
  "checkout_pay_events = [SelectPayment ''card'', ClickContinue]"

definition checkout_finish :: "nat \<Rightarrow> checkout_event list" where
  "checkout_finish k =
     (if k \<le> 1 then [ClickContinue] else []) @ (if k \<le> 2 then checkout_fill_events else []) @
     (if k \<le> 3 then checkout_pay_events else [])"

section \<open>Properties\<close>

lemma wizard_move_Suc0: "wizard_move n ok k (Suc 0)"
  using wizard_move.reset by (simp only: One_nat_def)

lemma checkout_moves:
  "wizard_move 4 (checkout_requirement s) (checkoutStep s) (checkoutStep (fst (checkout_step s e)))"
proof (cases e)
  case ClickContinue
  show ?thesis
  proof (cases "checkout_open s \<and> continue_enabled s \<and> checkoutStep s < 4")
    case True
    then have "checkout_requirement s (checkoutStep s)"
      by (auto simp: checkout_requirement_def continue_enabled_def)
    with True ClickContinue show ?thesis by (simp add: handle_next_step_def wizard_move.advance)
  qed (use ClickContinue in \<open>auto simp: handle_next_step_def intro: wizard_move.stay\<close>)
next
  case ClickBack
  show ?thesis
  proof (cases "checkout_open s \<and> (checkoutStep s = 2 \<or> checkoutStep s = 3)")
    case True
    then have "checkoutStep (fst (checkout_step s e)) = checkoutStep s - 1" "1 < checkoutStep s"
      using ClickBack by (auto simp: handle_prev_step_def)
    then show ?thesis by (metis wizard_move.retreat)
  qed (use ClickBack in \<open>auto intro: wizard_move.stay\<close>)
qed (auto simp: checkout_handler_defs edit_checkout_def intro: wizard_move.stay wizard_move_Suc0)

lemma trial_moves:
  "wizard_move 2 (trial_requirement s) (step s) (step (fst (trial_step s e)))"
proof (cases e)
  case ClickSubmit
  show ?thesis
  proof (cases "step s = 1 \<and> is_form_valid (formData s)")
    case True
    then have "step (fst (trial_step s e)) = Suc (step s)" "trial_requirement s (step s)"
      using ClickSubmit by (simp_all add: handle_submit_def trial_requirement_def)
    with True show ?thesis by (simp add: wizard_move.advance)
  qed (use ClickSubmit in \<open>auto intro: wizard_move.stay\<close>)
qed (auto simp: edit_form_def init_trial_def intro: wizard_move.stay wizard_move_Suc0)

text \<open>
  C27. Both wizards refine the abstract wizard: every event moves the checkout's step
  index (with \<open>N = 4\<close>) and the free-trial step index (with \<open>N = 2\<close>) by a move
  of the specification: stay, advance past a step whose required fields are present,
  retreat by one, or reset to 1.
\<close>

theorem wizards_refine_spec:
  "wizard_move 4 (checkout_requirement s) (checkoutStep s) (checkoutStep (fst (checkout_step s e))) \<and>
   wizard_move 2 (trial_requirement t) (step t) (step (fst (trial_step t f)))"
  by (simp add: checkout_moves trial_moves)

lemma checkout_run_append: "checkout_run s (xs @ ys) = checkout_run (checkout_run s xs) ys"
  by (induction xs arbitrary: s) simp_all

lemma finish_from_3:
  "selectedMembership s = Some m \<Longrightarrow> checkoutStep s = 3 \<Longrightarrow>
   selectedMembership (checkout_run s checkout_pay_events) = selectedMembership s \<and>
   checkoutStep (checkout_run s checkout_pay_events) = 4"
  by (simp add: checkout_pay_events_def checkout_open_def continue_enabled_def payment_options_def handle_next_step_def)

lemma edit_checkout_at_2:
  "selectedMembership s = Some m \<Longrightarrow> checkoutStep s = 2 \<Longrightarrow>
   edit_checkout s f = s\<lparr>checkout_formData := f (checkout_formData s)\<rparr>"
  by (simp add: edit_checkout_def checkout_open_def)

lemma finish_from_2:
  "selectedMembership s = Some m \<Longrightarrow> checkoutStep s = 2 \<Longrightarrow>
   selectedMembership (checkout_run s checkout_fill_events) = selectedMembership s \<and>
   checkoutStep (checkout_run s checkout_fill_events) = 3"
  by (simp add: checkout_fill_events_def checkout_open_def continue_enabled_def edit_checkout_at_2 handle_next_step_def personal_complete_def)

lemma finish_from_1:
  "selectedMembership s = Some m \<Longrightarrow> checkoutStep s = 1 \<Longrightarrow>
   selectedMembership (checkout_run s [ClickContinue]) = selectedMembership s \<and>
   checkoutStep (checkout_run s [ClickContinue]) = 2"
  by (simp add: checkout_open_def continue_enabled_def handle_next_step_def)

lemma checkout_finish_reaches_summary:
  assumes "selectedMembership s = Some m" "1 \<le> checkoutStep s" "checkoutStep s \<le> 4"
  shows "selectedMembership (checkout_run s (checkout_finish (checkoutStep s))) = selectedMembership s \<and>
         checkoutStep (checkout_run s (checkout_finish (checkoutStep s))) = 4"
proof -
  consider "checkoutStep s = 1" | "checkoutStep s = 2" | "checkoutStep s = 3" | "checkoutStep s = 4"
    using assms(2,3) by linarith
  then show ?thesis
  proof cases
    case 1
    let ?s1 = "checkout_run s [ClickContinue]"
    have a: "selectedMembership ?s1 = Some m \<and> checkoutStep ?s1 = 2"
      using finish_from_1 [OF assms(1) 1] assms(1) by simp
    let ?s2 = "checkout_run ?s1 checkout_fill_events"
    have b: "selectedMembership ?s2 = Some m \<and> checkoutStep ?s2 = 3"
      using finish_from_2 [of ?s1 m] a assms(1) by simp
    show ?thesis using finish_from_3 [of ?s2 m] b 1 assms(1)
      by (simp add: checkout_finish_def checkout_run_append)
  next
    case 2
    let ?s2 = "checkout_run s checkout_fill_events"
    have b: "selectedMembership ?s2 = Some m \<and> checkoutStep ?s2 = 3"
      using finish_from_2 [OF assms(1) 2] assms(1) by simp
    show ?thesis using finish_from_3 [of ?s2 m] b 2 assms(1)
      by (simp add: checkout_finish_def checkout_run_append del: checkout_run.simps)
  next
    case 3
    show ?thesis using finish_from_3 [OF assms(1) 3] 3 assms(1) by (simp add: checkout_finish_def)
  next
    case 4
    show ?thesis using 4 by (simp add: checkout_finish_def)
  qed
qed

text \<open>
  C28. An open checkout can always be completed: from every reachable state with a plan
  selected, the finishing events lead to the summary step, where "Completa Acquisto"
  activates the selected plan and returns to the initial state.
\<close>

theorem checkout_can_complete:
  assumes r: "checkout_reach s" and o: "checkout_open s"
  shows "checkout_step (checkout_run s (checkout_finish (checkoutStep s))) ClickComplete =
           (init_checkout, [purchase_message (selectedMembership s)])"
proof -
  have "checkout_inv s" using r by (rule checkout_reach_inv)
  then have "1 \<le> checkoutStep s" "checkoutStep s \<le> 4" by (simp_all add: checkout_inv_def)
  obtain m where m: "selectedMembership s = Some m" using o by (auto simp: checkout_open_def)
  from checkout_finish_reaches_summary [OF m \<open>1 \<le> checkoutStep s\<close> \<open>checkoutStep s \<le> 4\<close>] m
  show ?thesis by (simp add: checkout_open_def complete_purchase_def init_checkout_def)
qed

theorem checkout_can_complete_witness:
  "checkout_step (checkout_run (fst (checkout_step init_checkout (ClickPurchase 0))) (checkout_finish 1))
     ClickComplete =
   (init_checkout, [''Abbonamento MENSILE attivato con successo! Benvenuto in PowerGym!''])"
proof -
  let ?s = "fst (checkout_step init_checkout (ClickPurchase 0))"
  have r: "checkout_reach ?s" by (rule checkout_reach.step [OF checkout_reach.init])
  have o: "checkout_open ?s" by (simp add: checkout_eval_simps)
  have k: "checkoutStep ?s = 1" by (simp add: checkout_eval_simps)
  have m: "purchase_message (selectedMembership ?s) =
             ''Abbonamento MENSILE attivato con successo! Benvenuto in PowerGym!''"
    by (simp add: checkout_eval_simps purchase_message_def)
  have "checkout_step (checkout_run ?s (checkout_finish 1)) ClickComplete =
          (init_checkout, [purchase_message (selectedMembership ?s)])"
    using checkout_can_complete [OF r o] unfolding k .
  then show ?thesis unfolding m .
qed

end
