(* ===== verification/Capacitor.thy ===== *)
theory Capacitor
  imports Footer
begin

text \<open>
  The native wrapper's configuration (src/capacitor.config.ts): the object literal
  \<open>config\<close> as a record, and the parts of Capacitor's reading of it that decide what
  the packaged app shows: where the WebView loads the site from (\<open>server.url\<close> or the
  bundled \<open>webDir\<close>), whether it may load over cleartext HTTP (\<open>server.cleartext\<close>),
  the application id's well-formedness (\<open>appId\<close>, reverse-domain notation as Android's
  \<open>applicationId\<close> requires) and the splash screen's automatic hiding. Capacitor's
  behaviour is modelled from its documented configuration contract.
\<close>

section \<open>The configuration object\<close>

record server_config =
  server_url :: js_string
  server_cleartext :: bool

record splash_config =
  launchShowDuration :: nat
  backgroundColor :: js_string
  showSpinner :: bool

record capacitor_config =
  appId :: js_string
  appName :: js_string
  webDir :: js_string
  server :: "server_config option"
  splash_screen :: "splash_config option"

definition powergym_config :: capacitor_config where
  "powergym_config =
     \<lparr>appId = ''com.powergym.pescara'', appName = ''PowerGym Pescara'', webDir = ''dist'',
      server = Some \<lparr>server_url =
        ''https://875cad10-5dde-4092-8ad9-b2f9c567a27a.lovableproject.com?forceHideBadge=true'',
        server_cleartext = True\<rparr>,
      splash_screen = Some \<lparr>launchShowDuration = 2000, backgroundColor = ''#0f172a'',
        showSpinner = False\<rparr>\<rparr>"

section \<open>Capacitor's reading of the configuration\<close>

text \<open>
  The WebView's start page: with \<open>server.url\<close> set, Capacitor loads that URL (meant for
  a live-reload server); otherwise it serves the web assets copied from \<open>webDir\<close>.
\<close>

datatype web_source = BundledAssets js_string | LiveServer js_string

definition webview_source :: "capacitor_config \<Rightarrow> web_source" where
  "webview_source c =
     (case server c of Some s \<Rightarrow> LiveServer (server_url s) | None \<Rightarrow> BundledAssets (webDir c))"

text \<open>
  Cleartext (\<open>http:\<close>) traffic of the Android WebView is refused by default and allowed
  by \<open>server.cleartext\<close>. The scheme of a URL is what precedes its first colon.
\<close>

definition cleartext_allowed :: "capacitor_config \<Rightarrow> bool" where
  "cleartext_allowed c = (case server c of Some s \<Rightarrow> server_cleartext s | None \<Rightarrow> False)"

definition url_scheme :: "js_string \<Rightarrow> js_string" where
  "url_scheme u = takeWhile (\<lambda>ch. ch \<noteq> CHR '':'') u"

text \<open>
  An application id is at least two dot-separated segments, each a letter followed by
  letters, digits or underscores.
\<close>

definition id_letter :: "char \<Rightarrow> bool" where
  "id_letter ch \<longleftrightarrow>
     (of_char ch \<ge> (97::nat) \<and> of_char ch \<le> (122::nat)) \<or>
     (of_char ch \<ge> (65::nat) \<and> of_char ch \<le> (90::nat))"

definition id_char :: "char \<Rightarrow> bool" where
  "id_char ch \<longleftrightarrow>
     id_letter ch \<or> (of_char ch \<ge> (48::nat) \<and> of_char ch \<le> (57::nat)) \<or> ch = CHR ''_''"

fun id_segment :: "js_string \<Rightarrow> bool" where
  "id_segment [] = False"
| "id_segment (ch # chs) = (id_letter ch \<and> list_all id_char chs)"

definition valid_app_id :: "js_string \<Rightarrow> bool" where
  "valid_app_id s =
     (case js_split s ''.'' of
        Some segs \<Rightarrow> 2 \<le> length segs \<and> list_all id_segment segs
      | None \<Rightarrow> False)"

text \<open>
  The splash screen (\<open>launchAutoHide\<close> is on by default) is shown from launch until
  \<open>launchShowDuration\<close> milliseconds have passed; without the plugin's settings its
  default duration is 500 ms.
\<close>

definition splash_visible :: "capacitor_config \<Rightarrow> nat \<Rightarrow> bool" where
  "splash_visible c t =
     (t < (case splash_screen c of Some sp \<Rightarrow> launchShowDuration sp | None \<Rightarrow> 500))"

section \<open>Properties\<close>

lemma take_one_drop: "k < length t \<Longrightarrow> take (Suc 0) (drop k t) = [t ! k]"
  by (simp add: Cons_nth_drop_Suc [symmetric])

lemma string_index_of_char_None:
  assumes "string_index_of t [c] 0 = None"
  shows "c \<notin> set t"
proof
  assume "c \<in> set t"
  then obtain k where k: "k < length t" "t ! k = c" by (auto simp: in_set_conv_nth)
  then have "take (Suc 0) (drop k t) = [c]" by (simp add: take_one_drop)
  with k(1) assms show False by (auto simp: string_index_of_None)
qed

lemma id_segment_nonempty: "id_segment t \<Longrightarrow> t \<noteq> []"
  by (cases t) simp_all

text \<open>
  A valid application id is a dot-separated list of at least two non-empty segments:
  it neither starts nor ends with a dot, nor has two dots in a row.
\<close>

lemma valid_app_id_segments:
  assumes "valid_app_id s"
  shows "\<exists>segs. join_sep ''.'' segs = s \<and> 2 \<le> length segs \<and>
           (\<forall>t\<in>set segs. t \<noteq> [] \<and> CHR ''.'' \<notin> set t)"
proof -
  obtain segs where sp: "js_split s ''.'' = Some segs" and n: "2 \<le> length segs"
      and ids: "list_all id_segment segs"
    using assms by (auto simp: valid_app_id_def split: option.splits)
  have "s \<noteq> []" using sp n by (auto simp: js_split_def)
  then have sf: "split_from s ''.'' 0 = Some segs" using sp by (simp add: js_split_def)
  have "join_sep ''.'' segs = s"
    using split_from_total [where r = "''.''" and s = s and i = 0] sf by auto
  moreover have "\<forall>t\<in>set segs. t \<noteq> [] \<and> CHR ''.'' \<notin> set t"
    using split_from_parts [OF _ _ sf] ids
    by (auto simp: list_all_iff id_segment_nonempty string_index_of_char_None)
  ultimately show ?thesis using n by blast
qed

text \<open>
  The packaged app does not run the site it is built from: its WebView starts on the
  hosted preview (\<open>server.url\<close>), not on the bundled \<open>dist\<close> assets of
  \<open>webDir\<close>; that URL is HTTPS, and cleartext traffic is nevertheless enabled.
\<close>

lemma powergym_webview_remote:
  "webview_source powergym_config =
     LiveServer ''https://875cad10-5dde-4092-8ad9-b2f9c567a27a.lovableproject.com?forceHideBadge=true'' \<and>
   webview_source powergym_config \<noteq> BundledAssets (webDir powergym_config) \<and>
   url_scheme (server_url (the (server powergym_config))) = ''https'' \<and>
   cleartext_allowed powergym_config"
  by (simp add: powergym_config_def webview_source_def cleartext_allowed_def url_scheme_def)

lemma powergym_app_id_valid: "valid_app_id (appId powergym_config)"
  by code_simp

lemma powergym_splash: "splash_visible powergym_config t \<longleftrightarrow> t < 2000"
  by (simp add: splash_visible_def powergym_config_def)

end
