(* ===== verification/Spec2Isabelle.thy ===== *)
theory Spec2Isabelle
  imports Page Wizard Capacitor
begin

text \<open>
  \<^bold>\<open>PowerGym: a verification development of the single-page site.\<close>

  \<^medskip>\<^bold>\<open>The program.\<close> src/src/pages/Index.tsx renders, in order, Header, Hero,
  ClassSchedule, Memberships, Trainers, Transformations, Tools and Footer, and the
  FreeTrialModal. Every component keeps its own \<open>useState\<close> slots; they interact only
  through Index's \<open>isTrialModalOpen\<close> slot (opened by the \<open>onOpenFreeTrial\<close> prop of
  Header and Hero, closed by the modal's \<open>onClose\<close>), through scrolling to the sections'
  element ids, and through the window's resize events that the header's
  \<open>useHeaderLayout\<close> hook (src/src/hooks/use-header-layout.tsx) listens to.

  \<^medskip>\<^bold>\<open>How it is modelled.\<close> Each component is a theory with its state as a
  \<open>record\<close> (one field per \<open>useState\<close> slot), its static data as definitions with the
  source's literals (UTF-8 bytes for accented letters and emoji), one definition per handler,
  a \<open>datatype\<close> of the user events its rendered controls can fire, and a step function
  \<open>state \<Rightarrow> event \<Rightarrow> state \<times> effects\<close>; a control that is not rendered, disabled, or
  covered by an overlay makes the event a no-op. Effects (alerts, scroll requests,
  callbacks) are returned as lists. Each component has an \<open>inductive\<close> reachability
  predicate from its initial state.
  \<^item> Prelude: JavaScript string truthiness, the shared personal-data record of the two
    forms, multiset and option facts.
  \<^item> HeaderLayout (use-header-layout.tsx): \<open>update_layout\<close> is \<open>updateLayout\<close>; the
    window is \<open>layout_sys\<close> with the current width, a multiset of registered resize
    listeners and the mounted hook instances; \<open>mount_hook\<close>, \<open>run_effect\<close>,
    \<open>resize_window\<close> and \<open>unmount_hook\<close> are the render, the effect, the listener and
    the cleanup.
  \<^item> Header (Header.tsx): \<open>header_step\<close> over \<open>isMenuOpen\<close>/\<open>isLoginOpen\<close>,
    parameterised by the layout and the document's ids; \<open>scroll_to_section\<close> is
    \<open>scrollToSection\<close> with its element check.
  \<^item> Tools (Tools.tsx): \<open>parse_float\<close> (ECMAScript \<open>parseFloat\<close> over exact rationals),
    \<open>calculate_bmi\<close>, \<open>classify_bmi\<close>, \<open>generate_goal_plan\<close> with the plans table,
    \<open>to_fixed_1\<close> (\<open>toFixed(1)\<close>), \<open>tools_step\<close> and the two result links. The
    controls deliver what the browser delivers: a number input's value is sanitized to a
    valid floating-point number or the empty string (\<open>number_input_value\<close>), and a
    Select only ever reports one of its items (\<open>goal_options\<close>, \<open>timeline_options\<close>).
  \<^item> FreeTrial (FreeTrialModal.tsx): \<open>trial_step\<close> with \<open>reset_form\<close>,
    \<open>handle_submit\<close>, \<open>handle_close\<close>, \<open>download_voucher\<close>, \<open>is_form_valid\<close> and the
    calendar's \<open>date_disabled\<close>.
  \<^item> Memberships (Memberships.tsx): the plan catalog and \<open>checkout_step\<close> with
    \<open>handle_purchase\<close>, \<open>handle_next_step\<close>, \<open>handle_prev_step\<close>, \<open>complete_purchase\<close>
    and the \<open>disabled\<close> props as \<open>continue_enabled\<close>.
  \<^item> ClassSchedule, Trainers, Transformations: the catalogs, the selection slots, the
    dialogs or overlay, \<open>book_class\<close>, \<open>book_session\<close>, \<open>render_stars\<close>,
    \<open>get_goal_color\<close> and the colour helpers.
  \<^item> Footer (Footer.tsx): the services and hours data and the rendering of each
    service as \<open>service.split(' - ')[0]\<close> and \<open>[1]\<close> (\<open>service_columns\<close>), with
    \<open>String.prototype.split\<close> modelled from the ECMAScript specification:
    \<open>string_index_of\<close> is StringIndexOf and \<open>split_from\<close> the search loop, a
    \<open>partial_function (option)\<close> in which non-termination is \<open>None\<close>.
  \<^item> Page (Index.tsx, Hero.tsx, Footer.tsx): the hero's stats bar (\<open>hero_stats\<close>),
    the inline scroll handlers of the hero and the footer (\<open>hero_scopri_abbonamenti\<close>,
    \<open>footer_prova_gratis\<close>); \<open>page_state\<close> is the product of the
    sections' states with \<open>isTrialModalOpen\<close> and the window; \<open>page_dispatch\<close> routes a
    page event to its section and interprets the effects; \<open>page_step\<close> delivers an
    activation only to the controls it can reach (\<open>page_accepts\<close>): while one of the
    five modal dialogs is open (\<open>open_dialogs\<close>), only that dialog's controls; while
    only the transformation overlay is open, its own controls and, by keyboard, the page
    behind it (the overlay is a plain \<open>div\<close> with no focus trap).
  \<^item> Capacitor (src/capacitor.config.ts): the native wrapper's \<open>config\<close> as a record
    (\<open>powergym_config\<close>) and Capacitor's documented reading of it: the WebView's start
    page (\<open>webview_source\<close>), cleartext permission, the application id's
    reverse-domain form (\<open>valid_app_id\<close>, through the model of \<open>split\<close>) and the
    splash screen's duration. It is configuration only, with no state of its own.
  \<^item> Wizard: the specification's abstract multi-step wizard (\<open>wizard_move\<close>) and the
    refinement and completion results for the two wizards.

  \<^medskip>\<^bold>\<open>What is proved.\<close> Per component: the classifier bands; one resize
  listener per hook instance, none after unmount, and the layout tracking the last width;
  the BMI bands, the computation and the early returns of \<open>calculateBMI\<close>, and the
  result card showing a rounded value across a threshold from its category; the goal
  planner always showing the selected goal's plan; the wizards' invariants (step bounds,
  data present before each step, confirmation only for a valid form), their resets and
  their gating; the schedule's detail belonging to the selected day, the booking guard,
  and the card's Prenota button being equivalent to a click on the card; the trainers'
  booking and star rendering. Across components: both wizards refine the abstract wizard,
  an open checkout can always be completed, at most one modal dialog is open at a time,
  two events always clear every overlay, the free-trial wizard always opens fresh, every
  header link reaches a rendered section, and which buttons open the trial. Supporting
  lemmas cover the models of the built-ins (\<open>split\<close> terminates and its parts join
  back to the string, \<open>toFixed(1)\<close> read back is within 0.05) and the static data
  (catalog well-formedness, the advertised figures, the Capacitor configuration). Where
  the code departs from the specification or its own labels, a theorem states what the
  code does.

  \<^medskip>\<^bold>\<open>Bounds and termination.\<close> The components' handlers are total and
  structural: they have no loops beyond list traversals of the static catalogs, so no fuel
  is needed; \<open>nat_digits\<close> recurses on \<open>n div 10\<close>. The one loop that is not
  structural, the search of \<open>split\<close>, is a \<open>partial_function (option)\<close>, and its
  termination is proved for every string and separator (the measure is the length of the
  rest of the string, which each match shortens by the separator's non-zero length; the
  empty separator is a separate branch of \<open>split\<close>). The liveness result exhibits the
  finishing event sequence explicitly (at most eight events).

  \<^medskip>\<^bold>\<open>Not modelled.\<close> Numbers are exact rationals: binary64 rounding, \<open>Infinity\<close>
  and \<open>toFixed\<close> from \<open>10^21\<close> on are outside the model. The markup and styling, the
  social and "Contatta" buttons (no handlers), the Dialog's internals (an open dialog is
  taken to trap the focus and make the rest of the page inert, as a modal Radix dialog
  does; LoginModal is assumed to be such a dialog), the focusability of the collapsed
  mobile menu (its links are taken as unreachable while it is closed), time zones of the calendar (days are
  UTC days of the \<open>Date\<close> value), the smooth-scroll animation, the Capacitor
  native build and the rest of Capacitor's runtime (only the configuration's documented
  meaning is modelled), the Footer's contact block (static text), and LoginModal and the
  UI library's components under src/components/ui: they are imported but not part of the
  repository's sources, and the spec does not describe them, so the sections use them
  only through the dialog, select and calendar contracts above.
\<close>

section \<open>Properties of the composition\<close>

text \<open>
  C29. The modal dialogs of the page exclude each other: in every reachable page state at
  most one of the login modal, the three section dialogs and the free-trial modal is open.
  The transformation overlay is not modal (it has no focus trap), so a keyboard user can
  open a dialog above it; that is the only way two overlays are open at once.
\<close>

theorem page_single_dialog:
  "page_reach p \<Longrightarrow> length (open_dialogs p) \<le> 1"
  using page_reach_inv by (simp add: page_inv_def)

theorem page_single_dialog_witness:
  "page_reach (fst (page_step (fst (page_step (init_page 1200) (TransformationsEv (ClickTransformationCard 0)))) HeroFreeTrial)) \<and>
   open_overlays (fst (page_step (fst (page_step (init_page 1200) (TransformationsEv (ClickTransformationCard 0)))) HeroFreeTrial)) = [TransformationsLayer, TrialLayer] \<and>
   open_dialogs (fst (page_step (fst (page_step (init_page 1200) (TransformationsEv (ClickTransformationCard 0)))) HeroFreeTrial)) = [TrialLayer] \<and>
   length [TrialLayer] \<le> 1"
proof -
  let ?p = "fst (page_step (fst (page_step (init_page 1200) (TransformationsEv (ClickTransformationCard 0)))) HeroFreeTrial)"
  have r: "page_reach ?p" by (rule page_reach.step [OF page_reach.step [OF page_reach.init]])
  have o: "open_overlays ?p = [TransformationsLayer, TrialLayer] \<and> open_dialogs ?p = [TrialLayer]"
    by code_simp
  show ?thesis using r o page_single_dialog [OF r] by simp
qed

text \<open>
  C31. The free-trial wizard always opens fresh: whenever an event opens the trial modal,
  the wizard behind it is at step 1 with an empty form, whatever was typed before the
  modal was last closed.
\<close>

theorem trial_opens_fresh:
  assumes r: "page_reach p" and closed: "\<not> isTrialModalOpen p"
  shows "pg_trial (fst (page_step p e)) = init_trial"
proof -
  have "pg_trial p = init_trial" using page_reach_inv [OF r] closed by (simp add: page_inv_def)
  with page_trial_frame [OF closed] show ?thesis by simp
qed

theorem trial_opens_fresh_witness:
  "isTrialModalOpen (fst (page_step (init_page 1200) HeroFreeTrial)) \<and>
   pg_trial (fst (page_step (init_page 1200) HeroFreeTrial)) = init_trial"
proof -
  have r: "page_reach (init_page 1200)" by (rule page_reach.init)
  have c: "\<not> isTrialModalOpen (init_page 1200)" by (simp add: init_page_def)
  have "pg_trial (fst (page_step (init_page 1200) HeroFreeTrial)) = init_trial"
    by (rule trial_opens_fresh [OF r c])
  moreover have "isTrialModalOpen (fst (page_step (init_page 1200) HeroFreeTrial))"
    using init_page_no_overlay [of 1200] by (simp add: open_overlays_nil_iff page_step_def page_accepts_def)
  ultimately show ?thesis by simp
qed

text \<open>
  C32. No header link is dead: in the wide layouts, with no overlay open, the \<open>i\<close>-th
  navigation link scrolls to a section the page renders (its href without the \<open>#\<close>)
  and closes the menu; the page state is otherwise unchanged.
\<close>

theorem header_links_resolve:
  assumes wide: "showFullNav (use_header_layout_result (header_layout_of p))"
    and free: "open_overlays p = []" and i: "i < length navigation"
  shows "page_step p (HeaderEv (ClickNav i)) =
           (p\<lparr>pg_header := (pg_header p)\<lparr>isMenuOpen := False\<rparr>\<rparr>,
            [Scroll (tl (nav_href (navigation ! i)))]) \<and>
         tl (nav_href (navigation ! i)) \<in> set page_anchors"
proof -
  obtain a where a: "nav_href (navigation ! i) = CHR ''#'' # a"
    and mem: "a \<in> set [''home'', ''corsi'', ''trainer'', ''abbonamenti'', ''trasformazioni'']"
    using nav_href_nth [OF i] by blast
  have anch: "a \<in> set page_anchors" using mem by (auto simp: page_anchors_def)
  have acc: "page_accepts p (HeaderEv (ClickNav i))"
    using free by (simp add: page_accepts_def open_overlays_nil_iff)
  show ?thesis using acc wide i a anch
    by (simp add: page_step_def scroll_to_section_def)
qed

theorem header_links_resolve_witness:
  "page_step (init_page 1200) (HeaderEv (ClickNav 3)) =
     ((init_page 1200)\<lparr>pg_header := (pg_header (init_page 1200))\<lparr>isMenuOpen := False\<rparr>\<rparr>,
      [Scroll ''abbonamenti''])"
proof -
  have w: "showFullNav (use_header_layout_result (header_layout_of (init_page 1200)))"
    by (simp add: init_page_layout update_layout_def use_header_layout_result_def)
  have n: "(3::nat) < length navigation" by (simp add: navigation_def)
  have h: "tl (nav_href (navigation ! 3)) = ''abbonamenti''" by (simp add: navigation_def)
  show ?thesis using header_links_resolve [OF w init_page_no_overlay n] unfolding h by simp
qed

text \<open>
  C30. No overlay traps the user: from every reachable page state at most two events
  leave no overlay open. The first dismisses the open dialog (the login modal's
  \<open>onClose\<close> or a dialog's \<open>onOpenChange\<close>), the second the transformation
  overlay below it (its backdrop). One event does not always suffice: a dialog can be open
  above the transformation overlay.
\<close>

theorem overlay_dismissible:
  assumes r: "page_reach p"
  shows "\<exists>e1 e2. open_overlays (fst (page_step (fst (page_step p e1)) e2)) = []"
proof (cases "open_dialogs p")
  case Nil
  then obtain e where "open_overlays (fst (page_step p e)) = []" using dismiss_transformation by blast
  then have "open_overlays (fst (page_step (fst (page_step p e)) (WindowResize 0))) = []"
    by (simp add: page_step_resize)
  then show ?thesis by blast
next
  case (Cons K ls)
  have "length (open_dialogs p) \<le> 1" using page_reach_inv [OF r] by (simp add: page_inv_def)
  with Cons have "open_dialogs p = [K]" by simp
  then obtain e1 where "open_dialogs (fst (page_step p e1)) = []" using dismiss_dialog by blast
  then obtain e2 where "open_overlays (fst (page_step (fst (page_step p e1)) e2)) = []"
    using dismiss_transformation by blast
  then show ?thesis by blast
qed

theorem overlay_dismissible_witness:
  "page_reach (fst (page_step (fst (page_step (init_page 1200) (TransformationsEv (ClickTransformationCard 0)))) HeroFreeTrial)) \<and>
   open_overlays (fst (page_step (fst (page_step (init_page 1200) (TransformationsEv (ClickTransformationCard 0)))) HeroFreeTrial)) = [TransformationsLayer, TrialLayer] \<and>
   (\<exists>e1 e2. open_overlays (fst (page_step (fst (page_step (fst (page_step (fst (page_step (init_page 1200) (TransformationsEv (ClickTransformationCard 0)))) HeroFreeTrial)) e1)) e2)) = [])"
proof -
  let ?p = "fst (page_step (fst (page_step (init_page 1200) (TransformationsEv (ClickTransformationCard 0)))) HeroFreeTrial)"
  have r: "page_reach ?p" by (rule page_reach.step [OF page_reach.step [OF page_reach.init]])
  have o: "open_overlays ?p = [TransformationsLayer, TrialLayer]" by code_simp
  show ?thesis using r o overlay_dismissible [OF r] by simp
qed

text \<open>
  C33. Of the page's "Prova Gratis" buttons only the header's and the hero's open the
  free-trial modal: the footer's "Prova Gratis 7 Giorni" only scrolls back to the top of
  the page, leaving the modal closed.
\<close>

theorem footer_trial_scrolls_home:
  "open_overlays p = [] \<Longrightarrow>
   page_step p FooterFreeTrial = (p, [Scroll ''home'']) \<and>
   page_step p HeroFreeTrial = (p\<lparr>isTrialModalOpen := True\<rparr>, [])"
  by (simp add: open_overlays_nil_iff page_step_def page_accepts_def footer_prova_gratis_def
      scroll_by_id_def page_anchors_def)

theorem footer_trial_scrolls_home_witness:
  "page_step (init_page 320) FooterFreeTrial = (init_page 320, [Scroll ''home'']) \<and>
   \<not> isTrialModalOpen (fst (page_step (init_page 320) FooterFreeTrial))"
  using footer_trial_scrolls_home [OF init_page_no_overlay [of 320]]
  by (simp add: init_page_def)

end
